theory Spec2Isabelle
  imports Complex_Main
begin

section \<open>JavaScript values\<close>

text \<open>
  The Gemini service layer of the repository comes in two near-identical files,
  \<^verbatim>\<open>services/geminiService.ts\<close> and a second copy (\<^verbatim>\<open>unnamed/part_000\<close>).
  They differ in \<^verbatim>\<open>getAiInstance\<close>, in the exhaustion branch of
  \<^verbatim>\<open>callGeminiWithRetry\<close> and in the catch block of \<^verbatim>\<open>summarizeContent\<close>;
  everything else is the same text. Both are modelled; a function that differs takes
  the file as its first argument.

  A JavaScript string is a sequence of UTF-16 code units: \<^verbatim>\<open>length\<close>,
  \<^verbatim>\<open>substring\<close>, \<^verbatim>\<open>includes\<close> and \<^verbatim>\<open>===\<close> all work on code units. The
  Arabic literals of the source are therefore written as lists of code units, and the
  ASCII runs inside them through \<open>asc\<close>.
\<close>

type_synonym jstring = "nat list"

definition asc :: "string \<Rightarrow> jstring" where
  "asc s = map of_char s"

text \<open>
  The code units matched by \<^verbatim>\<open>\s\<close> in a regular expression and removed by
  \<^verbatim>\<open>String.prototype.trim\<close>: ECMAScript's WhiteSpace and LineTerminator.
\<close>

definition isWhiteSpace :: "nat \<Rightarrow> bool" where
  "isWhiteSpace c =
     (c = 9 \<or> c = 10 \<or> c = 11 \<or> c = 12 \<or> c = 13 \<or> c = 32 \<or> c = 160 \<or>
      c = 5760 \<or> (8192 \<le> c \<and> c \<le> 8202) \<or> c = 8232 \<or> c = 8233 \<or> c = 8239 \<or>
      c = 8287 \<or> c = 12288 \<or> c = 65279)"

definition trim :: "jstring \<Rightarrow> jstring" where
  "trim s = rev (dropWhile isWhiteSpace (rev (dropWhile isWhiteSpace s)))"

text \<open>\<^verbatim>\<open>s.startsWith(p)\<close>, and \<^verbatim>\<open>s.includes(p)\<close>: \<open>p\<close> occurs in \<open>s\<close> as a contiguous run.\<close>

fun startsWith :: "jstring \<Rightarrow> jstring \<Rightarrow> bool" where
  "startsWith s [] = True"
| "startsWith [] (p # ps) = False"
| "startsWith (c # cs) (p # ps) = (c = p \<and> startsWith cs ps)"

fun str_includes :: "jstring \<Rightarrow> jstring \<Rightarrow> bool" where
  "str_includes [] p = (p = [])"
| "str_includes (c # cs) p = (startsWith (c # cs) p \<or> str_includes cs p)"

text \<open>\<^verbatim>\<open>s.substring(0, n)\<close> for a non-negative integer \<open>n\<close>.\<close>

definition substring0 :: "jstring \<Rightarrow> nat \<Rightarrow> jstring" where
  "substring0 s n = take n s"

text \<open>\<^verbatim>\<open>s.repeat(n)\<close> for a count already converted to an integer.\<close>

definition repeat :: "jstring \<Rightarrow> nat \<Rightarrow> jstring" where
  "repeat s n = concat (replicate n s)"

text \<open>
  What \<^verbatim>\<open>JSON.parse\<close> returns. A number is an IEEE double in JavaScript; the model
  keeps the exact rational value of a finite double, which is all that \<^verbatim>\<open>typeof\<close>,
  \<^verbatim>\<open>Math.min\<close>, \<^verbatim>\<open>Math.max\<close> and the conversion to an integer look at. Arithmetic
  on doubles rounds and is modelled where it is used. The infinities, which
  \<^verbatim>\<open>JSON.parse\<close> gives for a literal beyond the range of doubles, are not modelled.
\<close>

datatype json =
    JNull
  | JBool bool
  | JNumber rat
  | JString jstring
  | JArray "json list"
  | JObject "(jstring \<times> json) list"

text \<open>
  A thrown value. \<^verbatim>\<open>error instanceof Error\<close> holds for \<open>Error m\<close>, whose
  \<^verbatim>\<open>message\<close> is \<open>m\<close>; JavaScript can throw anything else too (\<open>NonError\<close>).
  An Error is identified with its message: the object a \<^verbatim>\<open>catch\<close> clause received
  and a new one with the same message are the same value here.
\<close>

datatype exn = Error jstring | NonError

section \<open>String literals of the source\<close>

definition API_KEY_MISSING :: jstring where
  "API_KEY_MISSING = asc ''API_KEY_MISSING''"

text \<open>Line 53.\<close>

definition msgInitializationFailed :: jstring where
  "msgInitializationFailed =
     [1601, 1588, 1604, 32, 1601, 1610, 32, 1578, 1607, 1610, 1574, 1577] @
     asc '' Gemini API. '' @
     [1610, 1585, 1580, 1609, 32, 1575, 1604, 1578, 1581, 1602, 1602, 32,
      1605, 1606, 32, 1589, 1581, 1577, 32, 1605, 1601, 1578, 1575, 1581] @
     asc '' API '' @
     [1575, 1604, 1582, 1575, 1589, 32, 1576, 1603, 46]"

text \<open>Line 73.\<close>

definition msgEmptyResponse :: jstring where
  "msgEmptyResponse =
     [1571, 1585, 1580, 1593, 32, 1575, 1604, 1606, 1605, 1608, 1584, 1580,
      32, 1575, 1587, 1578, 1580, 1575, 1576, 1577, 32, 1601, 1575, 1585,
      1594, 1577, 46, 32, 1602, 1583, 32, 1610, 1603, 1608, 1606, 32, 1575,
      1604, 1605, 1581, 1578, 1608, 1609, 32, 1594, 1610, 1585, 32, 1608,
      1575, 1590, 1581, 32, 1571, 1608, 32, 1602, 1589, 1610, 1585, 32, 1580,
      1583, 1611, 1575, 32, 1604, 1604, 1578, 1581, 1604, 1610, 1604, 46]"

text \<open>Line 79.\<close>

definition msgEmptyJson :: jstring where
  "msgEmptyJson =
     [1571, 1585, 1580, 1593, 32, 1575, 1604, 1606, 1605, 1608, 1584, 1580,
      32, 1575, 1587, 1578, 1580, 1575, 1576, 1577] @
     asc '' JSON '' @
     [1601, 1575, 1585, 1594, 1577, 46]"

text \<open>Line 85.\<close>

definition msgMalformedJson :: jstring where
  "msgMalformedJson =
     [1601, 1588, 1604, 32, 1575, 1604, 1606, 1605, 1608, 1584, 1580, 32,
      1601, 1610, 32, 1573, 1606, 1588, 1575, 1569, 32, 1575, 1587, 1578,
      1580, 1575, 1576, 1577, 32, 1576, 1578, 1606, 1587, 1610, 1602] @
     asc '' JSON '' @
     [1589, 1581, 1610, 1581, 46]"

text \<open>Line 99.\<close>

definition msgConnectionFailed :: jstring where
  "msgConnectionFailed =
     [1601, 1588, 1604, 32, 1575, 1604, 1575, 1578, 1589, 1575, 1604, 32,
      1576, 1600] @
     asc '' Gemini API '' @
     [1576, 1593, 1583, 32, 1593, 1583, 1577, 32, 1605, 1581, 1575, 1608,
      1604, 1575, 1578, 46]"

text \<open>Line 95.\<close>

definition patEmptyResponse :: jstring where
  "patEmptyResponse =
     [1575, 1587, 1578, 1580, 1575, 1576, 1577, 32, 1601, 1575, 1585, 1594,
      1577]"

text \<open>Line 218.\<close>

definition msgStreamingFailed :: jstring where
  "msgStreamingFailed =
     [1601, 1588, 1604, 32, 1575, 1604, 1575, 1578, 1589, 1575, 1604, 32,
      1576, 1600] @
     asc '' Gemini API '' @
     [1571, 1579, 1606, 1575, 1569, 32, 1575, 1604, 1578, 1604, 1582, 1610,
      1589, 46]"

text \<open>Line 110.\<close>

definition dfltAnalysis :: jstring where
  "dfltAnalysis =
     [1575, 1604, 1605, 1604, 1601, 32, 1601, 1575, 1585, 1594, 32, 1571,
      1608, 32, 1604, 1575, 32, 1610, 1605, 1603, 1606, 32, 1602, 1585, 1575,
      1569, 1577, 32, 1575, 1604, 1605, 1581, 1578, 1608, 1609, 46]"

text \<open>Line 180.\<close>

definition dfltSummary :: jstring where
  "dfltSummary =
     [1604, 1575, 32, 1610, 1608, 1580, 1583, 32, 1605, 1581, 1578, 1608,
      1609, 32, 1604, 1578, 1604, 1582, 1610, 1589, 1607, 46]"

text \<open>Line 279.\<close>

definition msgNoSentimentContent :: jstring where
  "msgNoSentimentContent =
     [1604, 1575, 32, 1610, 1608, 1580, 1583, 32, 1605, 1581, 1578, 1608,
      1609, 32, 1604, 1578, 1581, 1604, 1610, 1604, 32, 1575, 1604, 1605,
      1588, 1575, 1593, 1585, 46]"

text \<open>Line 352.\<close>

definition dfltTranslation :: jstring where
  "dfltTranslation =
     [1604, 1575, 32, 1610, 1608, 1580, 1583, 32, 1605, 1581, 1578, 1608,
      1609, 32, 1604, 1578, 1585, 1580, 1605, 1578, 1607, 46]"

text \<open>Line 368.\<close>

definition dfltBookDescription :: jstring where
  "dfltBookDescription =
     [1604, 1575, 32, 1610, 1605, 1603, 1606, 32, 1573, 1606, 1588, 1575,
      1569, 32, 1608, 1589, 1601, 32, 1604, 1605, 1581, 1578, 1608, 1609, 32,
      1601, 1575, 1585, 1594, 46]"

text \<open>Line 383.\<close>

definition dfltVideoDescription :: jstring where
  "dfltVideoDescription =
     [1608, 1589, 1601, 32, 1594, 1610, 1585, 32, 1605, 1578, 1608, 1601,
      1585, 46]"

text \<open>Line 398.\<close>

definition dfltBookTitle :: jstring where
  "dfltBookTitle =
     [1593, 1606, 1608, 1575, 1606, 32, 1594, 1610, 1585, 32, 1605, 1593,
      1585, 1608, 1601]"

text \<open>Line 468.\<close>

definition dfltArticle :: jstring where
  "dfltArticle =
     [1604, 1575, 32, 1610, 1605, 1603, 1606, 32, 1578, 1589, 1605, 1610,
      1605, 32, 1605, 1602, 1575, 1604, 32, 1605, 1606, 32, 1605, 1581, 1578,
      1608, 1609, 32, 1601, 1575, 1585, 1594, 46]"

text \<open>Line 490.\<close>

definition dfltRating :: jstring where
  "dfltRating =
     [1604, 1575, 32, 1610, 1608, 1580, 1583, 32, 1605, 1581, 1578, 1608,
      1609, 32, 1604, 1578, 1602, 1610, 1610, 1605, 1607, 46]"

text \<open>Line 273.\<close>

definition msgQuizFormat :: jstring where
  "msgQuizFormat =
     [1601, 1588, 1604, 32, 1575, 1604, 1606, 1605, 1608, 1584, 1580, 32,
      1601, 1610, 32, 1573, 1606, 1588, 1575, 1569, 32, 1575, 1582, 1578,
      1576, 1575, 1585, 32, 1576, 1575, 1604, 1578, 1606, 1587, 1610, 1602,
      32, 1575, 1604, 1589, 1581, 1610, 1581, 46]"

text \<open>Line 313.\<close>

definition msgSentimentFormat :: jstring where
  "msgSentimentFormat =
     [1601, 1588, 1604, 32, 1575, 1604, 1606, 1605, 1608, 1584, 1580, 32,
      1601, 1610, 32, 1578, 1581, 1604, 1610, 1604, 32, 1575, 1604, 1605,
      1588, 1575, 1593, 1585, 32, 1576, 1575, 1604, 1578, 1606, 1587, 1610,
      1602, 32, 1575, 1604, 1589, 1581, 1610, 1581, 46]"

text \<open>Line 346.\<close>

definition msgKeywordsFormat :: jstring where
  "msgKeywordsFormat =
     [1601, 1588, 1604, 32, 1575, 1604, 1606, 1605, 1608, 1584, 1580, 32,
      1601, 1610, 32, 1575, 1587, 1578, 1582, 1585, 1575, 1580, 32, 1575,
      1604, 1603, 1604, 1605, 1575, 1578, 32, 1575, 1604, 1585, 1574, 1610,
      1587, 1610, 1577, 32, 1576, 1575, 1604, 1578, 1606, 1587, 1610, 1602,
      32, 1575, 1604, 1589, 1581, 1610, 1581, 46]"

text \<open>Line 462.\<close>

definition msgSuggestionsFormat :: jstring where
  "msgSuggestionsFormat =
     [1601, 1588, 1604, 32, 1575, 1604, 1606, 1605, 1608, 1584, 1580, 32,
      1601, 1610, 32, 1573, 1606, 1588, 1575, 1569, 32, 1575, 1602, 1578,
      1585, 1575, 1581, 1575, 1578, 32, 1576, 1575, 1604, 1578, 1606, 1587,
      1610, 1602, 32, 1575, 1604, 1589, 1581, 1610, 1581, 46]"

text \<open>Line 530.\<close>

definition msgRatingFormat :: jstring where
  "msgRatingFormat =
     [1601, 1588, 1604, 32, 1575, 1604, 1606, 1605, 1608, 1584, 1580, 32,
      1601, 1610, 32, 1578, 1602, 1610, 1610, 1605, 32, 1575, 1604, 1605,
      1581, 1578, 1608, 1609, 32, 1576, 1575, 1604, 1578, 1606, 1587, 1610,
      1602, 32, 1575, 1604, 1589, 1581, 1610, 1581, 46]"

text \<open>Line 534.\<close>

definition msgRatingFailed :: jstring where
  "msgRatingFailed =
     [1581, 1583, 1579, 32, 1582, 1591, 1571, 32, 1571, 1579, 1606, 1575,
      1569, 32, 1573, 1606, 1588, 1575, 1569, 32, 1578, 1602, 1610, 1610,
      1605, 32, 1575, 1604, 1605, 1581, 1578, 1608, 1609, 46]"

section \<open>The world outside the module\<close>

text \<open>
  The client handle: \<^verbatim>\<open>new GoogleGenAI({ apiKey })\<close>, an object bound to the key it
  was built from.
\<close>

datatype handle = GoogleGenAI jstring

text \<open>
  The \<^verbatim>\<open>Type\<close> enumeration of the SDK, and a response schema: its \<^verbatim>\<open>type\<close>,
  \<^verbatim>\<open>description\<close>, \<^verbatim>\<open>items\<close>, \<^verbatim>\<open>properties\<close> and \<^verbatim>\<open>required\<close>, each of the
  last four present or absent.
\<close>

datatype stype = ARRAY | STRING | INTEGER | OBJECT

datatype schema =
  Schema stype "jstring option" "schema option" "(jstring \<times> schema) list option"
    "jstring list option"

text \<open>
  The \<^verbatim>\<open>config\<close> argument of \<^verbatim>\<open>callGeminiWithRetry\<close>: the default \<^verbatim>\<open>{}\<close> has
  neither field. A streaming request carries no \<^verbatim>\<open>config\<close> at all.
\<close>

record config =
  responseMimeType :: "jstring option"
  responseSchema :: "schema option"

definition noConfig :: config where
  "noConfig = \<lparr>responseMimeType = None, responseSchema = None\<rparr>"

definition jsonConfig :: "schema \<Rightarrow> config" where
  "jsonConfig s = \<lparr>responseMimeType = Some (asc ''application/json''), responseSchema = Some s\<rparr>"

text \<open>The argument of \<^verbatim>\<open>models.generateContent\<close> and \<^verbatim>\<open>models.generateContentStream\<close>.\<close>

record request =
  model :: jstring
  contents :: jstring
  config :: "config option"

text \<open>
  What one call of \<^verbatim>\<open>generateContent\<close> does: it throws, or it resolves to a response
  whose \<^verbatim>\<open>text\<close> is a string or \<^verbatim>\<open>undefined\<close>.
\<close>

datatype response = Throws exn | Response "jstring option"

text \<open>
  What one call of \<^verbatim>\<open>generateContentStream\<close> does: it throws before any chunk, or
  it delivers chunks (each with a \<^verbatim>\<open>text\<close> that is a string or \<^verbatim>\<open>undefined\<close>) and
  then ends, normally or with a thrown value.
\<close>

datatype stream = StreamThrows exn | Stream "jstring option list" "exn option"

text \<open>
  Everything the module reads but does not own. The remote capability answers a
  request as a function of the handle, the request and the number of the attempt
  within the invocation that sends it. \<open>JSON_parse\<close> is the built-in decoder
  (\<open>None\<close> when it throws), \<open>constructor_throws\<close> says for which keys
  \<^verbatim>\<open>new GoogleGenAI\<close> throws, \<open>process_env_API_KEY\<close> is
  \<^verbatim>\<open>process.env.API_KEY\<close> when that expression evaluates to a string,
  \<open>localStorage_throws\<close> says whether touching \<^verbatim>\<open>localStorage\<close> throws,
  \<open>number_toString\<close> renders a number that is not an integer below \<open>2\<^sup>5\<^sup>3\<close>,
  \<open>rounded_difference\<close> is the double the engine rounds a difference to,
  and \<open>null_property_message\<close> is the message of the TypeError the engine throws when
  a property of \<^verbatim>\<open>null\<close> is read.
\<close>

record externals =
  process_env_API_KEY :: "jstring option"
  localStorage_throws :: bool
  constructor_throws :: "jstring \<Rightarrow> bool"
  JSON_parse :: "jstring \<Rightarrow> json option"
  generateContent :: "handle \<Rightarrow> request \<Rightarrow> nat \<Rightarrow> response"
  generateContentStream :: "handle \<Rightarrow> request \<Rightarrow> stream"
  number_toString :: "rat \<Rightarrow> jstring"
  rounded_difference :: "rat \<Rightarrow> rat \<Rightarrow> rat"
  null_property_message :: jstring

text \<open>The effects the module has on the outside, in the order they happen.\<close>

datatype event =
    ReadEnv
  | GetItem
  | RemoveItem
  | Construct jstring
  | GenerateContent handle request
  | GenerateContentStream handle request
  | SetTimeout nat

text \<open>
  The mutable state: the module variable \<^verbatim>\<open>ai\<close>, the item \<^verbatim>\<open>gemini_api_key\<close> of
  \<^verbatim>\<open>localStorage\<close>, and the log of effects.
\<close>

record world =
  ai :: "handle option"
  gemini_api_key :: "jstring option"
  events :: "event list"

definition emit :: "event \<Rightarrow> world \<Rightarrow> world" where
  "emit e w = w\<lparr>events := events w @ [e]\<rparr>"

datatype srcfile = Services | Part000

section \<open>getAiInstance\<close>

text \<open>
  \<^verbatim>\<open>services/geminiService.ts\<close>, lines 15-55. The environment is read first; a
  failure to read \<^verbatim>\<open>localStorage\<close> is swallowed; a constructor failure leaves the
  stored key in place.
\<close>

definition getAiInstance_services :: "externals \<Rightarrow> world \<Rightarrow> (exn + handle) \<times> world" where
  "getAiInstance_services x w =
     (case ai w of
        Some h \<Rightarrow> (Inr h, w)
      | None \<Rightarrow>
          (let w1 = emit ReadEnv w;
               envKey = (case process_env_API_KEY x of
                           Some k \<Rightarrow> (if k \<noteq> [] then Some k else None)
                         | None \<Rightarrow> None);
               w2 = (if envKey = None then emit GetItem w1 else w1);
               apiKey = (if envKey = None
                         then (if localStorage_throws x then None else gemini_api_key w1)
                         else envKey)
           in (case apiKey of
                 None \<Rightarrow> (Inl (Error API_KEY_MISSING), w2)
               | Some k \<Rightarrow>
                   (if k = [] then (Inl (Error API_KEY_MISSING), w2)
                    else if constructor_throws x k
                      then (Inl (Error msgInitializationFailed), emit (Construct k) w2)
                      else (Inr (GoogleGenAI k),
                            (emit (Construct k) w2)\<lparr>ai := Some (GoogleGenAI k)\<rparr>)))))"

text \<open>
  The second copy, lines 15-47. Only \<^verbatim>\<open>localStorage\<close> is read; a failure to read it
  is the missing-key error; a constructor failure removes the stored key.
\<close>

definition getAiInstance_part000 :: "externals \<Rightarrow> world \<Rightarrow> (exn + handle) \<times> world" where
  "getAiInstance_part000 x w =
     (case ai w of
        Some h \<Rightarrow> (Inr h, w)
      | None \<Rightarrow>
          (let w1 = emit GetItem w in
           if localStorage_throws x then (Inl (Error API_KEY_MISSING), w1)
           else (case gemini_api_key w1 of
                   None \<Rightarrow> (Inl (Error API_KEY_MISSING), w1)
                 | Some k \<Rightarrow>
                     (if k = [] then (Inl (Error API_KEY_MISSING), w1)
                      else if constructor_throws x k
                        then (Inl (Error msgInitializationFailed),
                              (emit RemoveItem (emit (Construct k) w1))\<lparr>gemini_api_key := None\<rparr>)
                        else (Inr (GoogleGenAI k),
                              (emit (Construct k) w1)\<lparr>ai := Some (GoogleGenAI k)\<rparr>)))))"

definition getAiInstance :: "srcfile \<Rightarrow> externals \<Rightarrow> world \<Rightarrow> (exn + handle) \<times> world" where
  "getAiInstance f =
     (case f of Services \<Rightarrow> getAiInstance_services | Part000 \<Rightarrow> getAiInstance_part000)"

section \<open>callGeminiWithRetry\<close>

text \<open>
  The regular expression \<^verbatim>\<open>/^```json\s*|```\s*$/g\<close> has two alternatives. The first
  can match only at the start of the text: the opening fence and the white space after
  it. The second matches three backticks followed by nothing but white space up to the
  end of the text; \<^verbatim>\<open>replace\<close> removes the leftmost such match, and since it runs to
  the end there is no later one.
\<close>

definition backticks :: jstring where
  "backticks = [96, 96, 96]"

definition stripOpeningFence :: "jstring \<Rightarrow> jstring" where
  "stripOpeningFence s =
     (if startsWith s (backticks @ asc ''json'') then dropWhile isWhiteSpace (drop 7 s)
      else s)"

fun stripClosingFence :: "jstring \<Rightarrow> jstring" where
  "stripClosingFence [] = []"
| "stripClosingFence (c # cs) =
     (if startsWith (c # cs) backticks \<and> list_all isWhiteSpace (drop 3 (c # cs)) then []
      else c # stripClosingFence cs)"

definition cleanedJsonString :: "jstring \<Rightarrow> jstring" where
  "cleanedJsonString textResponse = trim (stripClosingFence (stripOpeningFence textResponse))"

text \<open>
  The body of the \<^verbatim>\<open>try\<close> block of one attempt, from the answer of the remote
  capability on: \<open>Inl\<close> is the value the \<^verbatim>\<open>catch\<close> clause receives.
\<close>

definition tryBody :: "externals \<Rightarrow> config \<Rightarrow> response \<Rightarrow> exn + json" where
  "tryBody x cfg r =
     (case r of
        Throws e \<Rightarrow> Inl e
      | Response None \<Rightarrow> Inl (Error msgEmptyResponse)
      | Response (Some textResponse) \<Rightarrow>
          (if textResponse = [] \<or> trim textResponse = [] then Inl (Error msgEmptyResponse)
           else if responseMimeType cfg = Some (asc ''application/json'') then
             (if cleanedJsonString textResponse = [] then Inl (Error msgEmptyJson)
              else (case JSON_parse x (cleanedJsonString textResponse) of
                      None \<Rightarrow> Inl (Error msgMalformedJson)
                    | Some v \<Rightarrow> Inr v))
           else Inr (JString textResponse)))"

text \<open>
  The branch \<^verbatim>\<open>attempts === 0\<close> of the \<^verbatim>\<open>catch\<close> clause: the value thrown to the
  caller, from the error of the last attempt.
\<close>

definition exhausted_services :: "exn \<Rightarrow> exn" where
  "exhausted_services error =
     (case error of
        Error message \<Rightarrow>
          if str_includes message (asc ''Gemini API'') \<or> str_includes message patEmptyResponse \<or>
             str_includes message (asc ''JSON'') \<or> message = API_KEY_MISSING
          then error
          else Error msgConnectionFailed
      | NonError \<Rightarrow> Error msgConnectionFailed)"

definition exhausted_part000 :: "exn \<Rightarrow> exn" where
  "exhausted_part000 error =
     (case error of
        Error message \<Rightarrow>
          if str_includes message (asc ''API key not valid'') \<or> str_includes message API_KEY_MISSING
          then Error API_KEY_MISSING
          else if str_includes message (asc ''Gemini API'') \<or> str_includes message patEmptyResponse \<or>
                  str_includes message (asc ''JSON'')
          then error
          else Error msgConnectionFailed
      | NonError \<Rightarrow> Error msgConnectionFailed)"

definition exhausted :: "srcfile \<Rightarrow> exn \<Rightarrow> exn" where
  "exhausted f = (case f of Services \<Rightarrow> exhausted_services | Part000 \<Rightarrow> exhausted_part000)"

definition theModel :: jstring where
  "theModel = asc ''gemini-2.5-flash''"

text \<open>
  The \<^verbatim>\<open>while (attempts > 0)\<close> loop. The attempt in progress is number
  \<open>3 - attempts\<close>, counted from 0.
\<close>

function retryLoop ::
  "srcfile \<Rightarrow> externals \<Rightarrow> handle \<Rightarrow> jstring \<Rightarrow> config \<Rightarrow> nat \<Rightarrow> world \<Rightarrow> (exn + json) \<times> world"
where
  "retryLoop f x aiInstance prompt cfg attempts w =
     (if attempts > 0 then
        (case tryBody x cfg
                (generateContent x aiInstance
                   \<lparr>model = theModel, contents = prompt, config = Some cfg\<rparr> (3 - attempts)) of
           Inr v \<Rightarrow>
             (Inr v, emit (GenerateContent aiInstance
                             \<lparr>model = theModel, contents = prompt, config = Some cfg\<rparr>) w)
         | Inl error \<Rightarrow>
             (if attempts - 1 = 0 then
                (Inl (exhausted f error),
                 emit (GenerateContent aiInstance
                         \<lparr>model = theModel, contents = prompt, config = Some cfg\<rparr>) w)
              else
                retryLoop f x aiInstance prompt cfg (attempts - 1)
                  (emit (SetTimeout 1000)
                     (emit (GenerateContent aiInstance
                              \<lparr>model = theModel, contents = prompt, config = Some cfg\<rparr>) w))))
      else (Inl (Error msgConnectionFailed), w))"
  by pat_completeness auto
termination
  by (relation "measure (\<lambda>(f, x, aiInstance, prompt, cfg, attempts, w). attempts)") auto

declare retryLoop.simps [simp del]

definition callGeminiWithRetry ::
  "srcfile \<Rightarrow> externals \<Rightarrow> jstring \<Rightarrow> config \<Rightarrow> world \<Rightarrow> (exn + json) \<times> world"
where
  "callGeminiWithRetry f x prompt cfg w =
     (case getAiInstance f x w of
        (Inl e, w1) \<Rightarrow> (Inl e, w1)
      | (Inr aiInstance, w1) \<Rightarrow> retryLoop f x aiInstance prompt cfg 3 w1)"

section \<open>Prompt templates\<close>

text \<open>
  Each template literal of the source, cut at its \<^verbatim>\<open>${...}\<close> holes: piece \<open>k\<close> is the
  text before hole \<open>k\<close>, the last piece the text after the last hole.
\<close>

text \<open>Lines 113-126; the holes are ${content.substring(0, 100000)}.\<close>

definition tpl_analysis_0 :: jstring where
  "tpl_analysis_0 =
     [10, 32, 32, 32, 32, 32, 32, 32, 32, 1602, 1605, 32, 1576, 1578, 1581,
      1604, 1610, 1604, 32, 1575, 1604, 1606, 1589, 32, 1575, 1604, 1578,
      1575, 1604, 1610, 32, 1576, 1593, 1606, 1575, 1610, 1577, 32, 1608,
      1602, 1583, 1605, 32, 1605, 1604, 1582, 1589, 1611, 1575, 32, 1588,
      1575, 1605, 1604, 1575, 1611, 46, 32, 1610, 1580, 1576, 32, 1571, 1606,
      32, 1610, 1581, 1583, 1583, 32, 1575, 1604, 1605, 1604, 1582, 1589, 32,
      1575, 1604, 1606, 1602, 1575, 1591, 32, 1575, 1604, 1585, 1574, 1610,
      1587, 1610, 1577, 32, 1608, 1575, 1604, 1581, 1580, 1580, 32, 1608,
      1575, 1604, 1571, 1601, 1603, 1575, 1585, 32, 1575, 1604, 1571, 1587,
      1575, 1587, 1610, 1577, 32, 1575, 1604, 1605, 1602, 1583, 1605, 1577,
      32, 1601, 1610, 32, 1575, 1604, 1605, 1587, 1578, 1606, 1583, 46, 10,
      32, 32, 32, 32, 32, 32, 32, 32, 10, 32, 32, 32, 32, 32, 32, 32, 32,
      1610, 1585, 1580, 1609, 32, 1578, 1606, 1592, 1610, 1605, 32, 1573,
      1580, 1575, 1576, 1578, 1603, 32, 1593, 1604, 1609, 32, 1575, 1604,
      1606, 1581, 1608, 32, 1575, 1604, 1578, 1575, 1604, 1610, 58, 10] @
     asc ''        1.  **'' @
     [1605, 1604, 1582, 1589, 32, 1605, 1608, 1580, 1586, 58, 42, 42, 32,
      1601, 1602, 1585, 1577, 32, 1602, 1589, 1610, 1585, 1577, 32, 1578,
      1604, 1582, 1589, 32, 1575, 1604, 1594, 1585, 1590, 32, 1575, 1604,
      1593, 1575, 1605, 32, 1608, 1575, 1604, 1605, 1581, 1578, 1608, 1609,
      32, 1604, 1604, 1605, 1587, 1578, 1606, 1583, 46, 10] @
     asc ''        2.  **'' @
     [1575, 1604, 1606, 1602, 1575, 1591, 32, 1575, 1604, 1585, 1574, 1610,
      1587, 1610, 1577, 58, 42, 42, 32, 1602, 1575, 1574, 1605, 1577, 32,
      1606, 1602, 1591, 1610, 1577] @
     asc '' (bullet points) '' @
     [1604, 1571, 1607, 1605] @
     asc '' 3-5 '' @
     [1606, 1602, 1575, 1591, 32, 1571, 1608, 32, 1606, 1578, 1575, 1574,
      1580, 32, 1605, 1606, 32, 1575, 1604, 1606, 1589, 46, 10] @
     asc ''        3.  **'' @
     [1575, 1604, 1575, 1587, 1578, 1606, 1578, 1575, 1580, 58, 42, 42, 32,
      1575, 1587, 1578, 1606, 1578, 1575, 1580, 32, 1606, 1607, 1575, 1574,
      1610, 32, 1571, 1608, 32, 1575, 1604, 1601, 1603, 1585, 1577, 32, 1575,
      1604, 1585, 1574, 1610, 1587, 1610, 1577, 32, 1575, 1604, 1578, 1610,
      32, 1610, 1605, 1603, 1606, 32, 1575, 1587, 1578, 1582, 1604, 1575,
      1589, 1607, 1575, 32, 1605, 1606, 32, 1575, 1604, 1605, 1587, 1578,
      1606, 1583, 46, 10, 32, 32, 32, 32, 32, 32, 32, 32, 10, 32, 32, 32, 32,
      32, 32, 32, 32, 1578, 1571, 1603, 1583, 32, 1605, 1606, 32, 1571, 1606,
      32, 1575, 1604, 1578, 1581, 1604, 1610, 1604, 32, 1608, 1575, 1590,
      1581, 32, 1608, 1605, 1608, 1580, 1586, 32, 1608, 1587, 1607, 1604, 32,
      1575, 1604, 1601, 1607, 1605, 46, 10, 32, 32, 32, 32, 32, 32, 32, 32,
      45, 45, 45, 10, 32, 32, 32, 32, 32, 32, 32, 32, 1605, 1581, 1578, 1608,
      1609, 32, 1575, 1604, 1605, 1587, 1578, 1606, 1583, 58, 10, 32, 32, 32,
      32, 32, 32, 32, 32]"

definition tpl_analysis_1 :: jstring where
  "tpl_analysis_1 =
     [10, 32, 32, 32, 32, 32, 32, 32, 32, 45, 45, 45, 10, 32, 32, 32, 32]"

text \<open>Lines 141-148; the holes are ${content.substring(0, 8000)}.\<close>

definition tpl_categories_0 :: jstring where
  "tpl_categories_0 =
     [10, 32, 32, 32, 32, 32, 32, 32, 32, 1576, 1606, 1575, 1569, 1611, 32,
      1593, 1604, 1609, 32, 1575, 1604, 1606, 1589, 32, 1575, 1604, 1578,
      1575, 1604, 1610, 1548, 32, 1575, 1602, 1578, 1585, 1581, 32, 1605,
      1606, 32, 50, 32, 1573, 1604, 1609, 32, 52, 32, 1578, 1589, 1606, 1610,
      1601, 1575, 1578, 32, 1584, 1575, 1578, 32, 1589, 1604, 1577, 46, 32,
      1610, 1580, 1576, 32, 1571, 1606, 32, 1610, 1603, 1608, 1606, 32, 1603,
      1604, 32, 1578, 1589, 1606, 1610, 1601, 32, 1603, 1604, 1605, 1577, 32,
      1571, 1608, 32, 1603, 1604, 1605, 1578, 1610, 1606, 32, 1601, 1602,
      1591, 46, 10, 32, 32, 32, 32, 32, 32, 32, 32, 1605, 1579, 1575, 1604,
      32, 1593, 1604, 1609, 32, 1575, 1604, 1578, 1589, 1606, 1610, 1601,
      1575, 1578, 58, 32, 34, 1601, 1602, 1607, 34, 44, 32, 34, 1593, 1602,
      1610, 1583, 1577, 34, 44, 32, 34, 1578, 1575, 1585, 1610, 1582, 32,
      1573, 1587, 1604, 1575, 1605, 1610, 34, 44, 32, 34, 1587, 1610, 1585,
      1577, 32, 1606, 1576, 1608, 1610, 1577, 34, 44, 32, 34, 1578, 1591,
      1608, 1610, 1585, 32, 1584, 1575, 1578, 34, 46, 10, 32, 32, 32, 32, 32,
      32, 32, 32, 45, 45, 45, 10, 32, 32, 32, 32, 32, 32, 32, 32, 1605, 1581,
      1578, 1608, 1609, 32, 1575, 1604, 1605, 1587, 1578, 1606, 1583, 58, 10,
      32, 32, 32, 32, 32, 32, 32, 32]"

definition tpl_categories_1 :: jstring where
  "tpl_categories_1 =
     [10, 32, 32, 32, 32, 32, 32, 32, 32, 45, 45, 45, 10, 32, 32, 32, 32]"

text \<open>Lines 183-195; the holes are ${content.substring(0, 100000)}.\<close>

definition tpl_summary_0 :: jstring where
  "tpl_summary_0 =
     [10, 32, 32, 32, 32, 32, 32, 32, 32, 1605, 1607, 1605, 1578, 1603, 32,
      1607, 1610, 32, 1573, 1606, 1588, 1575, 1569, 32, 1605, 1604, 1582,
      1589, 32, 1605, 1601, 1589, 1604, 32, 1604, 1604, 1606, 1589, 32, 1575,
      1604, 1578, 1575, 1604, 1610, 46, 32, 1575, 1578, 1576, 1593, 32, 1575,
      1604, 1578, 1593, 1604, 1610, 1605, 1575, 1578, 32, 1576, 1583, 1602,
      1577, 58, 10] @
     asc ''        1.  '' @
     [1575, 1602, 1585, 1571, 32, 1575, 1604, 1606, 1589, 32, 1576, 1575,
      1604, 1603, 1575, 1605, 1604, 46, 10] @
     asc ''        2.  '' @
     [1602, 1605, 32, 1576, 1575, 1604, 1605, 1585, 1608, 1585, 32, 1593,
      1604, 1609, 32, 1603, 1604, 32, 1601, 1602, 1585, 1577, 32, 1605, 1606,
      32, 1601, 1602, 1585, 1575, 1578, 32, 1575, 1604, 1606, 1589, 32, 1576,
      1588, 1603, 1604, 32, 1605, 1606, 1601, 1589, 1604, 46, 10] @
     asc ''        3.  '' @
     [1604, 1603, 1604, 32, 1601, 1602, 1585, 1577, 1548, 32, 1575, 1603,
      1578, 1576, 32, 1605, 1604, 1582, 1589, 1611, 1575, 32, 1605, 1601,
      1589, 1604, 1575, 1611, 32, 1610, 1588, 1585, 1581, 32, 1601, 1603,
      1585, 1578, 1607, 1575, 32, 1575, 1604, 1585, 1574, 1610, 1587, 1610,
      1577, 32, 1608, 1575, 1604, 1578, 1601, 1575, 1589, 1610, 1604, 32,
      1575, 1604, 1607, 1575, 1605, 1577, 46, 10] @
     asc ''        4.  '' @
     [1610, 1580, 1576, 32, 1571, 1606, 32, 1610, 1603, 1608, 1606, 32, 1575,
      1604, 1606, 1575, 1578, 1580, 32, 1575, 1604, 1606, 1607, 1575, 1574,
      1610, 32, 1593, 1576, 1575, 1585, 1577, 32, 1593, 1606, 32, 1605, 1580,
      1605, 1608, 1593, 1577, 32, 1605, 1606, 32, 1607, 1584, 1607, 32, 1575,
      1604, 1605, 1604, 1582, 1589, 1575, 1578, 32, 1575, 1604, 1605, 1601,
      1589, 1604, 1577, 1548, 32, 1608, 1575, 1581, 1583, 1577, 32, 1604,
      1603, 1604, 32, 1601, 1602, 1585, 1577, 46, 10] @
     asc ''        5.  '' @
     [1575, 1604, 1607, 1583, 1601, 32, 1607, 1608, 32, 1571, 1606, 32, 1610,
      1603, 1608, 1606, 32, 1575, 1604, 1591, 1608, 1604, 32, 1575, 1604,
      1573, 1580, 1605, 1575, 1604, 1610, 32, 1604, 1604, 1605, 1604, 1582,
      1589, 32, 1575, 1604, 1606, 1575, 1578, 1580, 32, 1603, 1576, 1610,
      1585, 1611, 1575, 1548, 32, 1571, 1610, 32, 1605, 1575, 32, 1610, 1602,
      1575, 1585, 1576, 32, 1606, 1589, 1601, 32, 1591, 1608, 1604, 32, 1575,
      1604, 1606, 1589, 32, 1575, 1604, 1571, 1589, 1604, 1610, 46, 32, 1581,
      1575, 1601, 1592, 32, 1593, 1604, 1609, 32, 1608, 1590, 1608, 1581, 32,
      1575, 1604, 1604, 1594, 1577, 32, 1608, 1587, 1607, 1608, 1604, 1577,
      32, 1575, 1604, 1602, 1585, 1575, 1569, 1577, 46, 10, 32, 32, 32, 32,
      32, 32, 32, 32, 10, 32, 32, 32, 32, 32, 32, 32, 32, 45, 45, 45, 10, 32,
      32, 32, 32, 32, 32, 32, 32, 1605, 1581, 1578, 1608, 1609, 32, 1575,
      1604, 1605, 1587, 1578, 1606, 1583, 58, 10, 32, 32, 32, 32, 32, 32, 32,
      32]"

definition tpl_summary_1 :: jstring where
  "tpl_summary_1 =
     [10, 32, 32, 32, 32, 32, 32, 32, 32, 45, 45, 45, 10, 32, 32, 32, 32]"

text \<open>Lines 226-232; the holes are ${questionCount}, ${content.substring(0, 100000)}.\<close>

definition tpl_quiz_0 :: jstring where
  "tpl_quiz_0 =
     [10, 32, 32, 32, 32, 32, 32, 32, 32, 1576, 1606, 1575, 1569, 1611, 32,
      1593, 1604, 1609, 32, 1575, 1604, 1606, 1589, 32, 1575, 1604, 1578,
      1575, 1604, 1610, 1548, 32, 1602, 1605, 32, 1576, 1573, 1606, 1588,
      1575, 1569, 32, 1575, 1582, 1578, 1576, 1575, 1585, 32, 1605, 1606, 32]"

definition tpl_quiz_1 :: jstring where
  "tpl_quiz_1 =
     [32, 1571, 1587, 1574, 1604, 1577, 32, 1605, 1606, 32, 1606, 1608, 1593,
      32, 1575, 1604, 1575, 1582, 1578, 1610, 1575, 1585, 32, 1605, 1606, 32,
      1605, 1578, 1593, 1583, 1583, 46, 32, 1610, 1580, 1576, 32, 1571, 1606,
      32, 1610, 1581, 1578, 1608, 1610, 32, 1603, 1604, 32, 1587, 1572, 1575,
      1604, 32, 1593, 1604, 1609, 32, 52, 32, 1582, 1610, 1575, 1585, 1575,
      1578, 46, 10, 32, 32, 32, 32, 32, 32, 32, 32, 45, 45, 45, 10, 32, 32,
      32, 32, 32, 32, 32, 32, 1605, 1581, 1578, 1608, 1609, 32, 1575, 1604,
      1605, 1587, 1578, 1606, 1583, 58, 10, 32, 32, 32, 32, 32, 32, 32, 32]"

definition tpl_quiz_2 :: jstring where
  "tpl_quiz_2 =
     [10, 32, 32, 32, 32, 32, 32, 32, 32, 45, 45, 45, 10, 32, 32, 32, 32]"

text \<open>Lines 281-287; the holes are ${content.substring(0, 100000)}.\<close>

definition tpl_sentiment_0 :: jstring where
  "tpl_sentiment_0 =
     [10, 32, 32, 32, 32, 32, 32, 32, 32, 1581, 1604, 1604, 32, 1575, 1604,
      1605, 1588, 1575, 1593, 1585, 32, 1601, 1610, 32, 1575, 1604, 1606,
      1589, 32, 1575, 1604, 1578, 1575, 1604, 1610, 46, 32, 1581, 1583, 1583,
      32, 1605, 1575, 32, 1573, 1584, 1575, 32, 1603, 1575, 1606, 1578, 32,
      1575, 1604, 1605, 1588, 1575, 1593, 1585, 32, 1575, 1604, 1593, 1575,
      1605, 1577, 32, 34, 1573, 1610, 1580, 1575, 1576, 1610, 1577, 34, 32,
      1571, 1608, 32, 34, 1587, 1604, 1576, 1610, 1577, 34, 32, 1571, 1608,
      32, 34, 1605, 1581, 1575, 1610, 1583, 1577, 34, 46, 32, 1602, 1583,
      1605, 32, 1588, 1585, 1581, 1611, 1575, 32, 1605, 1608, 1580, 1586,
      1611, 1575, 32, 1604, 1578, 1602, 1610, 1610, 1605, 1603, 46, 10, 32,
      32, 32, 32, 32, 32, 32, 32, 45, 45, 45, 10, 32, 32, 32, 32, 32, 32, 32,
      32, 1605, 1581, 1578, 1608, 1609, 32, 1575, 1604, 1605, 1587, 1578,
      1606, 1583, 58, 10, 32, 32, 32, 32, 32, 32, 32, 32]"

definition tpl_sentiment_1 :: jstring where
  "tpl_sentiment_1 =
     [10, 32, 32, 32, 32, 32, 32, 32, 32, 45, 45, 45, 10, 32, 32, 32, 32]"

text \<open>Lines 321-327; the holes are ${content.substring(0, 100000)}.\<close>

definition tpl_keywords_0 :: jstring where
  "tpl_keywords_0 =
     [10, 32, 32, 32, 32, 32, 32, 32, 32, 1575, 1587, 1578, 1606, 1575, 1583,
      1611, 1575, 32, 1573, 1604, 1609, 32, 1575, 1604, 1606, 1589, 32, 1575,
      1604, 1578, 1575, 1604, 1610, 1548, 32, 1602, 1605, 32, 1576, 1575,
      1587, 1578, 1582, 1585, 1575, 1580, 32, 1571, 1607, 1605, 32, 53, 32,
      1573, 1604, 1609] @
     asc '' 10 '' @
     [1603, 1604, 1605, 1575, 1578, 32, 1585, 1574, 1610, 1587, 1610, 1577,
      32, 1571, 1608, 32, 1593, 1576, 1575, 1585, 1575, 1578, 32, 1571, 1587,
      1575, 1587, 1610, 1577, 32, 1578, 1605, 1579, 1604, 32, 1575, 1604,
      1605, 1608, 1590, 1608, 1593, 1575, 1578, 32, 1575, 1604, 1585, 1574,
      1610, 1587, 1610, 1577, 46, 10, 32, 32, 32, 32, 32, 32, 32, 32, 45, 45,
      45, 10, 32, 32, 32, 32, 32, 32, 32, 32, 1605, 1581, 1578, 1608, 1609,
      32, 1575, 1604, 1605, 1587, 1578, 1606, 1583, 58, 10, 32, 32, 32, 32,
      32, 32, 32, 32]"

definition tpl_keywords_1 :: jstring where
  "tpl_keywords_1 =
     [10, 32, 32, 32, 32, 32, 32, 32, 32, 45, 45, 45, 10, 32, 32, 32, 32]"

text \<open>Lines 354-354; the holes are ${content}.\<close>

definition tpl_toEnglish_0 :: jstring where
  "tpl_toEnglish_0 =
     asc ''Translate the following Arabic text to English. Maintain the'' @
     asc '' original formatting (markdown headers, lists, bold text, et'' @
     asc ''c.).'' @
     [10, 10, 45, 45, 45, 10, 10]"

definition tpl_toEnglish_1 :: jstring where
  "tpl_toEnglish_1 =
     []"

text \<open>Lines 362-362; the holes are ${content}.\<close>

definition tpl_toArabic_0 :: jstring where
  "tpl_toArabic_0 =
     asc ''Translate the following English text to Arabic. Maintain the'' @
     asc '' original formatting (markdown headers, lists, bold text, et'' @
     asc ''c.).'' @
     [10, 10, 45, 45, 45, 10, 10]"

definition tpl_toArabic_1 :: jstring where
  "tpl_toArabic_1 =
     []"

text \<open>Lines 370-377; the holes are ${content.substring(0, 4000)}.\<close>

definition tpl_bookDescription_0 :: jstring where
  "tpl_bookDescription_0 =
     [10, 32, 32, 32, 32, 32, 32, 32, 32, 1576, 1606, 1575, 1569, 1611, 32,
      1593, 1604, 1609, 32, 1605, 1602, 1578, 1591, 1601, 32, 1575, 1604,
      1606, 1589, 32, 1575, 1604, 1578, 1575, 1604, 1610, 32, 1605, 1606, 32,
      1603, 1578, 1575, 1576, 1548, 32, 1602, 1605, 32, 1576, 1573, 1606,
      1588, 1575, 1569, 32, 1608, 1589, 1601, 32, 1580, 1584, 1575, 1576, 32,
      1608, 1605, 1608, 1580, 1586, 32, 1604, 1604, 1603, 1578, 1575, 1576,
      32, 1610, 1578, 1603, 1608, 1606, 32, 1605, 1606, 32, 1581, 1608, 1575,
      1604, 1610] @
     asc '' 40 '' @
     [1603, 1604, 1605, 1577, 46, 10, 32, 32, 32, 32, 32, 32, 32, 32, 1610,
      1580, 1576, 32, 1571, 1606, 32, 1610, 1603, 1608, 1606, 32, 1575, 1604,
      1608, 1589, 1601, 32, 1605, 1606, 1575, 1587, 1576, 1611, 1575, 32,
      1604, 1604, 1593, 1585, 1590, 32, 1601, 1610, 32, 1602, 1575, 1574,
      1605, 1577, 32, 1605, 1603, 1578, 1576, 1577, 32, 1604, 1580, 1584,
      1576, 32, 1575, 1604, 1602, 1575, 1585, 1574, 46, 10, 32, 32, 32, 32,
      32, 32, 32, 32, 45, 45, 45, 10, 32, 32, 32, 32, 32, 32, 32, 32, 1605,
      1581, 1578, 1608, 1609, 32, 1575, 1604, 1605, 1587, 1578, 1606, 1583,
      58, 10, 32, 32, 32, 32, 32, 32, 32, 32]"

definition tpl_bookDescription_1 :: jstring where
  "tpl_bookDescription_1 =
     [32, 10, 32, 32, 32, 32, 32, 32, 32, 32, 45, 45, 45, 10, 32, 32, 32, 32]"

text \<open>Lines 385-392; the holes are ${title}.\<close>

definition tpl_videoDescription_0 :: jstring where
  "tpl_videoDescription_0 =
     [10, 32, 32, 32, 32, 32, 32, 32, 32, 1576, 1606, 1575, 1569, 1611, 32,
      1593, 1604, 1609, 32, 1593, 1606, 1608, 1575, 1606, 32, 1575, 1604,
      1601, 1610, 1583, 1610, 1608, 32, 1575, 1604, 1578, 1575, 1604, 1610,
      1548, 32, 1602, 1605, 32, 1576, 1573, 1606, 1588, 1575, 1569, 32, 1608,
      1589, 1601, 32, 1580, 1584, 1575, 1576, 32, 1608, 1605, 1608, 1580,
      1586, 32, 1604, 1604, 1601, 1610, 1583, 1610, 1608, 32, 1610, 1578,
      1603, 1608, 1606, 32, 1605, 1606, 32, 1581, 1608, 1575, 1604, 1610] @
     asc '' 30-40 '' @
     [1603, 1604, 1605, 1577, 46, 10, 32, 32, 32, 32, 32, 32, 32, 32, 1610,
      1580, 1576, 32, 1571, 1606, 32, 1610, 1603, 1608, 1606, 32, 1575, 1604,
      1608, 1589, 1601, 32, 1605, 1606, 1575, 1587, 1576, 1611, 1575, 32,
      1604, 1604, 1593, 1585, 1590, 32, 1601, 1610, 32, 1605, 1603, 1578,
      1576, 1577, 32, 1608, 1587, 1575, 1574, 1591, 32, 1604, 1580, 1584,
      1576, 32, 1575, 1604, 1605, 1588, 1575, 1607, 1583, 46, 10, 32, 32, 32,
      32, 32, 32, 32, 32, 45, 45, 45, 10, 32, 32, 32, 32, 32, 32, 32, 32,
      1593, 1606, 1608, 1575, 1606, 32, 1575, 1604, 1601, 1610, 1583, 1610,
      1608, 58, 10, 32, 32, 32, 32, 32, 32, 32, 32, 34]"

definition tpl_videoDescription_1 :: jstring where
  "tpl_videoDescription_1 =
     [34, 10, 32, 32, 32, 32, 32, 32, 32, 32, 45, 45, 45, 10, 32, 32, 32, 32]"

text \<open>Lines 400-410; the holes are ${content.substring(0, 4000)}.\<close>

definition tpl_bookTitle_0 :: jstring where
  "tpl_bookTitle_0 =
     [10, 32, 32, 32, 32, 32, 32, 32, 32, 1605, 1607, 1605, 1578, 1603, 32,
      1607, 1610, 32, 1575, 1604, 1578, 1589, 1585, 1601, 32, 1603, 1602,
      1575, 1585, 1574, 32, 1584, 1603, 1610, 32, 1610, 1581, 1604, 1604, 32,
      1575, 1604, 1589, 1601, 1581, 1577, 32, 1575, 1604, 1571, 1608, 1604,
      1609, 32, 1605, 1606, 32, 1603, 1578, 1575, 1576, 46, 32, 1575, 1604,
      1606, 1589, 32, 1575, 1604, 1578, 1575, 1604, 1610, 32, 1607, 1608, 32,
      1576, 1583, 1575, 1610, 1577, 32, 1605, 1587, 1578, 1606, 1583, 32,
      1578, 1605, 32, 1585, 1601, 1593, 1607, 46, 32, 1575, 1576, 1581, 1579,
      32, 1593, 1606, 32, 1575, 1604, 1593, 1606, 1608, 1575, 1606, 32, 1575,
      1604, 1585, 1574, 1610, 1587, 1610, 32, 1608, 1575, 1604, 1576, 1575,
      1585, 1586, 32, 1601, 1610, 32, 1607, 1584, 1575, 32, 1575, 1604, 1606,
      1589, 1548, 32, 1603, 1605, 1575, 32, 1604, 1608, 32, 1603, 1575, 1606,
      32, 1605, 1591, 1576, 1608, 1593, 1611, 1575, 32, 1593, 1604, 1609, 32,
      1594, 1604, 1575, 1601, 32, 1575, 1604, 1603, 1578, 1575, 1576, 46, 10,
      32, 32, 32, 32, 32, 32, 32, 32, 10, 32, 32, 32, 32, 32, 32, 32, 32,
      1571, 1585, 1610, 1583, 32, 1575, 1604, 1593, 1606, 1608, 1575, 1606,
      32, 1601, 1602, 1591, 1548, 32, 1576, 1583, 1608, 1606, 32, 1571, 1610,
      32, 1603, 1604, 1605, 1575, 1578, 32, 1573, 1590, 1575, 1601, 1610,
      1577, 32, 1605, 1579, 1604, 32, 34, 1575, 1604, 1593, 1606, 1608, 1575,
      1606, 32, 1607, 1608, 58, 34, 46, 32, 1610, 1580, 1576, 32, 1571, 1606,
      32, 1610, 1603, 1608, 1606, 32, 1575, 1604, 1580, 1608, 1575, 1576, 32,
      1607, 1608, 32, 1575, 1604, 1593, 1606, 1608, 1575, 1606, 32, 1575,
      1604, 1589, 1585, 1610, 1581, 46, 10, 32, 32, 32, 32, 32, 32, 32, 32,
      10, 32, 32, 32, 32, 32, 32, 32, 32, 1573, 1584, 1575, 32, 1604, 1605,
      32, 1578, 1578, 1605, 1603, 1606, 32, 1605, 1606, 32, 1578, 1581, 1583,
      1610, 1583, 32, 1593, 1606, 1608, 1575, 1606, 32, 1608, 1575, 1590,
      1581, 1548, 32, 1571, 1580, 1576, 32, 1576, 1600, 32, 34, 1593, 1606,
      1608, 1575, 1606, 32, 1594, 1610, 1585, 32, 1605, 1593, 1585, 1608,
      1601, 34, 46, 10, 32, 32, 32, 32, 32, 32, 32, 32, 45, 45, 45, 10, 32,
      32, 32, 32, 32, 32, 32, 32, 1605, 1602, 1578, 1591, 1601, 32, 1605,
      1606, 32, 1575, 1604, 1589, 1601, 1581, 1577, 32, 1575, 1604, 1571,
      1608, 1604, 1609, 58, 10, 32, 32, 32, 32, 32, 32, 32, 32]"

definition tpl_bookTitle_1 :: jstring where
  "tpl_bookTitle_1 =
     [10, 32, 32, 32, 32, 32, 32, 32, 32, 45, 45, 45, 10, 32, 32, 32, 32]"

text \<open>Lines 415-426; the holes are ${title}, ${description}.\<close>

definition tpl_script_0 :: jstring where
  "tpl_script_0 =
     [10, 32, 32, 32, 32, 32, 32, 32, 32, 1605, 1607, 1605, 1578, 1603, 32,
      1607, 1610, 32, 1575, 1604, 1593, 1605, 1604, 32, 1603, 1603, 1575,
      1578, 1576, 32, 1587, 1610, 1606, 1575, 1585, 1610, 1608, 32, 1582,
      1576, 1610, 1585, 46, 32, 1576, 1606, 1575, 1569, 1611, 32, 1593, 1604,
      1609, 32, 1593, 1606, 1608, 1575, 1606, 32, 1575, 1604, 1601, 1610,
      1583, 1610, 1608, 32, 1608, 1608, 1589, 1601, 1607, 1548, 32, 1602,
      1605, 32, 1576, 1573, 1606, 1588, 1575, 1569, 32, 1606, 1589, 32, 1578,
      1601, 1589, 1610, 1604, 1610] @
     asc '' (script) '' @
     [1604, 1604, 1601, 1610, 1583, 1610, 1608, 46, 32, 10, 32, 32, 32, 32,
      32, 32, 32, 32, 1610, 1580, 1576, 32, 1571, 1606, 32, 1610, 1603, 1608,
      1606, 32, 1575, 1604, 1606, 1589, 32, 1605, 1606, 1587, 1602, 1611,
      1575, 32, 1576, 1588, 1603, 1604, 32, 1580, 1610, 1583, 1548, 32, 1608,
      1610, 1578, 1590, 1605, 1606, 32, 1581, 1608, 1575, 1585, 1611, 1575,
      32, 1571, 1608, 32, 1581, 1583, 1610, 1579, 1611, 1575, 32, 1608, 1575,
      1590, 1581, 1611, 1575, 1548, 32, 1608, 1610, 1605, 1603, 1606, 32,
      1571, 1606, 32, 1610, 1578, 1590, 1605, 1606, 32, 1573, 1588, 1575,
      1585, 1575, 1578, 32, 1604, 1604, 1605, 1588, 1575, 1607, 1583, 32,
      1575, 1604, 1605, 1585, 1574, 1610, 1577, 32, 1573, 1606, 32, 1571,
      1605, 1603, 1606, 46, 32, 10, 32, 32, 32, 32, 32, 32, 32, 32, 1575,
      1580, 1593, 1604, 32, 1575, 1604, 1606, 1589, 32, 1610, 1576, 1583,
      1608, 32, 1591, 1576, 1610, 1593, 1610, 1611, 1575, 32, 1603, 1605,
      1575, 32, 1604, 1608, 32, 1603, 1575, 1606, 32, 1578, 1601, 1585, 1610,
      1594, 1611, 1575, 32, 1589, 1608, 1578, 1610, 1611, 1575, 32, 1581,
      1602, 1610, 1602, 1610, 1611, 1575, 32, 1604, 1604, 1601, 1610, 1583,
      1610, 1608, 46, 10, 10, 32, 32, 32, 32, 32, 32, 32, 32, 1593, 1606,
      1608, 1575, 1606, 32, 1575, 1604, 1601, 1610, 1583, 1610, 1608, 58, 32,
      34]"

definition tpl_script_1 :: jstring where
  "tpl_script_1 =
     [34, 10, 10, 32, 32, 32, 32, 32, 32, 32, 32, 1608, 1589, 1601, 32, 1575,
      1604, 1601, 1610, 1583, 1610, 1608, 58, 32, 34]"

definition tpl_script_2 :: jstring where
  "tpl_script_2 =
     [34, 10, 10, 32, 32, 32, 32, 32, 32, 32, 32, 45, 45, 45, 10, 32, 32, 32,
      32, 32, 32, 32, 32, 1575, 1604, 1606, 1589, 32, 1575, 1604, 1605, 1602,
      1578, 1585, 1581, 58, 10, 32, 32, 32, 32]"

text \<open>Lines 434-443; the holes are ${content.substring(0, 8000)}.\<close>

definition tpl_suggestions_0 :: jstring where
  "tpl_suggestions_0 =
     [10] @
     asc ''        Based on the following Arabic text, provide 5 genera'' @
     asc ''l, single-word search keywords in Arabic that represent the '' @
     asc ''main themes.'' @
     [10] @
     asc ''        These keywords should be broad enough to find matche'' @
     asc ''s in a library of books and videos.'' @
     [10] @
     asc ''        Avoid very specific phrases or sentences. Return onl'' @
     asc ''y a JSON array of single-word strings.'' @
     [10] @
     asc ''        Example: ['' @
     [34, 1575, 1604, 1601, 1602, 1607, 34, 44, 32, 34, 1575, 1604, 1593,
      1602, 1610, 1583, 1577, 34, 44, 32, 34, 1575, 1604, 1587, 1606, 1577,
      34, 44, 32, 34, 1575, 1604, 1593, 1576, 1575, 1583, 1575, 1578, 34, 93,
      10, 32, 32, 32, 32, 32, 32, 32, 32, 45, 45, 45, 10, 32, 32, 32, 32, 32,
      32, 32, 32, 1575, 1604, 1606, 1589, 58, 10, 32, 32, 32, 32, 32, 32, 32,
      32]"

definition tpl_suggestions_1 :: jstring where
  "tpl_suggestions_1 =
     [10, 32, 32, 32, 32, 32, 32, 32, 32, 45, 45, 45, 10, 32, 32, 32, 32]"

text \<open>Lines 470-484; the holes are ${content.substring(0, 100000)}.\<close>

definition tpl_article_0 :: jstring where
  "tpl_article_0 =
     [10, 32, 32, 32, 32, 32, 32, 32, 32, 1605, 1607, 1605, 1578, 1603, 32,
      1607, 1610, 32, 1575, 1604, 1593, 1605, 1604, 32, 1603, 1603, 1575,
      1578, 1576, 32, 1605, 1581, 1578, 1608, 1609, 32, 1605, 1581, 1578,
      1585, 1601, 46, 32, 1602, 1605, 32, 1576, 1578, 1581, 1608, 1610, 1604,
      32, 1575, 1604, 1606, 1589, 32, 1575, 1604, 1578, 1575, 1604, 1610, 32,
      1573, 1604, 1609, 32, 1605, 1602, 1575, 1604, 32, 1580, 1584, 1575,
      1576, 32, 1608, 1605, 1606, 1575, 1587, 1576, 32, 1604, 1604, 1606,
      1588, 1585, 32, 1601, 1610, 32, 1605, 1583, 1608, 1606, 1577, 32, 1588,
      1582, 1589, 1610, 1577, 46, 10, 32, 32, 32, 32, 32, 32, 32, 32, 10, 32,
      32, 32, 32, 32, 32, 32, 32, 1575, 1604, 1578, 1593, 1604, 1610, 1605,
      1575, 1578, 58, 10] @
     asc ''        1.  '' @
     [1575, 1576, 1583, 1571, 32, 1576, 1593, 1606, 1608, 1575, 1606, 32,
      1580, 1584, 1575, 1576, 32, 1610, 1604, 1582, 1589, 32, 1575, 1604,
      1601, 1603, 1585, 1577, 32, 1575, 1604, 1585, 1574, 1610, 1587, 1610,
      1577, 46, 32, 1575, 1587, 1578, 1582, 1583, 1605, 32, 1578, 1606, 1587,
      1610, 1602] @
     asc '' Markdown '' @
     [1604, 1604, 1593, 1606, 1608, 1575, 1606, 32, 40, 1605, 1579, 1575,
      1604, 58, 32, 35, 32, 1593, 1606, 1608, 1575, 1606, 32, 1575, 1604,
      1605, 1602, 1575, 1604, 41, 46, 10] @
     asc ''        2.  '' @
     [1602, 1587, 1605, 32, 1575, 1604, 1605, 1581, 1578, 1608, 1609, 32,
      1573, 1604, 1609, 32, 1601, 1602, 1585, 1575, 1578, 32, 1602, 1589,
      1610, 1585, 1577, 32, 1608, 1587, 1607, 1604, 1577, 32, 1575, 1604,
      1602, 1585, 1575, 1569, 1577, 46, 10] @
     asc ''        3.  '' @
     [1575, 1587, 1578, 1582, 1583, 1605, 32, 1593, 1606, 1575, 1608, 1610,
      1606, 32, 1601, 1585, 1593, 1610, 1577, 32, 40, 1605, 1579, 1575, 1604,
      58, 32, 35, 35, 32, 1593, 1606, 1608, 1575, 1606, 32, 1601, 1585, 1593,
      1610, 41, 32, 1604, 1578, 1606, 1592, 1610, 1605, 32, 1575, 1604, 1605,
      1602, 1575, 1604, 32, 1573, 1584, 1575, 32, 1603, 1575, 1606, 32, 1575,
      1604, 1605, 1581, 1578, 1608, 1609, 32, 1591, 1608, 1610, 1604, 1575,
      1611, 46, 10] @
     asc ''        4.  '' @
     [1581, 1575, 1601, 1592, 32, 1593, 1604, 1609, 32, 1580, 1608, 1607,
      1585, 32, 1608, 1571, 1601, 1603, 1575, 1585, 32, 1575, 1604, 1606,
      1589, 32, 1575, 1604, 1571, 1589, 1604, 1610, 1548, 32, 1604, 1603,
      1606, 32, 1571, 1593, 1583, 32, 1589, 1610, 1575, 1594, 1578, 1607, 32,
      1576, 1571, 1587, 1604, 1608, 1576, 32, 1588, 1610, 1602, 32, 1608,
      1605, 1606, 1575, 1587, 1576, 32, 1604, 1580, 1605, 1607, 1608, 1585,
      32, 1593, 1575, 1605, 46, 10] @
     asc ''        5.  '' @
     [1601, 1610, 32, 1606, 1607, 1575, 1610, 1577, 32, 1575, 1604, 1605,
      1602, 1575, 1604, 32, 42, 42, 1576, 1575, 1604, 1590, 1576, 1591, 42,
      42, 1548, 32, 1608, 1576, 1583, 1608, 1606, 32, 1571, 1610, 32, 1606,
      1589, 32, 1573, 1590, 1575, 1601, 1610, 32, 1576, 1593, 1583, 1607,
      1575, 1548, 32, 1571, 1590, 1601, 32, 1575, 1604, 1587, 1591, 1585, 32,
      1575, 1604, 1578, 1575, 1604, 1610, 58, 32, 34, 1589, 1605, 1605, 32,
      1576, 1608, 1575, 1587, 1591, 1577, 32, 1575, 1604, 1603, 1615, 1578,
      1615, 1576, 1610, 32, 1575, 1604, 1584, 1603, 1610, 32, 1604, 1571,
      1603, 1575, 1583, 1610, 1605, 1610, 1577, 32, 1583, 1585, 1587, 1606,
      1610, 34, 46, 10, 10, 32, 32, 32, 32, 32, 32, 32, 32, 45, 45, 45, 10,
      32, 32, 32, 32, 32, 32, 32, 32, 1605, 1581, 1578, 1608, 1609, 32, 1575,
      1604, 1605, 1587, 1578, 1606, 1583, 32, 1575, 1604, 1571, 1589, 1604,
      1610, 58, 10, 32, 32, 32, 32, 32, 32, 32, 32]"

definition tpl_article_1 :: jstring where
  "tpl_article_1 =
     [10, 32, 32, 32, 32, 32, 32, 32, 32, 45, 45, 45, 10, 32, 32, 32, 32]"

text \<open>Lines 492-501; the holes are ${content.substring(0, 100000)}.\<close>

definition tpl_rating_0 :: jstring where
  "tpl_rating_0 =
     [10, 32, 32, 32, 32, 32, 32, 32, 32, 1605, 1607, 1605, 1578, 1603, 32,
      1607, 1610, 32, 1575, 1604, 1593, 1605, 1604, 32, 1603, 1606, 1575,
      1602, 1583, 32, 1571, 1583, 1576, 1610, 32, 1582, 1576, 1610, 1585, 46,
      32, 1602, 1605, 32, 1576, 1578, 1602, 1610, 1610, 1605, 32, 1575, 1604,
      1606, 1589, 32, 1575, 1604, 1593, 1585, 1576, 1610, 32, 1575, 1604,
      1578, 1575, 1604, 1610, 46, 10, 32, 32, 32, 32, 32, 32, 32, 32, 1602,
      1583, 1605, 32, 1578, 1602, 1610, 1610, 1605, 1611, 1575, 32, 1605,
      1606, 32, 49, 32, 1573, 1604, 1609, 32, 53, 32, 1606, 1580, 1608, 1605,
      32, 1608, 1605, 1585, 1575, 1580, 1593, 1577, 32, 1605, 1608, 1580,
      1586, 1577, 32, 1608, 1605, 1606, 1591, 1602, 1610, 1577, 32, 1576,
      1575, 1604, 1604, 1594, 1577, 32, 1575, 1604, 1593, 1585, 1576, 1610,
      1577, 32, 1578, 1576, 1585, 1585, 32, 1578, 1602, 1610, 1610, 1605,
      1603, 46, 10, 32, 32, 32, 32, 32, 32, 32, 32, 1582, 1584, 32, 1601,
      1610, 32, 1575, 1604, 1575, 1593, 1578, 1576, 1575, 1585, 32, 1580,
      1608, 1575, 1606, 1576, 32, 1605, 1579, 1604, 32, 1575, 1604, 1608,
      1590, 1608, 1581, 1548, 32, 1608, 1575, 1604, 1576, 1606, 1610, 1577,
      1548, 32, 1608, 1575, 1604, 1593, 1605, 1602, 1548, 32, 1608, 1575,
      1604, 1580, 1608, 1583, 1577, 32, 1575, 1604, 1588, 1575, 1605, 1604,
      1577, 46, 10, 10, 32, 32, 32, 32, 32, 32, 32, 32, 45, 45, 45, 10, 32,
      32, 32, 32, 32, 32, 32, 32, 1575, 1604, 1606, 1589, 32, 1604, 1604,
      1578, 1602, 1610, 1610, 1605, 58, 10, 32, 32, 32, 32, 32, 32, 32, 32]"

definition tpl_rating_1 :: jstring where
  "tpl_rating_1 =
     [10, 32, 32, 32, 32, 32, 32, 32, 32, 45, 45, 45, 10, 32, 32, 32, 32]"

text \<open>Lines 216-216; the holes are ${error.message}.\<close>

definition tpl_streamingFailedWith_0 :: jstring where
  "tpl_streamingFailedWith_0 =
     [1601, 1588, 1604, 32, 1575, 1604, 1575, 1578, 1589, 1575, 1604, 32,
      1576, 1600] @
     asc '' Gemini API '' @
     [1571, 1579, 1606, 1575, 1569, 32, 1575, 1604, 1578, 1604, 1582, 1610,
      1589, 58, 32]"

definition tpl_streamingFailedWith_1 :: jstring where
  "tpl_streamingFailedWith_1 =
     []"

text \<open>Lines 527-527; the holes are ${stars}, ${rating}, ${result.review}.\<close>

definition tpl_ratingOutput_0 :: jstring where
  "tpl_ratingOutput_0 =
     [35, 35, 35, 32, 1578, 1602, 1610, 1610, 1605, 32, 1575, 1604, 1605,
      1581, 1578, 1608, 1609, 10, 10, 42, 42, 1575, 1604, 1578, 1602, 1610,
      1610, 1605, 58, 42, 42, 32]"

definition tpl_ratingOutput_1 :: jstring where
  "tpl_ratingOutput_1 =
     [32, 40]"

definition tpl_ratingOutput_2 :: jstring where
  "tpl_ratingOutput_2 =
     [47, 53, 41, 10, 10, 42, 42, 1575, 1604, 1605, 1585, 1575, 1580, 1593,
      1577, 58, 42, 42, 10]"

definition tpl_ratingOutput_3 :: jstring where
  "tpl_ratingOutput_3 =
     []"
section \<open>JavaScript operators on decoded values\<close>

text \<open>
  \<^verbatim>\<open>typeof v === 'string'\<close> and \<^verbatim>\<open>typeof v === 'number'\<close>, for a value that may be
  \<^verbatim>\<open>undefined\<close> (\<open>None\<close>). \<^verbatim>\<open>Array.isArray\<close> is a match on \<open>JArray\<close>.
\<close>

fun isString :: "json option \<Rightarrow> bool" where
  "isString (Some (JString s)) = True"
| "isString v = False"

fun isNumber :: "json option \<Rightarrow> bool" where
  "isNumber (Some (JNumber r)) = True"
| "isNumber v = False"

text \<open>The truthiness of a decoded value, as \<^verbatim>\<open>result && ...\<close> tests it.\<close>

fun truthy :: "json \<Rightarrow> bool" where
  "truthy JNull = False"
| "truthy (JBool b) = b"
| "truthy (JNumber r) = (r \<noteq> 0)"
| "truthy (JString s) = (s \<noteq> [])"
| "truthy (JArray vs) = True"
| "truthy (JObject fs) = True"

text \<open>
  The property read \<^verbatim>\<open>v.key\<close> for one of the keys the module reads
  (\<^verbatim>\<open>question\<close>, \<^verbatim>\<open>options\<close>, \<^verbatim>\<open>correctAnswerIndex\<close>, \<^verbatim>\<open>sentiment\<close>,
  \<^verbatim>\<open>explanation\<close>, \<^verbatim>\<open>rating\<close>, \<^verbatim>\<open>review\<close>): an object gives the member or
  \<^verbatim>\<open>undefined\<close>, a boolean, number, string or array gives \<^verbatim>\<open>undefined\<close>, and
  \<^verbatim>\<open>null\<close> throws a TypeError (the outer \<open>None\<close>).
\<close>

fun getProperty :: "json \<Rightarrow> jstring \<Rightarrow> json option option" where
  "getProperty JNull key = None"
| "getProperty (JObject fs) key = Some (map_of fs key)"
| "getProperty v key = Some None"

text \<open>\<^verbatim>\<open>result.every(item => typeof item === 'string')\<close> with the strings it accepts.\<close>

fun stringItems :: "json list \<Rightarrow> jstring list option" where
  "stringItems [] = Some []"
| "stringItems (JString s # vs) = map_option ((#) s) (stringItems vs)"
| "stringItems (v # vs) = None"

text \<open>
  Number to string, as a template literal does it. JavaScript prints the shortest
  decimal that reads back as the same double. Every integer below \<open>2\<^sup>5\<^sup>3\<close> in absolute
  value is a double of its own, so for it that decimal is the integer's digits; every
  other number is printed through the engine's algorithm, which is a parameter.
\<close>

function decimal :: "nat \<Rightarrow> jstring" where
  "decimal n = (if n < 10 then [48 + n] else decimal (n div 10) @ [48 + n mod 10])"
  by pat_completeness auto
termination
  by (relation "measure (\<lambda>n. n)") auto

declare decimal.simps [simp del]

definition Number_toString :: "externals \<Rightarrow> rat \<Rightarrow> jstring" where
  "Number_toString x r =
     (if of_int \<lfloor>r\<rfloor> = r \<and> \<bar>r\<bar> < 2 ^ 53
      then (if r < 0 then 45 # decimal (nat (- \<lfloor>r\<rfloor>)) else decimal (nat \<lfloor>r\<rfloor>))
      else number_toString x r)"

section \<open>Response schemas\<close>

definition categoriesSchema :: schema where
  "categoriesSchema =
     Schema ARRAY None
       (Some (Schema STRING (Some (asc ''A single category, one or two words max.'')) None None None))
       None None"

definition quizSchema :: schema where
  "quizSchema =
     Schema ARRAY None
       (Some (Schema OBJECT None None
          (Some
            [(asc ''question'', Schema STRING (Some (asc ''The quiz question.'')) None None None),
             (asc ''options'',
              Schema ARRAY (Some (asc ''An array of 4 possible answers.''))
                (Some (Schema STRING None None None None)) None None),
             (asc ''correctAnswerIndex'',
              Schema INTEGER
                (Some (asc ''The 0-based index of the correct answer in the options array.''))
                None None None)])
          (Some [asc ''question'', asc ''options'', asc ''correctAnswerIndex''])))
       None None"

definition sentimentSchema :: schema where
  "sentimentSchema =
     Schema OBJECT None None
       (Some
         [(asc ''sentiment'',
           Schema STRING
             (Some (asc ''The overall sentiment, must be one of: '' @ [34] @
                    [1573, 1610, 1580, 1575, 1576, 1610] @ [34, 44, 32, 34] @
                    [1587, 1604, 1576, 1610] @ [34, 44, 32, 34] @
                    [1605, 1581, 1575, 1610, 1583] @ [34, 46]))
             None None None),
          (asc ''explanation'',
           Schema STRING (Some (asc ''A brief explanation for the sentiment analysis.''))
             None None None)])
       (Some [asc ''sentiment'', asc ''explanation''])"

definition keywordsSchema :: schema where
  "keywordsSchema =
     Schema ARRAY None
       (Some (Schema STRING (Some (asc ''A single keyword or key phrase.'')) None None None))
       None None"

definition suggestionsSchema :: schema where
  "suggestionsSchema =
     Schema ARRAY None
       (Some (Schema STRING (Some (asc ''A single suggested topic or title in Arabic.''))
                None None None))
       None None"

definition ratingSchema :: schema where
  "ratingSchema =
     Schema OBJECT None None
       (Some
         [(asc ''rating'', Schema INTEGER (Some (asc ''A numerical rating from 1 to 5.'')) None None None),
          (asc ''review'',
           Schema STRING (Some (asc ''A concise review in Arabic explaining the rating.''))
             None None None)])
       (Some [asc ''rating'', asc ''review''])"

section \<open>Domain operations\<close>

text \<open>
  Every operation takes the file, the externals and the world, and returns its
  outcome (\<open>Inl\<close> the value it throws or rejects with) and the world after it.
  \<^verbatim>\<open>categorizeContent\<close> is its \<^verbatim>\<open>try\<close> block and its \<^verbatim>\<open>catch\<close> clause.
\<close>

definition categorizeTry ::
  "srcfile \<Rightarrow> externals \<Rightarrow> jstring \<Rightarrow> world \<Rightarrow> (exn + jstring list) \<times> world"
where
  "categorizeTry f x content w =
     (case callGeminiWithRetry f x
             (tpl_categories_0 @ substring0 content 8000 @ tpl_categories_1)
             (jsonConfig categoriesSchema) w of
        (Inl error, w1) \<Rightarrow> (Inl error, w1)
      | (Inr (JArray vs), w1) \<Rightarrow>
          (case stringItems vs of Some ss \<Rightarrow> (Inr ss, w1) | None \<Rightarrow> (Inr [], w1))
      | (Inr v, w1) \<Rightarrow> (Inr [], w1))"

definition categorizeContent ::
  "srcfile \<Rightarrow> externals \<Rightarrow> jstring \<Rightarrow> world \<Rightarrow> (exn + jstring list) \<times> world"
where
  "categorizeContent f x content w =
     (if content = [] then (Inr [], w)
      else
        (case categorizeTry f x content w of
           (Inl error, w1) \<Rightarrow> (Inr [], w1)
         | (Inr categories, w1) \<Rightarrow> (Inr categories, w1)))"

text \<open>
  \<^verbatim>\<open>analyzeTextContent\<close> starts the analysis invocation and the categorization and
  awaits both with \<^verbatim>\<open>Promise.all\<close>. The log lists the effects of the first before those
  of the second. That is their order when the analysis invocation gets no handle or
  needs one attempt only; when it retries, its timers and later requests come after the
  first request of the categorization, in an order that depends on timing. The log
  holds the same effects in every case, and what is proved about the function looks at
  which effects there are, not at their order. The categorization never rejects, so the
  outcome is the analysis rejection or both results.
\<close>

definition analyzeTextContent ::
  "srcfile \<Rightarrow> externals \<Rightarrow> jstring \<Rightarrow> world \<Rightarrow> (exn + json \<times> jstring list) \<times> world"
where
  "analyzeTextContent f x content w =
     (if content = [] then (Inr (JString dfltAnalysis, []), w)
      else
        (case callGeminiWithRetry f x
                (tpl_analysis_0 @ substring0 content 100000 @ tpl_analysis_1) noConfig w of
           (analysis, w1) \<Rightarrow>
             (case categorizeContent f x content w1 of
                (categories, w2) \<Rightarrow>
                  (case (analysis, categories) of
                     (Inl error, c) \<Rightarrow> (Inl error, w2)
                   | (Inr a, Inl error) \<Rightarrow> (Inl error, w2)
                   | (Inr a, Inr c) \<Rightarrow> (Inr (a, c), w2)))))"

text \<open>
  The \<^verbatim>\<open>catch\<close> clause of \<^verbatim>\<open>summarizeContent\<close>, which differs between the files.
\<close>

definition streamCatch_services :: "exn \<Rightarrow> exn" where
  "streamCatch_services error =
     (case error of
        Error message \<Rightarrow>
          (if str_includes message (asc ''Gemini API'') \<or> message = API_KEY_MISSING then error
           else Error (tpl_streamingFailedWith_0 @ message @ tpl_streamingFailedWith_1))
      | NonError \<Rightarrow> Error msgStreamingFailed)"

definition streamCatch_part000 :: "exn \<Rightarrow> exn" where
  "streamCatch_part000 error =
     (case error of
        Error message \<Rightarrow>
          (if str_includes message (asc ''API key not valid'') then Error API_KEY_MISSING
           else Error msgStreamingFailed)
      | NonError \<Rightarrow> Error msgStreamingFailed)"

definition streamCatch :: "srcfile \<Rightarrow> exn \<Rightarrow> exn" where
  "streamCatch f = (case f of Services \<Rightarrow> streamCatch_services | Part000 \<Rightarrow> streamCatch_part000)"

text \<open>The chunks whose \<^verbatim>\<open>text\<close> is a non-empty string are yielded.\<close>

fun yielded :: "jstring option list \<Rightarrow> jstring list" where
  "yielded [] = []"
| "yielded (None # cs) = yielded cs"
| "yielded (Some t # cs) = (if t = [] then yielded cs else t # yielded cs)"

text \<open>
  The generator \<^verbatim>\<open>summarizeContent\<close>, run to its end: the fragments it yields and the
  value it throws at the end, if any. The handle is obtained before the content is
  looked at.
\<close>

definition summarizeContent ::
  "srcfile \<Rightarrow> externals \<Rightarrow> jstring \<Rightarrow> world \<Rightarrow> (jstring list \<times> exn option) \<times> world"
where
  "summarizeContent f x content w =
     (case getAiInstance f x w of
        (Inl e, w1) \<Rightarrow> (([], Some e), w1)
      | (Inr aiInstance, w1) \<Rightarrow>
          (if content = [] then (([dfltSummary], None), w1)
           else
             (case generateContentStream x aiInstance
                     \<lparr>model = theModel,
                      contents = tpl_summary_0 @ substring0 content 100000 @ tpl_summary_1,
                      config = None\<rparr> of
                StreamThrows e \<Rightarrow>
                  (([], Some (streamCatch f e)),
                   emit (GenerateContentStream aiInstance
                           \<lparr>model = theModel,
                            contents = tpl_summary_0 @ substring0 content 100000 @ tpl_summary_1,
                            config = None\<rparr>) w1)
              | Stream chunks ending \<Rightarrow>
                  ((yielded chunks, map_option (streamCatch f) ending),
                   emit (GenerateContentStream aiInstance
                           \<lparr>model = theModel,
                            contents = tpl_summary_0 @ substring0 content 100000 @ tpl_summary_1,
                            config = None\<rparr>) w1))))"

text \<open>
  The callback of \<^verbatim>\<open>result.every\<close> in \<^verbatim>\<open>createQuiz\<close>: \<open>None\<close> when it throws (the
  item is \<^verbatim>\<open>null\<close>), and \<^verbatim>\<open>every\<close> itself, which stops at the first item that fails.
\<close>

definition quizItemOk :: "json \<Rightarrow> bool option" where
  "quizItemOk q =
     (case getProperty q (asc ''question'') of
        None \<Rightarrow> None
      | Some question \<Rightarrow>
          (if \<not> isString question then Some False
           else (case getProperty q (asc ''options'') of
                   None \<Rightarrow> None
                 | Some (Some (JArray options)) \<Rightarrow>
                     (if length options \<noteq> 4 then Some False
                      else map_option isNumber (getProperty q (asc ''correctAnswerIndex'')))
                 | Some v \<Rightarrow> Some False)))"

fun quizEvery :: "json list \<Rightarrow> bool option" where
  "quizEvery [] = Some True"
| "quizEvery (q # qs) =
     (case quizItemOk q of
        None \<Rightarrow> None
      | Some ok \<Rightarrow> (if ok then quizEvery qs else Some False))"

definition createQuiz ::
  "srcfile \<Rightarrow> externals \<Rightarrow> jstring \<Rightarrow> rat \<Rightarrow> world \<Rightarrow> (exn + json list) \<times> world"
where
  "createQuiz f x content questionCount w =
     (if content = [] then (Inr [], w)
      else
        (case callGeminiWithRetry f x
                (tpl_quiz_0 @ Number_toString x questionCount @ tpl_quiz_1 @
                 substring0 content 100000 @ tpl_quiz_2)
                (jsonConfig quizSchema) w of
           (Inl error, w1) \<Rightarrow> (Inl error, w1)
         | (Inr (JArray qs), w1) \<Rightarrow>
             (case quizEvery qs of
                None \<Rightarrow> (Inl (Error (null_property_message x)), w1)
              | Some ok \<Rightarrow>
                  (if ok then (Inr qs, w1) else (Inl (Error msgQuizFormat), w1)))
         | (Inr v, w1) \<Rightarrow> (Inl (Error msgQuizFormat), w1)))"

definition analyzeSentiment ::
  "srcfile \<Rightarrow> externals \<Rightarrow> jstring \<Rightarrow> world \<Rightarrow> (exn + json) \<times> world"
where
  "analyzeSentiment f x content w =
     (if content = [] then (Inl (Error msgNoSentimentContent), w)
      else
        (case callGeminiWithRetry f x
                (tpl_sentiment_0 @ substring0 content 100000 @ tpl_sentiment_1)
                (jsonConfig sentimentSchema) w of
           (Inl error, w1) \<Rightarrow> (Inl error, w1)
         | (Inr result, w1) \<Rightarrow>
             (if truthy result \<and>
                 (case getProperty result (asc ''sentiment'') of
                    Some v \<Rightarrow> isString v | None \<Rightarrow> False) \<and>
                 (case getProperty result (asc ''explanation'') of
                    Some v \<Rightarrow> isString v | None \<Rightarrow> False)
              then (Inr result, w1)
              else (Inl (Error msgSentimentFormat), w1))))"

definition extractKeywords ::
  "srcfile \<Rightarrow> externals \<Rightarrow> jstring \<Rightarrow> world \<Rightarrow> (exn + jstring list) \<times> world"
where
  "extractKeywords f x content w =
     (if content = [] then (Inr [], w)
      else
        (case callGeminiWithRetry f x
                (tpl_keywords_0 @ substring0 content 100000 @ tpl_keywords_1)
                (jsonConfig keywordsSchema) w of
           (Inl error, w1) \<Rightarrow> (Inl error, w1)
         | (Inr (JArray vs), w1) \<Rightarrow>
             (case stringItems vs of
                Some ss \<Rightarrow> (Inr ss, w1)
              | None \<Rightarrow> (Inl (Error msgKeywordsFormat), w1))
         | (Inr v, w1) \<Rightarrow> (Inl (Error msgKeywordsFormat), w1)))"

definition translateToEnglish ::
  "srcfile \<Rightarrow> externals \<Rightarrow> jstring \<Rightarrow> world \<Rightarrow> (exn + json) \<times> world"
where
  "translateToEnglish f x content w =
     (if content = [] then (Inr (JString dfltTranslation), w)
      else callGeminiWithRetry f x (tpl_toEnglish_0 @ content @ tpl_toEnglish_1) noConfig w)"

definition translateToArabic ::
  "srcfile \<Rightarrow> externals \<Rightarrow> jstring \<Rightarrow> world \<Rightarrow> (exn + json) \<times> world"
where
  "translateToArabic f x content w =
     (if content = [] then (Inr (JString dfltTranslation), w)
      else callGeminiWithRetry f x (tpl_toArabic_0 @ content @ tpl_toArabic_1) noConfig w)"

definition generateBookDescription ::
  "srcfile \<Rightarrow> externals \<Rightarrow> jstring \<Rightarrow> world \<Rightarrow> (exn + json) \<times> world"
where
  "generateBookDescription f x content w =
     (if content = [] then (Inr (JString dfltBookDescription), w)
      else callGeminiWithRetry f x
             (tpl_bookDescription_0 @ substring0 content 4000 @ tpl_bookDescription_1) noConfig w)"

definition generateVideoDescription ::
  "srcfile \<Rightarrow> externals \<Rightarrow> jstring \<Rightarrow> world \<Rightarrow> (exn + json) \<times> world"
where
  "generateVideoDescription f x title w =
     (if title = [] then (Inr (JString dfltVideoDescription), w)
      else callGeminiWithRetry f x
             (tpl_videoDescription_0 @ title @ tpl_videoDescription_1) noConfig w)"

definition extractBookTitle ::
  "srcfile \<Rightarrow> externals \<Rightarrow> jstring \<Rightarrow> world \<Rightarrow> (exn + json) \<times> world"
where
  "extractBookTitle f x content w =
     (if content = [] then (Inr (JString dfltBookTitle), w)
      else callGeminiWithRetry f x
             (tpl_bookTitle_0 @ substring0 content 4000 @ tpl_bookTitle_1) noConfig w)"

definition generateScriptFromInfo ::
  "srcfile \<Rightarrow> externals \<Rightarrow> jstring \<Rightarrow> jstring \<Rightarrow> world \<Rightarrow> (exn + json) \<times> world"
where
  "generateScriptFromInfo f x title description w =
     callGeminiWithRetry f x
       (tpl_script_0 @ title @ tpl_script_1 @ description @ tpl_script_2) noConfig w"

definition generateContentSuggestions ::
  "srcfile \<Rightarrow> externals \<Rightarrow> jstring \<Rightarrow> world \<Rightarrow> (exn + jstring list) \<times> world"
where
  "generateContentSuggestions f x content w =
     (if content = [] then (Inr [], w)
      else
        (case callGeminiWithRetry f x
                (tpl_suggestions_0 @ substring0 content 8000 @ tpl_suggestions_1)
                (jsonConfig suggestionsSchema) w of
           (Inl error, w1) \<Rightarrow> (Inl error, w1)
         | (Inr (JArray vs), w1) \<Rightarrow>
             (case stringItems vs of
                Some ss \<Rightarrow> (Inr ss, w1)
              | None \<Rightarrow> (Inl (Error msgSuggestionsFormat), w1))
         | (Inr v, w1) \<Rightarrow> (Inl (Error msgSuggestionsFormat), w1)))"

definition designArticleFromContent ::
  "srcfile \<Rightarrow> externals \<Rightarrow> jstring \<Rightarrow> world \<Rightarrow> (exn + json) \<times> world"
where
  "designArticleFromContent f x content w =
     (if content = [] then (Inr (JString dfltArticle), w)
      else callGeminiWithRetry f x
             (tpl_article_0 @ substring0 content 100000 @ tpl_article_1) noConfig w)"

text \<open>
  The subtraction of two doubles. A rational that for some \<open>j\<close> from 0 to 52 is below
  \<open>2\<^bsup>j+1\<^esup>\<close> in absolute value and a multiple of \<open>2\<^bsup>j-52\<^esup>\<close> has a significand of at
  most 53 bits and an exponent in range, so it is a double. IEEE 754 subtraction is
  correctly rounded: a difference that passes this test is the result, exactly. Any
  other difference is rounded by the engine, which is a parameter.
\<close>

definition exactlyRepresentable :: "rat \<Rightarrow> bool" where
  "exactlyRepresentable q =
     list_ex (\<lambda>j. of_int \<lfloor>q * 2 ^ (52 - j)\<rfloor> = q * 2 ^ (52 - j) \<and> \<bar>q\<bar> < 2 ^ (j + 1)) [0..<53]"

definition double_minus :: "externals \<Rightarrow> rat \<Rightarrow> rat \<Rightarrow> rat" where
  "double_minus x a b =
     (if exactlyRepresentable (a - b) then a - b else rounded_difference x a b)"

text \<open>
  \<^verbatim>\<open>rateContent\<close>, lines 518-531: the clamp, the two \<^verbatim>\<open>repeat\<close> calls (whose count
  is truncated to an integer, the second being the double \<^verbatim>\<open>5 - rating\<close>), and the
  formatted text.
\<close>

definition clampRating :: "rat \<Rightarrow> rat" where
  "clampRating r = max 1 (min 5 r)"

definition stars :: "externals \<Rightarrow> rat \<Rightarrow> jstring" where
  "stars x rating =
     repeat [9733] (nat \<lfloor>rating\<rfloor>) @ repeat [9734] (nat \<lfloor>double_minus x 5 rating\<rfloor>)"

definition ratingText :: "externals \<Rightarrow> rat \<Rightarrow> jstring \<Rightarrow> jstring" where
  "ratingText x r review =
     tpl_ratingOutput_0 @ stars x (clampRating r) @ tpl_ratingOutput_1 @
     Number_toString x (clampRating r) @ tpl_ratingOutput_2 @ review @ tpl_ratingOutput_3"

text \<open>The \<^verbatim>\<open>try\<close> block of \<^verbatim>\<open>rateContent\<close>, and the function with its \<^verbatim>\<open>catch\<close>.\<close>

definition rateTry ::
  "srcfile \<Rightarrow> externals \<Rightarrow> jstring \<Rightarrow> world \<Rightarrow> (exn + jstring) \<times> world"
where
  "rateTry f x content w =
     (case callGeminiWithRetry f x
             (tpl_rating_0 @ substring0 content 100000 @ tpl_rating_1)
             (jsonConfig ratingSchema) w of
        (Inl error, w1) \<Rightarrow> (Inl error, w1)
      | (Inr result, w1) \<Rightarrow>
          (if truthy result then
             (case (getProperty result (asc ''rating''), getProperty result (asc ''review'')) of
                (Some (Some (JNumber r)), Some (Some (JString review))) \<Rightarrow>
                  (Inr (ratingText x r review), w1)
              | other \<Rightarrow> (Inl (Error msgRatingFormat), w1))
           else (Inl (Error msgRatingFormat), w1)))"

definition rateContent ::
  "srcfile \<Rightarrow> externals \<Rightarrow> jstring \<Rightarrow> world \<Rightarrow> (exn + jstring) \<times> world"
where
  "rateContent f x content w =
     (if content = [] then (Inr dfltRating, w)
      else
        (case rateTry f x content w of
           (Inl error, w1) \<Rightarrow> (Inl (Error msgRatingFailed), w1)
         | (Inr text, w1) \<Rightarrow> (Inr text, w1)))"

section \<open>Properties the claims are stated with\<close>

text \<open>The requests to the remote capability among the effects logged so far.\<close>

definition isRequest :: "event \<Rightarrow> bool" where
  "isRequest e =
     (case e of
        GenerateContent h r \<Rightarrow> True
      | GenerateContentStream h r \<Rightarrow> True
      | _ \<Rightarrow> False)"

definition requests :: "world \<Rightarrow> event list" where
  "requests w = filter isRequest (events w)"

text \<open>What the first call of \<^verbatim>\<open>getAiInstance\<close> does when it takes the key from
  \<^verbatim>\<open>localStorage\<close>.\<close>

definition handleEvents :: "srcfile \<Rightarrow> jstring \<Rightarrow> event list" where
  "handleEvents f k =
     (case f of Services \<Rightarrow> [ReadEnv, GetItem, Construct k] | Part000 \<Rightarrow> [GetItem, Construct k])"

text \<open>
  The exhaustion rule as the specification words it: the error of the last attempt is
  re-raised unchanged when it is one of the curated kinds (credential missing, empty
  response, empty structured response, malformed structured response, an
  authentication rejection of the remote capability, which the code recognises by the
  text \<^verbatim>\<open>API key not valid\<close>), and every other error becomes the generic one.
\<close>

definition specCurated :: "exn \<Rightarrow> bool" where
  "specCurated e =
     (e = Error API_KEY_MISSING \<or> e = Error msgEmptyResponse \<or> e = Error msgEmptyJson \<or>
      e = Error msgMalformedJson \<or>
      (case e of Error m \<Rightarrow> str_includes m (asc ''API key not valid'') | NonError \<Rightarrow> False))"

definition specExhausted :: "exn \<Rightarrow> exn" where
  "specExhausted e = (if specCurated e then e else Error msgConnectionFailed)"

text \<open>A text wrapped in code-fence markers: \<^verbatim>\<open>"```json\n" + t + "\n```"\<close>.\<close>

definition fenced :: "jstring \<Rightarrow> jstring" where
  "fenced t = backticks @ asc ''json'' @ [10] @ t @ [10] @ backticks"

text \<open>
  The three tests of \<^verbatim>\<open>createQuiz\<close> on one decoded item, each on its own, and the
  test the specification words instead of the third: the answer index is an integer.
\<close>

definition hasStringQuestion :: "json \<Rightarrow> bool" where
  "hasStringQuestion q =
     (case getProperty q (asc ''question'') of Some (Some (JString s)) \<Rightarrow> True | _ \<Rightarrow> False)"

definition hasFourOptions :: "json \<Rightarrow> bool" where
  "hasFourOptions q =
     (case getProperty q (asc ''options'') of
        Some (Some (JArray os)) \<Rightarrow> length os = 4
      | _ \<Rightarrow> False)"

definition hasNumberAnswer :: "json \<Rightarrow> bool" where
  "hasNumberAnswer q =
     (case getProperty q (asc ''correctAnswerIndex'') of
        Some (Some (JNumber r)) \<Rightarrow> True
      | _ \<Rightarrow> False)"

definition hasIntegerAnswer :: "json \<Rightarrow> bool" where
  "hasIntegerAnswer q =
     (case getProperty q (asc ''correctAnswerIndex'') of
        Some (Some (JNumber r)) \<Rightarrow> of_int \<lfloor>r\<rfloor> = r
      | _ \<Rightarrow> False)"

text \<open>
  The effects logged between two worlds, and the statement that a given effect is the
  first of them: the log of the later world is the log of the earlier one, then that
  effect, then whatever follows.
\<close>

definition effectsSince :: "world \<Rightarrow> world \<Rightarrow> event list" where
  "effectsSince w1 w2 = drop (length (events w1)) (events w2)"

definition nextEffect :: "world \<Rightarrow> event \<Rightarrow> world \<Rightarrow> bool" where
  "nextEffect w1 e w2 \<longleftrightarrow> take (Suc (length (events w1))) (events w2) = events w1 @ [e]"

section \<open>Concrete runs\<close>

text \<open>
  A world in which the module has not run yet and \<^verbatim>\<open>localStorage\<close> holds the key
  \<^verbatim>\<open>k\<close>, one in which it holds no key, and externals whose remote capability always
  throws a given value, or always answers with a given text. Their
  \<open>rounded_difference\<close> is the plain difference: the runs that use them as they are
  subtract only doubles whose difference is a double, and the one run that needs a
  rounding sets its own.
\<close>

definition freshWorld :: "jstring option \<Rightarrow> world" where
  "freshWorld key = \<lparr>ai = None, gemini_api_key = key, events = []\<rparr>"

definition throwing :: "exn \<Rightarrow> externals" where
  "throwing e =
     \<lparr>process_env_API_KEY = None, localStorage_throws = False,
      constructor_throws = (\<lambda>k. False), JSON_parse = (\<lambda>s. None),
      generateContent = (\<lambda>h r i. Throws e),
      generateContentStream = (\<lambda>h r. StreamThrows e),
      number_toString = (\<lambda>r. []), rounded_difference = (\<lambda>a b. a - b),
      null_property_message = []\<rparr>"

definition answering :: "jstring \<Rightarrow> (jstring \<Rightarrow> json option) \<Rightarrow> externals" where
  "answering t parse =
     \<lparr>process_env_API_KEY = None, localStorage_throws = False,
      constructor_throws = (\<lambda>k. False), JSON_parse = parse,
      generateContent = (\<lambda>h r i. Response (Some t)),
      generateContentStream = (\<lambda>h r. Stream [Some t] None),
      number_toString = (\<lambda>r. []), rounded_difference = (\<lambda>a b. a - b),
      null_property_message = []\<rparr>"

definition rejectingKeys :: externals where
  "rejectingKeys = (throwing NonError)\<lparr>constructor_throws := (\<lambda>k. True)\<rparr>"

text \<open>Two messages a transport layer produces: a truncated body, and a rejected key.\<close>

definition msgUnexpectedEnd :: jstring where
  "msgUnexpectedEnd = asc ''Unexpected end of JSON input''"

definition msgKeyNotValid :: jstring where
  "msgKeyNotValid = asc ''API key not valid. Please pass a valid API key.''"

text \<open>A decoder that accepts one text only, and decoders that return a given value.\<close>

definition acceptsOnly :: "jstring \<Rightarrow> json \<Rightarrow> jstring \<Rightarrow> json option" where
  "acceptsOnly s v t = (if t = s then Some v else None)"

definition quizItem :: "rat \<Rightarrow> json" where
  "quizItem answer =
     JObject [(asc ''question'', JString (asc ''Q'')),
              (asc ''options'', JArray [JString (asc ''a''), JString (asc ''b''),
                                        JString (asc ''c''), JString (asc ''d'')]),
              (asc ''correctAnswerIndex'', JNumber answer)]"

definition quizItemNoOptions :: json where
  "quizItemNoOptions =
     JObject [(asc ''question'', JString (asc ''Q'')), (asc ''options'', JArray [])]"

definition quizParse :: "json list \<Rightarrow> externals" where
  "quizParse qs = answering (asc ''[...]'') (\<lambda>s. Some (JArray qs))"

definition ratingParse :: "rat \<Rightarrow> externals" where
  "ratingParse r =
     (answering (asc ''{...}'')
        (\<lambda>s. Some (JObject [(asc ''rating'', JNumber r), (asc ''review'', JString (asc ''fine''))])))
     \<lparr>number_toString := (\<lambda>r. asc ''2.5'')\<rparr>"

text \<open>Two texts that agree on their first 100000 code units and differ in the next.\<close>

definition longText :: "nat \<Rightarrow> jstring" where
  "longText c = replicate 100000 97 @ [c]"

section \<open>Strings\<close>

lemma startsWith_iff: "startsWith s p \<longleftrightarrow> take (length p) s = p"
  by (induction s p rule: startsWith.induct) auto

lemma not_ws_backtick [simp]: "\<not> isWhiteSpace 96"
  by (simp add: isWhiteSpace_def)

lemma ws_newline [simp]: "isWhiteSpace 10"
  by (simp add: isWhiteSpace_def)

lemma length_backticks [simp]: "length backticks = 3"
  by (simp add: backticks_def)

lemma trim_dropWhile_Nil: "dropWhile isWhiteSpace t = [] \<Longrightarrow> trim t = []"
  unfolding trim_def by (auto dest: set_dropWhileD)

lemma trim_all_ws: "list_all isWhiteSpace t \<Longrightarrow> trim t = []"
  by (rule trim_dropWhile_Nil) (simp add: list_all_iff)

section \<open>The retry loop\<close>

lemma retryLoop_retry:
  assumes "1 < attempts"
    and "tryBody x cfg (generateContent x h
           \<lparr>model = theModel, contents = prompt, config = Some cfg\<rparr> (3 - attempts)) = Inl e"
  shows "retryLoop f x h prompt cfg attempts w =
         retryLoop f x h prompt cfg (attempts - 1)
           (emit (SetTimeout 1000)
              (emit (GenerateContent h
                 \<lparr>model = theModel, contents = prompt, config = Some cfg\<rparr>) w))"
  using assms by (subst retryLoop.simps) simp

lemma retryLoop_last:
  assumes "tryBody x cfg (generateContent x h
             \<lparr>model = theModel, contents = prompt, config = Some cfg\<rparr> 2) = Inl e"
  shows "retryLoop f x h prompt cfg (Suc 0) w =
         (Inl (exhausted f e),
          emit (GenerateContent h \<lparr>model = theModel, contents = prompt, config = Some cfg\<rparr>) w)"
  using assms by (subst retryLoop.simps) simp

lemma retryLoop_success:
  assumes "0 < attempts"
    and "tryBody x cfg (generateContent x h
           \<lparr>model = theModel, contents = prompt, config = Some cfg\<rparr> (3 - attempts)) = Inr v"
  shows "retryLoop f x h prompt cfg attempts w =
         (Inr v,
          emit (GenerateContent h \<lparr>model = theModel, contents = prompt, config = Some cfg\<rparr>) w)"
  using assms by (subst retryLoop.simps) simp

text \<open>Three failed attempts: the loop from its start to the exhaustion branch.\<close>

lemma retryLoop_three_failures:
  assumes a0: "tryBody x cfg (generateContent x h
                 \<lparr>model = theModel, contents = prompt, config = Some cfg\<rparr> 0) = Inl e0"
    and a1: "tryBody x cfg (generateContent x h
               \<lparr>model = theModel, contents = prompt, config = Some cfg\<rparr> 1) = Inl e1"
    and a2: "tryBody x cfg (generateContent x h
               \<lparr>model = theModel, contents = prompt, config = Some cfg\<rparr> 2) = Inl e2"
  shows "retryLoop f x h prompt cfg 3 w =
         (Inl (exhausted f e2),
          w\<lparr>events := events w @
             [GenerateContent h \<lparr>model = theModel, contents = prompt, config = Some cfg\<rparr>,
              SetTimeout 1000,
              GenerateContent h \<lparr>model = theModel, contents = prompt, config = Some cfg\<rparr>,
              SetTimeout 1000,
              GenerateContent h \<lparr>model = theModel, contents = prompt, config = Some cfg\<rparr>]\<rparr>)"
proof -
  let ?g = "GenerateContent h \<lparr>model = theModel, contents = prompt, config = Some cfg\<rparr>"
  have "retryLoop f x h prompt cfg 3 w =
        retryLoop f x h prompt cfg 2 (emit (SetTimeout 1000) (emit ?g w))"
    using retryLoop_retry [of 3 x cfg h prompt e0 f w] a0 by simp
  also have "\<dots> = retryLoop f x h prompt cfg (Suc 0)
        (emit (SetTimeout 1000) (emit ?g (emit (SetTimeout 1000) (emit ?g w))))"
    using retryLoop_retry [of 2 x cfg h prompt e1 f] a1 by simp
  also have "\<dots> = (Inl (exhausted f e2),
        emit ?g (emit (SetTimeout 1000) (emit ?g (emit (SetTimeout 1000) (emit ?g w)))))"
    using retryLoop_last [OF a2] by simp
  finally show ?thesis by (simp add: emit_def)
qed

lemma retryLoop_ai: "ai (snd (retryLoop f x h prompt cfg attempts w)) = ai w"
proof (induction f x h prompt cfg attempts w rule: retryLoop.induct)
  case (1 f x h prompt cfg attempts w)
  show ?case
    by (subst retryLoop.simps) (use 1 in \<open>auto simp: emit_def split: sum.splits\<close>)
qed

section \<open>Runs from a fresh world\<close>

lemma getAiInstance_fresh:
  assumes "k \<noteq> []" and "process_env_API_KEY x = None" and "\<not> localStorage_throws x"
    and "\<not> constructor_throws x k"
  shows "getAiInstance f x (freshWorld (Some k)) =
     (Inr (GoogleGenAI k),
      \<lparr>ai = Some (GoogleGenAI k), gemini_api_key = Some k, events = handleEvents f k\<rparr>)"
  using assms
  by (cases f)
     (simp_all add: getAiInstance_def getAiInstance_services_def getAiInstance_part000_def
        freshWorld_def emit_def handleEvents_def)

lemma callGeminiWithRetry_first_answer:
  assumes "k \<noteq> []" and "process_env_API_KEY x = None" and "\<not> localStorage_throws x"
    and "\<not> constructor_throws x k"
    and "tryBody x cfg (generateContent x (GoogleGenAI k)
           \<lparr>model = theModel, contents = prompt, config = Some cfg\<rparr> 0) = Inr v"
  shows "callGeminiWithRetry f x prompt cfg (freshWorld (Some k)) =
     (Inr v,
      \<lparr>ai = Some (GoogleGenAI k), gemini_api_key = Some k,
       events = handleEvents f k @
         [GenerateContent (GoogleGenAI k)
            \<lparr>model = theModel, contents = prompt, config = Some cfg\<rparr>]\<rparr>)"
  using assms retryLoop_success [of 3 x cfg "GoogleGenAI k" prompt v f]
  by (simp add: callGeminiWithRetry_def getAiInstance_fresh emit_def)

lemma tryBody_throwing:
  "tryBody (throwing e) cfg (generateContent (throwing e) h r i) = Inl e"
  by (simp add: tryBody_def throwing_def)

lemma callGeminiWithRetry_throwing:
  assumes "k \<noteq> []"
  shows "fst (callGeminiWithRetry f (throwing e) prompt cfg (freshWorld (Some k))) =
         Inl (exhausted f e)"
proof -
  have "fst (retryLoop f (throwing e) h prompt cfg 3 w1) = Inl (exhausted f e)" for h w1
    by (subst retryLoop_three_failures [where ?e0.0 = e and ?e1.0 = e and ?e2.0 = e])
       (simp_all add: tryBody_throwing)
  moreover have "getAiInstance f (throwing e) (freshWorld (Some k)) =
     (Inr (GoogleGenAI k),
      \<lparr>ai = Some (GoogleGenAI k), gemini_api_key = Some k, events = handleEvents f k\<rparr>)"
    using assms by (intro getAiInstance_fresh) (simp_all add: throwing_def)
  ultimately show ?thesis
    by (simp add: callGeminiWithRetry_def)
qed

lemma text_nonempty: "asc ''text'' \<noteq> []"
  by (simp add: asc_def)

section \<open>Obtaining the handle sends no request\<close>

lemma requests_emit:
  "requests (emit e w) = requests w @ (if isRequest e then [e] else [])"
  by (simp add: requests_def emit_def)

lemma requests_update [simp]:
  "requests (w\<lparr>ai := a\<rparr>) = requests w"
  "requests (w\<lparr>gemini_api_key := k\<rparr>) = requests w"
  by (simp_all add: requests_def)

lemma getAiInstance_requests: "requests (snd (getAiInstance f x w)) = requests w"
  by (cases f)
     (auto simp: getAiInstance_def getAiInstance_services_def getAiInstance_part000_def Let_def requests_emit
           isRequest_def split: option.splits)

lemma initFailed_not_missing: "msgInitializationFailed \<noteq> API_KEY_MISSING"
  by (simp add: msgInitializationFailed_def API_KEY_MISSING_def asc_def)

lemma getAiInstance_missing_again:
  assumes "getAiInstance f x w = (Inl (Error API_KEY_MISSING), w1)"
  shows "fst (getAiInstance f x w1) = Inl (Error API_KEY_MISSING)"
  using assms initFailed_not_missing
  by (cases f)
     (auto simp: getAiInstance_def getAiInstance_services_def getAiInstance_part000_def Let_def emit_def
           split: option.splits if_splits)

lemma callGeminiWithRetry_no_handle:
  "getAiInstance f x w = (Inl e, w1) \<Longrightarrow> callGeminiWithRetry f x prompt cfg w = (Inl e, w1)"
  by (simp add: callGeminiWithRetry_def)

lemma callGeminiWithRetry_no_handle_requests:
  assumes "fst (getAiInstance f x w) = Inl e"
  shows "fst (callGeminiWithRetry f x prompt cfg w) = Inl e"
    and "requests (snd (callGeminiWithRetry f x prompt cfg w)) = requests w"
  using assms getAiInstance_requests [of f x w]
  by (cases "getAiInstance f x w"; simp add: callGeminiWithRetry_def)+

lemma categorizeContent_world:
  "snd (categorizeContent f x content w) =
     (if content = [] then w
      else snd (callGeminiWithRetry f x
                  (tpl_categories_0 @ substring0 content 8000 @ tpl_categories_1)
                  (jsonConfig categoriesSchema) w))"
  by (auto simp: categorizeContent_def categorizeTry_def
           split: prod.splits sum.splits json.splits option.splits)

lemma categorizeContent_no_handle_requests:
  assumes "fst (getAiInstance f x w) = Inl e"
  shows "requests (snd (categorizeContent f x content w)) = requests w"
  by (simp add: categorizeContent_world callGeminiWithRetry_no_handle_requests [OF assms])

lemma getAiInstance_no_key:
  "getAiInstance f (throwing e) (freshWorld None) =
     (Inl (Error API_KEY_MISSING),
      \<lparr>ai = None, gemini_api_key = None,
       events = (case f of Services \<Rightarrow> [ReadEnv, GetItem] | Part000 \<Rightarrow> [GetItem])\<rparr>)"
  by (cases f)
     (simp_all add: getAiInstance_def getAiInstance_services_def getAiInstance_part000_def throwing_def
        freshWorld_def emit_def)

lemma ratingFailed_not_missing: "msgRatingFailed \<noteq> API_KEY_MISSING"
  by (simp add: msgRatingFailed_def API_KEY_MISSING_def asc_def)

section \<open>Attempts and delays\<close>

text \<open>
  C1. When the handle is obtained and each of the three attempts fails,
  \<^verbatim>\<open>callGeminiWithRetry\<close> rejects after exactly three requests to the remote
  capability, with a delay of 1000 ms after the first and after the second failure
  and none after the third; obtaining the handle sends no request. This holds for both
  files, every prompt and every configuration.
\<close>

theorem callGeminiWithRetry_three_requests:
  assumes "getAiInstance f x w = (Inr h, w1)"
    and "tryBody x cfg (generateContent x h
           \<lparr>model = theModel, contents = prompt, config = Some cfg\<rparr> 0) = Inl e0"
    and "tryBody x cfg (generateContent x h
           \<lparr>model = theModel, contents = prompt, config = Some cfg\<rparr> 1) = Inl e1"
    and "tryBody x cfg (generateContent x h
           \<lparr>model = theModel, contents = prompt, config = Some cfg\<rparr> 2) = Inl e2"
  shows "(\<exists>raised.
            callGeminiWithRetry f x prompt cfg w =
              (Inl raised,
               w1\<lparr>events := events w1 @
                  [GenerateContent h \<lparr>model = theModel, contents = prompt, config = Some cfg\<rparr>,
                   SetTimeout 1000,
                   GenerateContent h \<lparr>model = theModel, contents = prompt, config = Some cfg\<rparr>,
                   SetTimeout 1000,
                   GenerateContent h \<lparr>model = theModel, contents = prompt, config = Some cfg\<rparr>]\<rparr>)) \<and>
         requests (snd (callGeminiWithRetry f x prompt cfg w)) =
           requests w @
             [GenerateContent h \<lparr>model = theModel, contents = prompt, config = Some cfg\<rparr>,
              GenerateContent h \<lparr>model = theModel, contents = prompt, config = Some cfg\<rparr>,
              GenerateContent h \<lparr>model = theModel, contents = prompt, config = Some cfg\<rparr>]"
proof -
  have c: "callGeminiWithRetry f x prompt cfg w =
      (Inl (exhausted f e2),
       w1\<lparr>events := events w1 @
          [GenerateContent h \<lparr>model = theModel, contents = prompt, config = Some cfg\<rparr>,
           SetTimeout 1000,
           GenerateContent h \<lparr>model = theModel, contents = prompt, config = Some cfg\<rparr>,
           SetTimeout 1000,
           GenerateContent h \<lparr>model = theModel, contents = prompt, config = Some cfg\<rparr>]\<rparr>)"
    using assms retryLoop_three_failures [of x cfg h prompt e0 e1 e2 f w1]
    by (simp add: callGeminiWithRetry_def)
  have "requests w1 = requests w"
    using getAiInstance_requests [of f x w] assms(1) by simp
  then show ?thesis
    unfolding c by (simp add: requests_def isRequest_def)
qed

theorem callGeminiWithRetry_three_requests_witness:
  "getAiInstance Part000 (throwing NonError) (freshWorld (Some (asc ''k''))) =
     (Inr (GoogleGenAI (asc ''k'')),
      \<lparr>ai = Some (GoogleGenAI (asc ''k'')), gemini_api_key = Some (asc ''k''),
       events = [GetItem, Construct (asc ''k'')]\<rparr>) \<and>
   (\<exists>raised.
      callGeminiWithRetry Part000 (throwing NonError) (asc ''hello'') noConfig
        (freshWorld (Some (asc ''k''))) =
      (Inl raised,
       \<lparr>ai = Some (GoogleGenAI (asc ''k'')), gemini_api_key = Some (asc ''k''),
        events =
          [GetItem, Construct (asc ''k''),
           GenerateContent (GoogleGenAI (asc ''k''))
             \<lparr>model = theModel, contents = asc ''hello'', config = Some noConfig\<rparr>,
           SetTimeout 1000,
           GenerateContent (GoogleGenAI (asc ''k''))
             \<lparr>model = theModel, contents = asc ''hello'', config = Some noConfig\<rparr>,
           SetTimeout 1000,
           GenerateContent (GoogleGenAI (asc ''k''))
             \<lparr>model = theModel, contents = asc ''hello'', config = Some noConfig\<rparr>]\<rparr>))"
proof -
  have g: "getAiInstance Part000 (throwing NonError) (freshWorld (Some (asc ''k''))) =
     (Inr (GoogleGenAI (asc ''k'')),
      \<lparr>ai = Some (GoogleGenAI (asc ''k'')), gemini_api_key = Some (asc ''k''),
       events = [GetItem, Construct (asc ''k'')]\<rparr>)"
    by (simp add: getAiInstance_def getAiInstance_part000_def throwing_def freshWorld_def
          emit_def asc_def)
  have t: "tryBody (throwing NonError) noConfig
             (generateContent (throwing NonError) (GoogleGenAI (asc ''k''))
                \<lparr>model = theModel, contents = asc ''hello'', config = Some noConfig\<rparr> i) =
           Inl NonError" for i
    by (simp add: tryBody_def throwing_def)
  show ?thesis
    using callGeminiWithRetry_three_requests [OF g t t t, THEN conjunct1] g by simp
qed

section \<open>The error raised on exhaustion\<close>

lemmas exhausted_defs = exhausted_def exhausted_services_def exhausted_part000_def

lemma exhausted_unexpectedEnd: "exhausted f (Error msgUnexpectedEnd) = Error msgUnexpectedEnd"
  by (cases f) (simp_all add: exhausted_defs msgUnexpectedEnd_def asc_def API_KEY_MISSING_def)

lemma exhausted_keyNotValid:
  "exhausted Services (Error msgKeyNotValid) = Error msgConnectionFailed"
  "exhausted Part000 (Error msgKeyNotValid) = Error API_KEY_MISSING"
  by (simp_all add: exhausted_defs msgKeyNotValid_def asc_def API_KEY_MISSING_def
        patEmptyResponse_def)

lemma spec_unexpectedEnd: "specExhausted (Error msgUnexpectedEnd) = Error msgConnectionFailed"
  by (simp add: specExhausted_def specCurated_def msgUnexpectedEnd_def asc_def API_KEY_MISSING_def
     msgEmptyResponse_def msgEmptyJson_def msgMalformedJson_def)

lemma spec_keyNotValid: "specExhausted (Error msgKeyNotValid) = Error msgKeyNotValid"
  by (simp add: specExhausted_def specCurated_def msgKeyNotValid_def asc_def)

lemma unexpectedEnd_not_generic: "Error msgUnexpectedEnd \<noteq> Error msgConnectionFailed"
  by (simp add: msgUnexpectedEnd_def msgConnectionFailed_def asc_def)

lemma keyNotValid_distinct:
  "Error msgConnectionFailed \<noteq> Error msgKeyNotValid"
  "Error API_KEY_MISSING \<noteq> Error msgKeyNotValid"
  by (simp_all add: msgKeyNotValid_def msgConnectionFailed_def asc_def API_KEY_MISSING_def)

lemma exhausted_own_errors:
  "exhausted f (Error msgEmptyResponse) = Error msgEmptyResponse"
  "exhausted f (Error msgEmptyJson) = Error msgEmptyJson"
  "exhausted f (Error msgMalformedJson) = Error msgMalformedJson"
  "exhausted f (Error API_KEY_MISSING) = Error API_KEY_MISSING"
proof -
  note defs = exhausted_defs patEmptyResponse_def asc_def API_KEY_MISSING_def
  show "exhausted f (Error msgEmptyResponse) = Error msgEmptyResponse"
    by (cases f; simp add: defs msgEmptyResponse_def)
  show "exhausted f (Error msgEmptyJson) = Error msgEmptyJson"
    by (cases f; simp add: defs msgEmptyJson_def)
  show "exhausted f (Error msgMalformedJson) = Error msgMalformedJson"
    by (cases f; simp add: defs msgMalformedJson_def)
  show "exhausted f (Error API_KEY_MISSING) = Error API_KEY_MISSING"
    by (cases f; simp add: defs)
qed

text \<open>
  C2, as the claim states it, fails. The transport error with the message
  \<^verbatim>\<open>Unexpected end of JSON input\<close> is none of the curated kinds, yet both files
  re-raise it instead of the generic error. The authentication rejection with the
  message \<^verbatim>\<open>API key not valid. Please pass a valid API key.\<close> is not re-raised by
  either file: the first file raises the generic error, the second an error with the
  message \<^verbatim>\<open>API_KEY_MISSING\<close>.
\<close>

theorem exhaustion_error_counterexample:
  "fst (callGeminiWithRetry Services (throwing (Error msgUnexpectedEnd)) (asc ''hello'') noConfig
          (freshWorld (Some (asc ''k'')))) \<noteq> Inl (specExhausted (Error msgUnexpectedEnd)) \<and>
   fst (callGeminiWithRetry Part000 (throwing (Error msgUnexpectedEnd)) (asc ''hello'') noConfig
          (freshWorld (Some (asc ''k'')))) \<noteq> Inl (specExhausted (Error msgUnexpectedEnd)) \<and>
   fst (callGeminiWithRetry Services (throwing (Error msgKeyNotValid)) (asc ''hello'') noConfig
          (freshWorld (Some (asc ''k'')))) \<noteq> Inl (specExhausted (Error msgKeyNotValid)) \<and>
   fst (callGeminiWithRetry Part000 (throwing (Error msgKeyNotValid)) (asc ''hello'') noConfig
          (freshWorld (Some (asc ''k'')))) \<noteq> Inl (specExhausted (Error msgKeyNotValid))"
proof -
  have k: "asc ''k'' \<noteq> []" by (simp add: asc_def)
  show ?thesis
    by (simp only: callGeminiWithRetry_throwing [OF k] exhausted_unexpectedEnd
          exhausted_keyNotValid spec_unexpectedEnd spec_keyNotValid sum.inject
          unexpectedEnd_not_generic keyNotValid_distinct simp_thms)
qed

text \<open>
  C2, amended. When the handle is obtained and the three attempts fail, the value
  raised is decided by what the message of the last error contains, in this order. In
  the second file a message containing \<^verbatim>\<open>API key not valid\<close> or \<^verbatim>\<open>API_KEY_MISSING\<close>
  gives an error with the message \<^verbatim>\<open>API_KEY_MISSING\<close>. Otherwise, and in the first
  file always, an error whose message contains \<^verbatim>\<open>Gemini API\<close>, the Arabic for "empty
  response" or \<^verbatim>\<open>JSON\<close>, or in the first file is equal to \<^verbatim>\<open>API_KEY_MISSING\<close>, is
  raised again. Every other error, and every thrown value that is not an Error, gives
  the generic connection error. Two consequences hold in both files: when the last
  error is one of the three the wrapper raises itself (empty response, empty
  structured response, malformed structured response) it is raised again; when its
  message is \<^verbatim>\<open>API_KEY_MISSING\<close> the error raised has that message.
\<close>

theorem callGeminiWithRetry_exhaustion_error:
  assumes "getAiInstance f x w = (Inr h, w1)"
    and "tryBody x cfg (generateContent x h
           \<lparr>model = theModel, contents = prompt, config = Some cfg\<rparr> 0) = Inl e0"
    and "tryBody x cfg (generateContent x h
           \<lparr>model = theModel, contents = prompt, config = Some cfg\<rparr> 1) = Inl e1"
    and "tryBody x cfg (generateContent x h
           \<lparr>model = theModel, contents = prompt, config = Some cfg\<rparr> 2) = Inl e2"
  shows "fst (callGeminiWithRetry f x prompt cfg w) =
         Inl (case e2 of
                NonError \<Rightarrow> Error msgConnectionFailed
              | Error m \<Rightarrow>
                  if f = Part000 \<and>
                     (str_includes m (asc ''API key not valid'') \<or> str_includes m API_KEY_MISSING)
                  then Error API_KEY_MISSING
                  else if str_includes m (asc ''Gemini API'') \<or> str_includes m patEmptyResponse \<or>
                          str_includes m (asc ''JSON'') \<or> (f = Services \<and> m = API_KEY_MISSING)
                  then Error m
                  else Error msgConnectionFailed) \<and>
         (e2 = Error msgEmptyResponse \<or> e2 = Error msgEmptyJson \<or> e2 = Error msgMalformedJson \<longrightarrow>
          fst (callGeminiWithRetry f x prompt cfg w) = Inl e2) \<and>
         (e2 = Error API_KEY_MISSING \<longrightarrow>
          fst (callGeminiWithRetry f x prompt cfg w) = Inl (Error API_KEY_MISSING))"
proof -
  have r: "fst (callGeminiWithRetry f x prompt cfg w) = Inl (exhausted f e2)"
    using assms retryLoop_three_failures [of x cfg h prompt e0 e1 e2 f w1]
    by (simp add: callGeminiWithRetry_def)
  have c: "exhausted f e2 =
         (case e2 of
                NonError \<Rightarrow> Error msgConnectionFailed
              | Error m \<Rightarrow>
                  if f = Part000 \<and>
                     (str_includes m (asc ''API key not valid'') \<or> str_includes m API_KEY_MISSING)
                  then Error API_KEY_MISSING
                  else if str_includes m (asc ''Gemini API'') \<or> str_includes m patEmptyResponse \<or>
                          str_includes m (asc ''JSON'') \<or> (f = Services \<and> m = API_KEY_MISSING)
                  then Error m
                  else Error msgConnectionFailed)"
    by (cases f; cases e2) (auto simp: exhausted_defs)
  have o: "exhausted f e2 = e2"
    if "e2 = Error msgEmptyResponse \<or> e2 = Error msgEmptyJson \<or> e2 = Error msgMalformedJson"
    using that exhausted_own_errors [of f] by auto
  have m: "exhausted f e2 = Error API_KEY_MISSING" if "e2 = Error API_KEY_MISSING"
    using that exhausted_own_errors [of f] by simp
  show ?thesis
  proof (intro conjI impI)
    show "fst (callGeminiWithRetry f x prompt cfg w) =
         Inl (case e2 of
                NonError \<Rightarrow> Error msgConnectionFailed
              | Error m \<Rightarrow>
                  if f = Part000 \<and>
                     (str_includes m (asc ''API key not valid'') \<or> str_includes m API_KEY_MISSING)
                  then Error API_KEY_MISSING
                  else if str_includes m (asc ''Gemini API'') \<or> str_includes m patEmptyResponse \<or>
                          str_includes m (asc ''JSON'') \<or> (f = Services \<and> m = API_KEY_MISSING)
                  then Error m
                  else Error msgConnectionFailed)"
      unfolding r c ..
  next
    assume "e2 = Error msgEmptyResponse \<or> e2 = Error msgEmptyJson \<or> e2 = Error msgMalformedJson"
    then show "fst (callGeminiWithRetry f x prompt cfg w) = Inl e2"
      using r o by simp
  next
    assume "e2 = Error API_KEY_MISSING"
    then show "fst (callGeminiWithRetry f x prompt cfg w) = Inl (Error API_KEY_MISSING)"
      using r m by simp
  qed
qed

theorem callGeminiWithRetry_exhaustion_error_witness:
  "fst (callGeminiWithRetry Services (answering [] (\<lambda>s. None)) (asc ''hello'') noConfig
          (freshWorld (Some (asc ''k'')))) = Inl (Error msgEmptyResponse)"
proof -
  have g: "getAiInstance Services (answering [] (\<lambda>s. None)) (freshWorld (Some (asc ''k''))) =
     (Inr (GoogleGenAI (asc ''k'')),
      \<lparr>ai = Some (GoogleGenAI (asc ''k'')), gemini_api_key = Some (asc ''k''),
       events = handleEvents Services (asc ''k'')\<rparr>)"
    by (rule getAiInstance_fresh) (simp_all add: answering_def asc_def)
  have t: "tryBody (answering [] (\<lambda>s. None)) noConfig
             (generateContent (answering [] (\<lambda>s. None)) (GoogleGenAI (asc ''k''))
                \<lparr>model = theModel, contents = asc ''hello'', config = Some noConfig\<rparr> i) =
           Inl (Error msgEmptyResponse)" for i
    by (simp add: tryBody_def answering_def)
  show ?thesis
    using callGeminiWithRetry_exhaustion_error [OF g t t t, THEN conjunct2, THEN conjunct1]
    by simp
qed

section \<open>The memoized handle\<close>

lemma getAiInstance_cached:
  "ai w = Some h \<Longrightarrow> getAiInstance f x w = (Inr h, w)"
  by (cases f) (simp_all add: getAiInstance_def getAiInstance_services_def getAiInstance_part000_def)

lemma getAiInstance_sets_ai:
  "getAiInstance f x w = (Inr h, w1) \<Longrightarrow> ai w1 = Some h"
  by (cases f)
     (auto simp: getAiInstance_def getAiInstance_services_def getAiInstance_part000_def Let_def
           emit_def split: option.splits if_splits)

lemma callGeminiWithRetry_keeps_ai:
  assumes "ai w = Some h"
  shows "ai (snd (callGeminiWithRetry f x prompt cfg w)) = Some h"
  using assms by (simp add: callGeminiWithRetry_def getAiInstance_cached retryLoop_ai)

lemma summarizeContent_keeps_ai:
  assumes "ai w = Some h"
  shows "ai (snd (summarizeContent f x content w)) = Some h"
  using assms
  by (simp add: summarizeContent_def getAiInstance_cached emit_def split: stream.splits)

text \<open>
  C9. Once \<^verbatim>\<open>getAiInstance\<close> has returned a handle, the module variable holds it; a
  call in any later world that still holds it, whatever has happened to the
  environment, to \<^verbatim>\<open>localStorage\<close> and to the constructor since, returns the same handle
  and leaves the world as it is: no credential source is read and nothing is
  constructed. \<^verbatim>\<open>callGeminiWithRetry\<close> and \<^verbatim>\<open>summarizeContent\<close>, through which every
  operation reaches the remote capability, keep the variable, so the handle stays the
  only one.
\<close>

theorem getAiInstance_memoized:
  assumes "getAiInstance f x w = (Inr h, w1)"
  shows "ai w1 = Some h \<and>
         (\<forall>x' w2. ai w2 = Some h \<longrightarrow>
            getAiInstance f x' w2 = (Inr h, w2) \<and>
            (\<forall>prompt cfg. ai (snd (callGeminiWithRetry f x' prompt cfg w2)) = Some h) \<and>
            (\<forall>content. ai (snd (summarizeContent f x' content w2)) = Some h))"
  using getAiInstance_sets_ai [OF assms] getAiInstance_cached callGeminiWithRetry_keeps_ai
    summarizeContent_keeps_ai
  by blast

theorem getAiInstance_memoized_witness:
  "getAiInstance Services (throwing NonError) (freshWorld (Some (asc ''k''))) =
     (Inr (GoogleGenAI (asc ''k'')),
      \<lparr>ai = Some (GoogleGenAI (asc ''k'')), gemini_api_key = Some (asc ''k''),
       events = [ReadEnv, GetItem, Construct (asc ''k'')]\<rparr>) \<and>
   getAiInstance Services rejectingKeys
     \<lparr>ai = Some (GoogleGenAI (asc ''k'')), gemini_api_key = None,
      events = [ReadEnv, GetItem, Construct (asc ''k'')]\<rparr> =
     (Inr (GoogleGenAI (asc ''k'')),
      \<lparr>ai = Some (GoogleGenAI (asc ''k'')), gemini_api_key = None,
       events = [ReadEnv, GetItem, Construct (asc ''k'')]\<rparr>)"
proof -
  have g: "getAiInstance Services (throwing NonError) (freshWorld (Some (asc ''k''))) =
     (Inr (GoogleGenAI (asc ''k'')),
      \<lparr>ai = Some (GoogleGenAI (asc ''k'')), gemini_api_key = Some (asc ''k''),
       events = [ReadEnv, GetItem, Construct (asc ''k'')]\<rparr>)"
    by (simp add: getAiInstance_def getAiInstance_services_def throwing_def freshWorld_def
          emit_def asc_def)
  show ?thesis
    using getAiInstance_memoized [OF g] g by simp
qed

section \<open>A key the constructor rejects\<close>

text \<open>
  The second file removes the rejected key from \<^verbatim>\<open>localStorage\<close>, so that the next call
  finds no key and reports it missing without constructing anything.
\<close>

lemma getAiInstance_part000_evicts:
  assumes "ai w = None" and "\<not> localStorage_throws x" and "gemini_api_key w = Some k"
    and "k \<noteq> []" and "constructor_throws x k"
  shows "getAiInstance Part000 x w =
           (Inl (Error msgInitializationFailed),
            w\<lparr>gemini_api_key := None, events := events w @ [GetItem, Construct k, RemoveItem]\<rparr>)"
    and "getAiInstance Part000 x (snd (getAiInstance Part000 x w)) =
           (Inl (Error API_KEY_MISSING),
            w\<lparr>gemini_api_key := None,
              events := events w @ [GetItem, Construct k, RemoveItem, GetItem]\<rparr>)"
  using assms by (simp_all add: getAiInstance_def getAiInstance_part000_def emit_def)

text \<open>
  C3 on \<^verbatim>\<open>services/geminiService.ts\<close>: with the rejected key \<^verbatim>\<open>bad\<close> in
  \<^verbatim>\<open>localStorage\<close> the initialization error is raised, the key stays where it was, and
  the next call reads and tries the same key again.
\<close>

theorem getAiInstance_services_keeps_rejected_key:
  "getAiInstance Services rejectingKeys (freshWorld (Some (asc ''bad''))) =
     (Inl (Error msgInitializationFailed),
      \<lparr>ai = None, gemini_api_key = Some (asc ''bad''),
       events = [ReadEnv, GetItem, Construct (asc ''bad'')]\<rparr>) \<and>
   getAiInstance Services rejectingKeys
     (snd (getAiInstance Services rejectingKeys (freshWorld (Some (asc ''bad''))))) =
     (Inl (Error msgInitializationFailed),
      \<lparr>ai = None, gemini_api_key = Some (asc ''bad''),
       events = [ReadEnv, GetItem, Construct (asc ''bad''),
                 ReadEnv, GetItem, Construct (asc ''bad'')]\<rparr>)"
  by (simp add: getAiInstance_def getAiInstance_services_def rejectingKeys_def throwing_def
        freshWorld_def emit_def asc_def)

section \<open>Empty input\<close>

text \<open>
  C4, amended. On the empty string, analysis, categorization, quiz, keywords, both
  translations, both descriptions, title extraction, suggestions, article design and
  rating return their default value and leave the world untouched: no request and no
  other effect. Sentiment analysis raises its no-content error instead of returning a
  value, also without any effect. Summarization obtains the handle first: if that
  fails it raises the handle's error, otherwise it yields the one placeholder fragment,
  and in both cases it sends no request.
\<close>

theorem empty_input_defaults:
  "analyzeTextContent f x [] w = (Inr (JString dfltAnalysis, []), w) \<and>
   categorizeContent f x [] w = (Inr [], w) \<and>
   createQuiz f x [] questionCount w = (Inr [], w) \<and>
   extractKeywords f x [] w = (Inr [], w) \<and>
   translateToEnglish f x [] w = (Inr (JString dfltTranslation), w) \<and>
   translateToArabic f x [] w = (Inr (JString dfltTranslation), w) \<and>
   generateBookDescription f x [] w = (Inr (JString dfltBookDescription), w) \<and>
   generateVideoDescription f x [] w = (Inr (JString dfltVideoDescription), w) \<and>
   extractBookTitle f x [] w = (Inr (JString dfltBookTitle), w) \<and>
   generateContentSuggestions f x [] w = (Inr [], w) \<and>
   designArticleFromContent f x [] w = (Inr (JString dfltArticle), w) \<and>
   rateContent f x [] w = (Inr dfltRating, w) \<and>
   analyzeSentiment f x [] w = (Inl (Error msgNoSentimentContent), w) \<and>
   summarizeContent f x [] w =
     (case getAiInstance f x w of
        (Inl e, w1) \<Rightarrow> (([], Some e), w1)
      | (Inr h, w1) \<Rightarrow> (([dfltSummary], None), w1)) \<and>
   requests (snd (summarizeContent f x [] w)) = requests w"
proof -
  have s: "summarizeContent f x [] w =
     (case getAiInstance f x w of
        (Inl e, w1) \<Rightarrow> (([], Some e), w1)
      | (Inr h, w1) \<Rightarrow> (([dfltSummary], None), w1))"
    by (simp add: summarizeContent_def split: prod.splits sum.splits)
  have "snd (summarizeContent f x [] w) = snd (getAiInstance f x w)"
    unfolding s by (simp split: prod.splits sum.splits)
  then have "requests (snd (summarizeContent f x [] w)) = requests w"
    by (simp add: getAiInstance_requests)
  with s show ?thesis
    by (simp add: analyzeTextContent_def categorizeContent_def createQuiz_def extractKeywords_def
          translateToEnglish_def translateToArabic_def generateBookDescription_def
          generateVideoDescription_def extractBookTitle_def generateContentSuggestions_def
          designArticleFromContent_def rateContent_def analyzeSentiment_def)
qed

theorem empty_input_defaults_witness:
  "rateContent Services (throwing NonError) [] (freshWorld None) = (Inr dfltRating, freshWorld None) \<and>
   analyzeSentiment Services (throwing NonError) [] (freshWorld None) =
     (Inl (Error msgNoSentimentContent), freshWorld None)"
  using empty_input_defaults [of Services "throwing NonError" "freshWorld None"]
  by simp

text \<open>
  C4, as the claim states it, fails for two operations: on the empty string sentiment
  analysis raises an error rather than returning a default, and summarization with no
  key stored raises the credential-missing error and yields no placeholder.
\<close>

theorem empty_input_counterexample:
  "fst (analyzeSentiment Services (throwing NonError) [] (freshWorld (Some (asc ''k'')))) =
     Inl (Error msgNoSentimentContent) \<and>
   summarizeContent Services (throwing NonError) [] (freshWorld None) =
     (([], Some (Error API_KEY_MISSING)),
      \<lparr>ai = None, gemini_api_key = None, events = [ReadEnv, GetItem]\<rparr>)"
  by (simp add: analyzeSentiment_def summarizeContent_def getAiInstance_no_key)

section \<open>Operations without a handle\<close>

text \<open>
  C5, amended. When obtaining the handle raises the credential-missing error, no
  request is sent and nothing is retried: the world is left as the failed attempt to
  obtain the handle left it. \<^verbatim>\<open>callGeminiWithRetry\<close>, \<^verbatim>\<open>summarizeContent\<close> and, on a
  non-empty input, every domain operation but two raise that same error.
  \<^verbatim>\<open>categorizeContent\<close> catches it and returns the empty list; \<^verbatim>\<open>rateContent\<close> catches it
  and raises its own rating error. \<^verbatim>\<open>analyzeTextContent\<close> raises the credential-missing
  error of its analysis invocation, after its categorization has failed to obtain the
  handle too.
\<close>

theorem credential_missing_surfaces:
  assumes "getAiInstance f x w = (Inl (Error API_KEY_MISSING), w1)" and "content \<noteq> []"
  shows "requests w1 = requests w \<and>
         callGeminiWithRetry f x prompt cfg w = (Inl (Error API_KEY_MISSING), w1) \<and>
         summarizeContent f x content w = (([], Some (Error API_KEY_MISSING)), w1) \<and>
         createQuiz f x content questionCount w = (Inl (Error API_KEY_MISSING), w1) \<and>
         analyzeSentiment f x content w = (Inl (Error API_KEY_MISSING), w1) \<and>
         extractKeywords f x content w = (Inl (Error API_KEY_MISSING), w1) \<and>
         translateToEnglish f x content w = (Inl (Error API_KEY_MISSING), w1) \<and>
         translateToArabic f x content w = (Inl (Error API_KEY_MISSING), w1) \<and>
         generateBookDescription f x content w = (Inl (Error API_KEY_MISSING), w1) \<and>
         generateVideoDescription f x content w = (Inl (Error API_KEY_MISSING), w1) \<and>
         extractBookTitle f x content w = (Inl (Error API_KEY_MISSING), w1) \<and>
         generateScriptFromInfo f x title description w = (Inl (Error API_KEY_MISSING), w1) \<and>
         generateContentSuggestions f x content w = (Inl (Error API_KEY_MISSING), w1) \<and>
         designArticleFromContent f x content w = (Inl (Error API_KEY_MISSING), w1) \<and>
         fst (analyzeTextContent f x content w) = Inl (Error API_KEY_MISSING) \<and>
         requests (snd (analyzeTextContent f x content w)) = requests w \<and>
         categorizeContent f x content w = (Inr [], w1) \<and>
         rateContent f x content w = (Inl (Error msgRatingFailed), w1)"
proof -
  note c = callGeminiWithRetry_no_handle [OF assms(1)]
  have r: "requests w1 = requests w"
    using getAiInstance_requests [of f x w] assms(1) by simp
  have cat: "categorizeContent f x content w = (Inr [], w1)"
    using assms(2) by (simp add: categorizeContent_def categorizeTry_def c)
  have a1: "fst (analyzeTextContent f x content w) = Inl (Error API_KEY_MISSING)"
    using assms(2)
    by (cases "categorizeContent f x content w1")
       (simp add: analyzeTextContent_def c)
  have a2: "requests (snd (analyzeTextContent f x content w)) = requests w"
    using assms(2) categorizeContent_no_handle_requests [OF getAiInstance_missing_again [OF assms(1)], of content] r
    by (cases "categorizeContent f x content w1")
       (simp add: analyzeTextContent_def c)
  show ?thesis
    using assms(2) r cat a1 a2
    by (simp add: c summarizeContent_def assms(1) createQuiz_def analyzeSentiment_def
          extractKeywords_def translateToEnglish_def translateToArabic_def
          generateBookDescription_def generateVideoDescription_def extractBookTitle_def
          generateScriptFromInfo_def generateContentSuggestions_def designArticleFromContent_def
          rateContent_def rateTry_def)
qed

theorem credential_missing_surfaces_witness:
  "extractKeywords Part000 (throwing NonError) (asc ''text'') (freshWorld None) =
     (Inl (Error API_KEY_MISSING), \<lparr>ai = None, gemini_api_key = None, events = [GetItem]\<rparr>) \<and>
   categorizeContent Part000 (throwing NonError) (asc ''text'') (freshWorld None) =
     (Inr [], \<lparr>ai = None, gemini_api_key = None, events = [GetItem]\<rparr>)"
  using credential_missing_surfaces [OF getAiInstance_no_key text_nonempty, of Part000 NonError]
  by simp

text \<open>
  C5, as the claim states it, fails for two operations: with no key anywhere,
  \<^verbatim>\<open>categorizeContent\<close> returns normally and \<^verbatim>\<open>rateContent\<close> raises a different error.
\<close>

theorem credential_missing_counterexample:
  "fst (getAiInstance Services (throwing NonError) (freshWorld None)) = Inl (Error API_KEY_MISSING) \<and>
   fst (categorizeContent Services (throwing NonError) (asc ''text'') (freshWorld None)) \<noteq>
     Inl (Error API_KEY_MISSING) \<and>
   fst (rateContent Services (throwing NonError) (asc ''text'') (freshWorld None)) \<noteq>
     Inl (Error API_KEY_MISSING)"
  using text_nonempty ratingFailed_not_missing
  by (simp add: getAiInstance_no_key categorizeContent_def categorizeTry_def rateContent_def
        rateTry_def callGeminiWithRetry_no_handle [OF getAiInstance_no_key])

section \<open>Code fences\<close>

lemma stripOpeningFence_fenced:
  "stripOpeningFence (fenced t) = dropWhile isWhiteSpace (t @ [10] @ backticks)"
  by (simp add: stripOpeningFence_def fenced_def backticks_def asc_def)

lemma stripClosingFence_append_backticks:
  "stripClosingFence (a @ backticks) = a"
proof (induction a)
  case Nil
  show ?case by (simp add: backticks_def)
next
  case (Cons c cs)
  have "\<not> list_all isWhiteSpace (drop 3 (c # cs @ backticks))"
  proof -
    have "length (drop 3 (c # cs @ backticks)) > 0" by simp
    then have "drop 3 (c # cs @ backticks) \<noteq> []" by (simp del: drop_eq_Nil drop_eq_Nil2 length_drop)
    moreover have "last (c # cs @ backticks) = 96" by (simp add: backticks_def)
    ultimately have "last (drop 3 (c # cs @ backticks)) = 96"
      by (metis last_drop length_greater_0_conv length_drop zero_less_diff)
    with \<open>drop 3 (c # cs @ backticks) \<noteq> []\<close> show ?thesis
      by (metis last_in_set list_all_iff not_ws_backtick)
  qed
  with Cons show ?case by simp
qed

lemma trim_dropWhile_newline:
  "trim (dropWhile isWhiteSpace t @ [10]) = trim t"
proof (cases "dropWhile isWhiteSpace t = []")
  case True
  then have "trim t = []" by (rule trim_dropWhile_Nil)
  moreover have "trim [10] = []" by (simp add: trim_def)
  ultimately show ?thesis by (simp only: True append_Nil)
next
  case False
  then have "\<not> isWhiteSpace (hd (dropWhile isWhiteSpace t))"
    using hd_dropWhile by blast
  then have "dropWhile isWhiteSpace (dropWhile isWhiteSpace t @ [10]) = dropWhile isWhiteSpace t @ [10]"
    using False by (cases "dropWhile isWhiteSpace t") simp_all
  then show ?thesis by (simp add: trim_def)
qed

lemma cleanedJsonString_fenced: "cleanedJsonString (fenced t) = trim t"
proof (cases "list_all isWhiteSpace t")
  case True
  then have "dropWhile isWhiteSpace (t @ [10] @ backticks) = backticks"
    by (simp add: dropWhile_append list_all_iff backticks_def)
  then show ?thesis
    using True stripClosingFence_append_backticks [of "[]"]
    by (simp add: cleanedJsonString_def stripOpeningFence_fenced trim_all_ws) (simp add: trim_def)?
next
  case False
  then have "dropWhile isWhiteSpace (t @ [10] @ backticks) = (dropWhile isWhiteSpace t @ [10]) @ backticks"
    by (auto simp: dropWhile_append list_all_iff)
  then show ?thesis
    by (simp add: cleanedJsonString_def stripOpeningFence_fenced stripClosingFence_append_backticks
          trim_dropWhile_newline del: append_assoc)
qed

lemma stripClosingFence_cases:
  "stripClosingFence t = t \<or> (\<exists>a b. t = a @ backticks @ b \<and> list_all isWhiteSpace b)"
proof (induction t)
  case Nil
  show ?case by simp
next
  case (Cons c cs)
  show ?case
  proof (cases "startsWith (c # cs) backticks \<and> list_all isWhiteSpace (drop 3 (c # cs))")
    case True
    then have "c # cs = [] @ backticks @ drop 3 (c # cs)"
      by (metis append_Nil append_take_drop_id length_backticks startsWith_iff)
    with True show ?thesis by blast
  next
    case False
    then have "stripClosingFence (c # cs) = c # stripClosingFence cs" by simp
    with Cons show ?thesis
      by (metis append_Cons)
  qed
qed

lemma trim_ends_with_backticks:
  assumes "t = a @ backticks @ b" and "list_all isWhiteSpace b"
  shows "startsWith (rev (trim t)) backticks"
proof -
  have nb: "dropWhile isWhiteSpace (backticks @ ys) = backticks @ ys" for ys
    by (simp add: backticks_def)
  obtain a' where a': "dropWhile isWhiteSpace t = a' @ backticks @ b"
  proof (cases "\<forall>x\<in>set a. isWhiteSpace x")
    case True
    then have "dropWhile isWhiteSpace t = [] @ backticks @ b"
      using assms(1) nb by simp
    then show ?thesis using that by blast
  next
    case False
    then have "dropWhile isWhiteSpace t = dropWhile isWhiteSpace a @ backticks @ b"
      using assms(1) by (auto simp: dropWhile_append)
    then show ?thesis using that by blast
  qed
  have "rev (dropWhile isWhiteSpace t) = rev b @ (backticks @ rev a')"
    by (simp add: a' backticks_def)
  moreover have "dropWhile isWhiteSpace (rev b @ (backticks @ rev a')) = backticks @ rev a'"
  proof -
    have "dropWhile isWhiteSpace (rev b @ (backticks @ rev a')) =
          dropWhile isWhiteSpace (backticks @ rev a')"
      using assms(2) by (intro dropWhile_append2) (simp add: list_all_iff)
    then show ?thesis by (simp only: nb)
  qed
  ultimately have "rev (trim t) = backticks @ rev a'"
    by (simp add: trim_def)
  then show ?thesis by (simp add: startsWith_iff)
qed

lemma cleanedJsonString_unfenced:
  assumes "\<not> startsWith t (backticks @ asc ''json'')" and "\<not> startsWith (rev (trim t)) backticks"
  shows "cleanedJsonString t = trim t"
  using assms stripClosingFence_cases [of t] trim_ends_with_backticks
  by (auto simp: cleanedJsonString_def stripOpeningFence_def)

lemma trim_fenced_nonempty: "fenced t \<noteq> [] \<and> trim (fenced t) \<noteq> []"
  by (simp add: trim_def fenced_def backticks_def)

text \<open>
  C6, amended. For every text \<open>t\<close> the fenced text is cleaned to \<open>trim t\<close>, so it is
  decoded as \<^verbatim>\<open>JSON.parse(t.trim())\<close>. When \<open>t\<close> is not blank and has no fence of its
  own (it does not start with the opening fence and, trimmed, does not end with three
  backticks), the attempt on the fenced text and the attempt on \<open>t\<close> have the same
  outcome, for every decoder.
\<close>

theorem fenced_decodes_as_trimmed:
  "cleanedJsonString (fenced t) = trim t \<and>
   (trim t \<noteq> [] \<and> \<not> startsWith t (backticks @ asc ''json'') \<and>
    \<not> startsWith (rev (trim t)) backticks \<longrightarrow>
    tryBody x (jsonConfig s) (Response (Some (fenced t))) =
    tryBody x (jsonConfig s) (Response (Some t)))"
proof -
  have "t \<noteq> []" if "trim t \<noteq> []"
    using that by (auto simp: trim_def)
  then show ?thesis
    using trim_fenced_nonempty [of t]
    by (auto simp: tryBody_def jsonConfig_def cleanedJsonString_fenced cleanedJsonString_unfenced)
qed

theorem fenced_decodes_as_trimmed_witness:
  "cleanedJsonString (fenced (asc ''[1]'')) = asc ''[1]'' \<and>
   tryBody (answering [] (acceptsOnly (asc ''[1]'') (JArray [JNumber 1]))) (jsonConfig keywordsSchema)
     (Response (Some (fenced (asc ''[1]'')))) = Inr (JArray [JNumber 1]) \<and>
   tryBody (answering [] (acceptsOnly (asc ''[1]'') (JArray [JNumber 1]))) (jsonConfig keywordsSchema)
     (Response (Some (asc ''[1]''))) = Inr (JArray [JNumber 1])"
proof -
  have t: "trim (asc ''[1]'') = asc ''[1]''"
    by (simp add: trim_def asc_def isWhiteSpace_def)
  have d: "tryBody (answering [] (acceptsOnly (asc ''[1]'') (JArray [JNumber 1])))
             (jsonConfig keywordsSchema) (Response (Some (asc ''[1]''))) = Inr (JArray [JNumber 1])"
    by (simp add: tryBody_def jsonConfig_def answering_def acceptsOnly_def cleanedJsonString_def
          stripOpeningFence_def trim_def asc_def isWhiteSpace_def backticks_def)
  have h: "trim (asc ''[1]'') \<noteq> [] \<and> \<not> startsWith (asc ''[1]'') (backticks @ asc ''json'') \<and>
           \<not> startsWith (rev (trim (asc ''[1]''))) backticks"
    unfolding t by (simp add: asc_def backticks_def)
  show ?thesis
    using fenced_decodes_as_trimmed [of "asc ''[1]''"
        "answering [] (acceptsOnly (asc ''[1]'') (JArray [JNumber 1]))" keywordsSchema] h t d
    by simp
qed

text \<open>
  C6, as the claim states it, fails when \<open>t\<close> is itself a fenced text: the wrapper
  strips one opening and one closing fence, so \<open>t\<close> decodes to the array while the
  doubly fenced text is handed to the decoder with a fence left and is rejected. The
  decoder here accepts \<^verbatim>\<open>[1]\<close> and rejects every other text, as \<^verbatim>\<open>JSON.parse\<close> does
  on the two texts it is given.
\<close>

theorem fenced_decoding_counterexample:
  "tryBody (answering [] (acceptsOnly (asc ''[1]'') (JArray [JNumber 1]))) (jsonConfig keywordsSchema)
     (Response (Some (fenced (fenced (asc ''[1]''))))) = Inl (Error msgMalformedJson) \<and>
   tryBody (answering [] (acceptsOnly (asc ''[1]'') (JArray [JNumber 1]))) (jsonConfig keywordsSchema)
     (Response (Some (fenced (asc ''[1]'')))) = Inr (JArray [JNumber 1])"
proof -
  have t: "trim (asc ''[1]'') = asc ''[1]''"
    by (simp add: trim_def asc_def isWhiteSpace_def)
  have t2: "trim (fenced (asc ''[1]'')) = fenced (asc ''[1]'')"
    by (simp add: trim_def fenced_def asc_def isWhiteSpace_def backticks_def)
  have n: "fenced (asc ''[1]'') \<noteq> asc ''[1]''" "fenced (asc ''[1]'') \<noteq> []" "asc ''[1]'' \<noteq> []"
    by (simp_all add: fenced_def asc_def backticks_def)
  show ?thesis
    using trim_fenced_nonempty [of "asc ''[1]''"] trim_fenced_nonempty [of "fenced (asc ''[1]'')"] n
    by (simp add: tryBody_def jsonConfig_def answering_def acceptsOnly_def cleanedJsonString_fenced t t2)
qed

section \<open>Quiz validation\<close>

lemma isString_iff: "isString v \<longleftrightarrow> (\<exists>s. v = Some (JString s))"
  by (cases v rule: isString.cases) auto

lemma isNumber_iff: "isNumber v \<longleftrightarrow> (\<exists>r. v = Some (JNumber r))"
  by (cases v rule: isNumber.cases) auto

lemma quizItemOk_null: "quizItemOk q = None \<longleftrightarrow> q = JNull"
  by (cases q)
     (auto simp: quizItemOk_def isString_iff split: option.splits json.splits if_splits)

lemma quizItemOk_value:
  "q \<noteq> JNull \<Longrightarrow>
   quizItemOk q = Some (hasStringQuestion q \<and> hasFourOptions q \<and> hasNumberAnswer q)"
  by (cases q)
     (auto simp: quizItemOk_def hasStringQuestion_def hasFourOptions_def hasNumberAnswer_def
           isString_iff isNumber_iff split: option.splits json.splits)

lemma quizEvery_no_null:
  "JNull \<notin> set qs \<Longrightarrow>
   quizEvery qs =
     Some (list_all (\<lambda>q. hasStringQuestion q \<and> hasFourOptions q \<and> hasNumberAnswer q) qs)"
  by (induction qs) (auto simp: quizItemOk_value)

lemma quizEvery_True:
  "quizEvery qs = Some True \<Longrightarrow>
   list_all (\<lambda>q. hasStringQuestion q \<and> hasFourOptions q \<and> hasNumberAnswer q) qs"
proof (induction qs)
  case Nil
  show ?case by simp
next
  case (Cons q qs)
  from Cons.prems have "q \<noteq> JNull"
    by (auto simp: quizItemOk_def)
  with Cons show ?case
    by (auto simp: quizItemOk_value split: if_splits)
qed

lemma createQuiz_decoded:
  assumes "content \<noteq> []"
    and "callGeminiWithRetry f x
           (tpl_quiz_0 @ Number_toString x questionCount @ tpl_quiz_1 @
            substring0 content 100000 @ tpl_quiz_2)
           (jsonConfig quizSchema) w = (Inr (JArray qs), w1)"
  shows "createQuiz f x content questionCount w =
        (case quizEvery qs of
           None \<Rightarrow> (Inl (Error (null_property_message x)), w1)
         | Some ok \<Rightarrow> (if ok then (Inr qs, w1) else (Inl (Error msgQuizFormat), w1)))"
  using assms by (simp add: createQuiz_def)

text \<open>
  C7, amended. With a decoded array that has no \<^verbatim>\<open>null\<close> item, \<^verbatim>\<open>createQuiz\<close> raises
  the format error whenever some item has no \<^verbatim>\<open>options\<close> array of length 4 or an answer
  index that is not a number; and whenever it returns, it returns the decoded array,
  and every item has a string \<^verbatim>\<open>question\<close>, an \<^verbatim>\<open>options\<close> array of length 4 and a
  numeric answer index.
\<close>

theorem createQuiz_validation:
  assumes "content \<noteq> []"
    and "callGeminiWithRetry f x
           (tpl_quiz_0 @ Number_toString x questionCount @ tpl_quiz_1 @
            substring0 content 100000 @ tpl_quiz_2)
           (jsonConfig quizSchema) w = (Inr (JArray qs), w1)"
  shows "(JNull \<notin> set qs \<and> (\<exists>q\<in>set qs. \<not> hasFourOptions q \<or> \<not> hasNumberAnswer q) \<longrightarrow>
            createQuiz f x content questionCount w = (Inl (Error msgQuizFormat), w1)) \<and>
         (\<forall>r w2. createQuiz f x content questionCount w = (Inr r, w2) \<longrightarrow>
            r = qs \<and> w2 = w1 \<and>
            list_all (\<lambda>q. hasStringQuestion q \<and> hasFourOptions q \<and> hasNumberAnswer q) qs)"
proof -
  note c = createQuiz_decoded [OF assms]
  have "createQuiz f x content questionCount w = (Inl (Error msgQuizFormat), w1)"
    if "JNull \<notin> set qs" and "\<exists>q\<in>set qs. \<not> hasFourOptions q \<or> \<not> hasNumberAnswer q"
    using that by (auto simp: c quizEvery_no_null list_all_iff)
  moreover have "r = qs \<and> w2 = w1 \<and>
      list_all (\<lambda>q. hasStringQuestion q \<and> hasFourOptions q \<and> hasNumberAnswer q) qs"
    if "createQuiz f x content questionCount w = (Inr r, w2)" for r w2
    using that quizEvery_True [of qs] by (auto simp: c split: option.splits if_splits)
  ultimately show ?thesis by blast
qed

lemma quizParse_call:
  "callGeminiWithRetry f (quizParse qs) prompt (jsonConfig s) (freshWorld (Some (asc ''k''))) =
     (Inr (JArray qs),
      \<lparr>ai = Some (GoogleGenAI (asc ''k'')), gemini_api_key = Some (asc ''k''),
       events = handleEvents f (asc ''k'') @
         [GenerateContent (GoogleGenAI (asc ''k''))
            \<lparr>model = theModel, contents = prompt, config = Some (jsonConfig s)\<rparr>]\<rparr>)"
  by (rule callGeminiWithRetry_first_answer)
     (simp_all add: quizParse_def answering_def tryBody_def jsonConfig_def asc_def trim_def
        isWhiteSpace_def cleanedJsonString_def stripOpeningFence_def backticks_def)

lemma quizEvery_examples:
  "quizEvery [quizItem (3 / 2)] = Some True"
  "quizEvery [quizItem 1] = Some True"
  "quizEvery [quizItem 1, quizItemNoOptions] = Some False"
  by (simp_all add: quizItemOk_def quizItem_def quizItemNoOptions_def asc_def)

text \<open>
  C7, as the claim states it, fails: the test is \<^verbatim>\<open>typeof ... === 'number'\<close>, so an
  item whose answer index is 1.5 passes and the array is returned.
\<close>

theorem createQuiz_validation_counterexample:
  "fst (createQuiz Services (quizParse [quizItem (3 / 2)]) (asc ''text'') 1
          (freshWorld (Some (asc ''k'')))) = Inr [quizItem (3 / 2)] \<and>
   \<not> hasIntegerAnswer (quizItem (3 / 2))"
proof -
  have "fst (createQuiz Services (quizParse [quizItem (3 / 2)]) (asc ''text'') 1
          (freshWorld (Some (asc ''k'')))) = Inr [quizItem (3 / 2)]"
    unfolding createQuiz_decoded [OF text_nonempty quizParse_call] quizEvery_examples by simp
  moreover have "\<lfloor>3 / 2 :: rat\<rfloor> = 1"
    by (simp add: floor_eq_iff)
  then have "\<not> hasIntegerAnswer (quizItem (3 / 2))"
    by (simp add: hasIntegerAnswer_def quizItem_def asc_def)
  ultimately show ?thesis by simp
qed

theorem createQuiz_validation_witness:
  "fst (createQuiz Part000 (quizParse [quizItem 1, quizItemNoOptions]) (asc ''text'') 2
          (freshWorld (Some (asc ''k'')))) = Inl (Error msgQuizFormat) \<and>
   fst (createQuiz Part000 (quizParse [quizItem 1]) (asc ''text'') 1
          (freshWorld (Some (asc ''k'')))) = Inr [quizItem 1] \<and>
   list_all (\<lambda>q. hasStringQuestion q \<and> hasFourOptions q \<and> hasNumberAnswer q) [quizItem 1]"
proof -
  have h: "JNull \<notin> set [quizItem 1, quizItemNoOptions] \<and>
        (\<exists>q\<in>set [quizItem 1, quizItemNoOptions]. \<not> hasFourOptions q \<or> \<not> hasNumberAnswer q)"
    by (simp add: quizItem_def quizItemNoOptions_def hasFourOptions_def asc_def)
  have a: "fst (createQuiz Part000 (quizParse [quizItem 1, quizItemNoOptions]) (asc ''text'') 2
          (freshWorld (Some (asc ''k'')))) = Inl (Error msgQuizFormat)"
    by (simp only: fst_conv
          createQuiz_validation [OF text_nonempty quizParse_call, THEN conjunct1, THEN mp, OF h])
  have r: "createQuiz Part000 (quizParse [quizItem 1]) (asc ''text'') 1
          (freshWorld (Some (asc ''k''))) =
        (Inr [quizItem 1],
         \<lparr>ai = Some (GoogleGenAI (asc ''k'')), gemini_api_key = Some (asc ''k''),
          events = handleEvents Part000 (asc ''k'') @
            [GenerateContent (GoogleGenAI (asc ''k''))
               \<lparr>model = theModel,
                contents = tpl_quiz_0 @ Number_toString (quizParse [quizItem 1]) 1 @ tpl_quiz_1 @
                  substring0 (asc ''text'') 100000 @ tpl_quiz_2,
                config = Some (jsonConfig quizSchema)\<rparr>]\<rparr>)"
    unfolding createQuiz_decoded [OF text_nonempty quizParse_call] quizEvery_examples by simp
  have "list_all (\<lambda>q. hasStringQuestion q \<and> hasFourOptions q \<and> hasNumberAnswer q) [quizItem 1]"
    using createQuiz_validation [OF text_nonempty quizParse_call, THEN conjunct2, rule_format,
        OF r]
    by (simp only: simp_thms)
  with a r show ?thesis by (simp only: fst_conv simp_thms)
qed

section \<open>Rating marks\<close>

lemma repeat_single: "repeat [c] n = replicate n c"
  by (induction n) (simp_all add: repeat_def)

lemma stars_marks:
  "stars x rating =
     replicate (nat \<lfloor>rating\<rfloor>) 9733 @ replicate (nat \<lfloor>double_minus x 5 rating\<rfloor>) 9734"
  by (simp add: stars_def repeat_single)

lemma exactlyRepresentableI:
  assumes "j < 53" and "of_int \<lfloor>q * 2 ^ (52 - j)\<rfloor> = q * 2 ^ (52 - j)" and "\<bar>q\<bar> < 2 ^ (j + 1)"
  shows "exactlyRepresentable q"
  unfolding exactlyRepresentable_def list_ex_iff
  using assms by (intro bexI [of _ j]) simp_all

lemma exactlyRepresentable_small_int:
  assumes "0 \<le> n" and "n < 8"
  shows "exactlyRepresentable (of_int n)"
proof (rule exactlyRepresentableI [of 2])
  show "(2::nat) < 53" by simp
  have "(of_int n :: rat) * 2 ^ (52 - 2) = of_int (n * 2 ^ 50)" by simp
  then show "of_int \<lfloor>(of_int n :: rat) * 2 ^ (52 - 2)\<rfloor> = (of_int n :: rat) * 2 ^ (52 - 2)"
    by (simp only: floor_of_int)
  show "\<bar>of_int n :: rat\<bar> < 2 ^ (2 + 1)" using assms by simp
qed

lemma double_minus_exact:
  "exactlyRepresentable (a - b) \<Longrightarrow> double_minus x a b = a - b"
  by (simp add: double_minus_def)

lemma not_exactlyRepresentable_example: "\<not> exactlyRepresentable (5 - (1 + 1 / 2 ^ 52))"
  unfolding exactlyRepresentable_def by code_simp

lemma stars_rounds_like_the_engine:
  "stars ((throwing NonError)\<lparr>rounded_difference := (\<lambda>a b. 4)\<rparr>) (1 + 1 / 2 ^ 52) =
     [9733, 9734, 9734, 9734, 9734]"
proof -
  define q :: rat where "q = 1 + 1 / 2 ^ 52"
  have f: "\<lfloor>q\<rfloor> = 1" unfolding q_def by (simp add: floor_eq_iff)
  have n: "\<not> exactlyRepresentable (5 - q)"
    unfolding q_def by (rule not_exactlyRepresentable_example)
  have r: "replicate 4 c = [c, c, c, c]" for c :: nat by (simp add: numeral_eq_Suc)
  have "stars ((throwing NonError)\<lparr>rounded_difference := (\<lambda>a b. 4)\<rparr>) q =
     [9733, 9734, 9734, 9734, 9734]"
    by (simp add: stars_def repeat_def double_minus_def f n r)
  then show ?thesis unfolding q_def .
qed

lemma rateContent_decoded:
  assumes "content \<noteq> []"
    and "callGeminiWithRetry f x
           (tpl_rating_0 @ substring0 content 100000 @ tpl_rating_1)
           (jsonConfig ratingSchema) w = (Inr result, w1)"
    and "truthy result"
    and "getProperty result (asc ''rating'') = Some (Some (JNumber r))"
    and "getProperty result (asc ''review'') = Some (Some (JString review))"
  shows "rateContent f x content w = (Inr (ratingText x r review), w1)"
  using assms by (simp add: rateContent_def rateTry_def)

text \<open>
  C8, amended. A decoded numeric rating \<open>r\<close> is clamped to \<open>max 1 (min 5 r)\<close> before it
  is embedded, and the text shows the filled marks, then the empty marks, then the
  clamped number. The number of filled marks is the clamped rating rounded down. The
  number of empty marks is the double \<^verbatim>\<open>5 - rating\<close> rounded down, which is 5 minus the
  clamped rating, rounded down, whenever that difference is a double. When \<open>r\<close> is an
  integer the marks are the clamped rating filled and 5 minus it empty, five in all; a
  rating of 5 or more, such as 7, gives five filled marks and no empty one.
\<close>

theorem rateContent_marks:
  assumes "content \<noteq> []"
    and "callGeminiWithRetry f x
           (tpl_rating_0 @ substring0 content 100000 @ tpl_rating_1)
           (jsonConfig ratingSchema) w = (Inr result, w1)"
    and "truthy result"
    and "getProperty result (asc ''rating'') = Some (Some (JNumber r))"
    and "getProperty result (asc ''review'') = Some (Some (JString review))"
  shows "rateContent f x content w =
           (Inr (tpl_ratingOutput_0 @
                 replicate (nat \<lfloor>max 1 (min 5 r)\<rfloor>) 9733 @
                 replicate (nat \<lfloor>double_minus x 5 (max 1 (min 5 r))\<rfloor>) 9734 @
                 tpl_ratingOutput_1 @ Number_toString x (max 1 (min 5 r)) @
                 tpl_ratingOutput_2 @ review), w1) \<and>
         (exactlyRepresentable (5 - max 1 (min 5 r)) \<longrightarrow>
            nat \<lfloor>double_minus x 5 (max 1 (min 5 r))\<rfloor> = nat \<lfloor>5 - max 1 (min 5 r)\<rfloor>) \<and>
         (of_int \<lfloor>r\<rfloor> = r \<longrightarrow>
            of_nat (nat \<lfloor>max 1 (min 5 r)\<rfloor>) = max 1 (min 5 r) \<and>
            of_nat (nat \<lfloor>double_minus x 5 (max 1 (min 5 r))\<rfloor>) = 5 - max 1 (min 5 r) \<and>
            nat \<lfloor>max 1 (min 5 r)\<rfloor> + nat \<lfloor>double_minus x 5 (max 1 (min 5 r))\<rfloor> = 5) \<and>
         (5 \<le> r \<longrightarrow>
            nat \<lfloor>max 1 (min 5 r)\<rfloor> = 5 \<and> nat \<lfloor>double_minus x 5 (max 1 (min 5 r))\<rfloor> = 0)"
proof -
  have a: "rateContent f x content w =
           (Inr (tpl_ratingOutput_0 @
                 replicate (nat \<lfloor>max 1 (min 5 r)\<rfloor>) 9733 @
                 replicate (nat \<lfloor>double_minus x 5 (max 1 (min 5 r))\<rfloor>) 9734 @
                 tpl_ratingOutput_1 @ Number_toString x (max 1 (min 5 r)) @
                 tpl_ratingOutput_2 @ review), w1)"
    using rateContent_decoded [OF assms]
    by (simp add: ratingText_def stars_marks clampRating_def tpl_ratingOutput_3_def)
  have e: "nat \<lfloor>double_minus x 5 (max 1 (min 5 r))\<rfloor> = nat \<lfloor>5 - max 1 (min 5 r)\<rfloor>"
    if "exactlyRepresentable (5 - max 1 (min 5 r))"
    using that by (simp add: double_minus_exact)
  have b: "of_nat (nat \<lfloor>max 1 (min 5 r)\<rfloor>) = max 1 (min 5 r) \<and>
           of_nat (nat \<lfloor>double_minus x 5 (max 1 (min 5 r))\<rfloor>) = 5 - max 1 (min 5 r) \<and>
           nat \<lfloor>max 1 (min 5 r)\<rfloor> + nat \<lfloor>double_minus x 5 (max 1 (min 5 r))\<rfloor> = 5"
    if "of_int \<lfloor>r\<rfloor> = r"
  proof -
    define n where "n = \<lfloor>r\<rfloor>"
    define k where "k = max 1 (min 5 n)"
    have n: "r = of_int n" unfolding n_def using that by (rule sym)
    have k: "1 \<le> k" "k \<le> 5" by (simp_all add: k_def)
    have m: "max 1 (min 5 r) = of_int k"
      by (simp add: n k_def max_def min_def)
    have d: "5 - (of_int k :: rat) = of_int (5 - k)" by simp
    have "exactlyRepresentable (5 - (of_int k :: rat))"
      unfolding d using k by (intro exactlyRepresentable_small_int) simp_all
    then have s: "double_minus x 5 (of_int k) = of_int (5 - k)"
      using d by (simp only: double_minus_exact)
    show ?thesis
      unfolding m s floor_of_int using k by simp
  qed
  have c: "nat \<lfloor>max 1 (min 5 r)\<rfloor> = 5 \<and> nat \<lfloor>double_minus x 5 (max 1 (min 5 r))\<rfloor> = 0"
    if "5 \<le> r"
  proof -
    have m: "max 1 (min 5 r) = 5" using that by (simp add: max_def min_def)
    have "exactlyRepresentable (of_int 0 :: rat)"
      by (intro exactlyRepresentable_small_int) simp_all
    then have "double_minus x 5 5 = 0"
      using double_minus_exact [of 5 5 x] by simp
    then show ?thesis unfolding m by simp
  qed
  show ?thesis using a e b c by blast
qed

lemma ratingParse_call:
  "callGeminiWithRetry f (ratingParse r) prompt (jsonConfig s) (freshWorld (Some (asc ''k''))) =
     (Inr (JObject [(asc ''rating'', JNumber r), (asc ''review'', JString (asc ''fine''))]),
      \<lparr>ai = Some (GoogleGenAI (asc ''k'')), gemini_api_key = Some (asc ''k''),
       events = handleEvents f (asc ''k'') @
         [GenerateContent (GoogleGenAI (asc ''k''))
            \<lparr>model = theModel, contents = prompt, config = Some (jsonConfig s)\<rparr>]\<rparr>)"
  by (rule callGeminiWithRetry_first_answer)
     (simp_all add: ratingParse_def answering_def tryBody_def jsonConfig_def asc_def trim_def
        isWhiteSpace_def cleanedJsonString_def stripOpeningFence_def backticks_def)

lemma ratingParse_props:
  "truthy (JObject [(asc ''rating'', JNumber r), (asc ''review'', JString (asc ''fine''))])"
  "getProperty (JObject [(asc ''rating'', JNumber r), (asc ''review'', JString (asc ''fine''))])
     (asc ''rating'') = Some (Some (JNumber r))"
  "getProperty (JObject [(asc ''rating'', JNumber r), (asc ''review'', JString (asc ''fine''))])
     (asc ''review'') = Some (Some (JString (asc ''fine'')))"
  by (simp_all add: asc_def)

lemma replicate_small:
  "replicate 5 c = [c, c, c, c, c]" "replicate 2 c = [c, c]" "replicate 0 c = []"
  by (simp_all add: numeral_eq_Suc)

lemma decimal_digit: "n < 10 \<Longrightarrow> decimal n = [48 + n]"
  by (subst decimal.simps) simp

theorem rateContent_marks_witness:
  "fst (rateContent Services (ratingParse 7) (asc ''text'') (freshWorld (Some (asc ''k'')))) =
     Inr (tpl_ratingOutput_0 @ [9733, 9733, 9733, 9733, 9733] @ tpl_ratingOutput_1 @ asc ''5'' @
          tpl_ratingOutput_2 @ asc ''fine'')"
proof -
  have n: "Number_toString (ratingParse 7) 5 = asc ''5''"
    by (simp add: Number_toString_def decimal_digit asc_def)
  have "(5::rat) \<le> 7" by simp
  moreover have "max 1 (min 5 (7::rat)) = 5" by simp
  ultimately show ?thesis
    using rateContent_marks [OF text_nonempty ratingParse_call ratingParse_props, of Services 7]
    by (simp add: n replicate_small)
qed

text \<open>
  C8, as the claim states it, fails for a rating that is not an integer, which the
  test \<^verbatim>\<open>typeof result.rating === 'number'\<close> lets through: 2.5 stays 2.5 under the
  clamp, there is no such number of marks, \<^verbatim>\<open>5 - 2.5\<close> is 2.5 exactly, \<^verbatim>\<open>repeat\<close>
  truncates both counts, and the text shows two filled and two empty marks.
\<close>

theorem rateContent_marks_counterexample:
  "clampRating (5 / 2) = 5 / 2 \<and>
   fst (rateContent Services (ratingParse (5 / 2)) (asc ''text'') (freshWorld (Some (asc ''k'')))) =
     Inr (tpl_ratingOutput_0 @ [9733, 9733, 9734, 9734] @ tpl_ratingOutput_1 @ asc ''2.5'' @
          tpl_ratingOutput_2 @ asc ''fine'')"
proof -
  have f: "\<lfloor>5 / 2 :: rat\<rfloor> = 2" by (simp add: floor_eq_iff)
  have c: "clampRating (5 / 2) = 5 / 2" by (simp add: clampRating_def)
  have "(5 / 2 :: rat) * 2 ^ (52 - 1) = of_int (5 * 2 ^ 50)" by simp
  then have "of_int \<lfloor>(5 / 2 :: rat) * 2 ^ (52 - 1)\<rfloor> = (5 / 2 :: rat) * 2 ^ (52 - 1)"
    by (simp only: floor_of_int)
  then have "exactlyRepresentable (5 / 2)"
    by (intro exactlyRepresentableI [of 1]) simp_all
  then have d: "double_minus (ratingParse (5 / 2)) 5 (5 / 2) = 5 / 2"
    using double_minus_exact [of 5 "5 / 2"] by simp
  have n: "Number_toString (ratingParse (5 / 2)) (5 / 2) = asc ''2.5''"
    by (simp add: Number_toString_def f ratingParse_def answering_def)
  show ?thesis
    unfolding rateContent_decoded [OF text_nonempty ratingParse_call ratingParse_props]
    by (simp add: ratingText_def stars_marks c d f n tpl_ratingOutput_3_def replicate_small)
qed

section \<open>The part of the input that reaches the prompt\<close>

lemma take_eq_Nil_iff:
  assumes "take n c1 = take n c2" and "0 < n"
  shows "c1 = [] \<longleftrightarrow> c2 = []"
  using assms by (metis take_eq_Nil less_numeral_extra(3))

lemma take_shorter:
  assumes "take n c1 = take n c2" and "m \<le> n"
  shows "take m c1 = take m c2"
  using assms by (metis min.absorb1 take_take)

lemma nextEffect_iff: "nextEffect w1 e w2 \<longleftrightarrow> (\<exists>rest. events w2 = events w1 @ e # rest)"
proof
  assume a: "nextEffect w1 e w2"
  from a have t: "take (Suc (length (events w1))) (events w2) = events w1 @ [e]"
    by (simp only: nextEffect_def)
  have "events w2 = (events w1 @ [e]) @ drop (Suc (length (events w1))) (events w2)"
    by (subst t [symmetric]) (simp only: append_take_drop_id)
  then have "events w2 = events w1 @ e # drop (Suc (length (events w1))) (events w2)"
    by simp
  then show "\<exists>rest. events w2 = events w1 @ e # rest" ..
next
  assume "\<exists>rest. events w2 = events w1 @ e # rest"
  then show "nextEffect w1 e w2" by (auto simp: nextEffect_def)
qed

lemma nextEffect_emit: "nextEffect w e (emit e w)"
  by (simp add: nextEffect_def emit_def)

lemma nextEffect_later:
  assumes "nextEffect w1 e w2" and "events w3 = events w2 @ rest"
  shows "nextEffect w1 e w3"
  using assms by (auto simp: nextEffect_iff)

lemma retryLoop_extends:
  "\<exists>rest. events (snd (retryLoop f x h prompt cfg attempts w)) = events w @ rest"
proof (induction f x h prompt cfg attempts w rule: retryLoop.induct)
  case (1 f x h prompt cfg attempts w)
  show ?case
    by (subst retryLoop.simps) (use 1 in \<open>auto simp: emit_def split: sum.splits\<close>)
qed

lemma retryLoop_next:
  assumes "0 < attempts"
  shows "nextEffect w (GenerateContent h \<lparr>model = theModel, contents = prompt, config = Some cfg\<rparr>)
           (snd (retryLoop f x h prompt cfg attempts w))"
proof -
  let ?g = "GenerateContent h \<lparr>model = theModel, contents = prompt, config = Some cfg\<rparr>"
  obtain rest where
    "events (snd (retryLoop f x h prompt cfg (attempts - 1) (emit (SetTimeout 1000) (emit ?g w)))) =
     events (emit (SetTimeout 1000) (emit ?g w)) @ rest"
    using retryLoop_extends by blast
  then have "nextEffect w ?g
      (snd (retryLoop f x h prompt cfg (attempts - 1) (emit (SetTimeout 1000) (emit ?g w))))"
    by (simp add: nextEffect_iff emit_def)
  then show ?thesis
    using assms
    by (subst retryLoop.simps) (simp add: nextEffect_emit split: sum.splits)
qed

lemma callGeminiWithRetry_next:
  assumes "getAiInstance f x w = (Inr h, w1)"
  shows "nextEffect w1 (GenerateContent h \<lparr>model = theModel, contents = prompt, config = Some cfg\<rparr>)
           (snd (callGeminiWithRetry f x prompt cfg w))"
  using assms by (simp add: callGeminiWithRetry_def retryLoop_next)

lemma callGeminiWithRetry_extends:
  assumes "ai w = Some h"
  shows "\<exists>rest. events (snd (callGeminiWithRetry f x prompt cfg w)) = events w @ rest"
  using assms by (simp add: callGeminiWithRetry_def getAiInstance_cached retryLoop_extends)

text \<open>On a non-empty input each operation leaves the world its invocation leaves.\<close>

lemma operation_worlds:
  assumes "content \<noteq> []"
  shows "snd (generateContentSuggestions f x content w) =
           snd (callGeminiWithRetry f x
                  (tpl_suggestions_0 @ substring0 content 8000 @ tpl_suggestions_1)
                  (jsonConfig suggestionsSchema) w)"
    and "snd (createQuiz f x content questionCount w) =
           snd (callGeminiWithRetry f x
                  (tpl_quiz_0 @ Number_toString x questionCount @ tpl_quiz_1 @
                   substring0 content 100000 @ tpl_quiz_2)
                  (jsonConfig quizSchema) w)"
    and "snd (analyzeSentiment f x content w) =
           snd (callGeminiWithRetry f x
                  (tpl_sentiment_0 @ substring0 content 100000 @ tpl_sentiment_1)
                  (jsonConfig sentimentSchema) w)"
    and "snd (extractKeywords f x content w) =
           snd (callGeminiWithRetry f x
                  (tpl_keywords_0 @ substring0 content 100000 @ tpl_keywords_1)
                  (jsonConfig keywordsSchema) w)"
    and "snd (rateContent f x content w) =
           snd (callGeminiWithRetry f x
                  (tpl_rating_0 @ substring0 content 100000 @ tpl_rating_1)
                  (jsonConfig ratingSchema) w)"
    and "snd (analyzeTextContent f x content w) =
           snd (categorizeContent f x content
                  (snd (callGeminiWithRetry f x
                          (tpl_analysis_0 @ substring0 content 100000 @ tpl_analysis_1)
                          noConfig w)))"
  using assms
  by (auto simp: generateContentSuggestions_def createQuiz_def analyzeSentiment_def
        extractKeywords_def rateContent_def rateTry_def analyzeTextContent_def
      split: prod.splits sum.splits json.splits option.splits if_splits)

lemma summarizeContent_next:
  assumes "content \<noteq> []" and "getAiInstance f x w = (Inr h, w1)"
  shows "nextEffect w1
           (GenerateContentStream h
              \<lparr>model = theModel,
               contents = tpl_summary_0 @ substring0 content 100000 @ tpl_summary_1,
               config = None\<rparr>)
           (snd (summarizeContent f x content w))"
  using assms by (simp add: summarizeContent_def nextEffect_emit split: stream.splits)

lemma analyzeTextContent_next:
  assumes c: "content \<noteq> []" and g: "getAiInstance f x w = (Inr h, w1)"
  shows "nextEffect w1
           (GenerateContent h
              \<lparr>model = theModel,
               contents = tpl_analysis_0 @ substring0 content 100000 @ tpl_analysis_1,
               config = Some noConfig\<rparr>)
           (snd (analyzeTextContent f x content w))"
    and "GenerateContent h
           \<lparr>model = theModel,
            contents = tpl_categories_0 @ substring0 content 8000 @ tpl_categories_1,
            config = Some (jsonConfig categoriesSchema)\<rparr>
         \<in> set (effectsSince w1 (snd (analyzeTextContent f x content w)))"
proof -
  let ?a = "GenerateContent h
              \<lparr>model = theModel,
               contents = tpl_analysis_0 @ substring0 content 100000 @ tpl_analysis_1,
               config = Some noConfig\<rparr>"
  let ?c = "GenerateContent h
              \<lparr>model = theModel,
               contents = tpl_categories_0 @ substring0 content 8000 @ tpl_categories_1,
               config = Some (jsonConfig categoriesSchema)\<rparr>"
  define wA where "wA = snd (callGeminiWithRetry f x
     (tpl_analysis_0 @ substring0 content 100000 @ tpl_analysis_1) noConfig w)"
  define wC where "wC = snd (categorizeContent f x content wA)"
  have w: "snd (analyzeTextContent f x content w) = wC"
    unfolding wC_def wA_def by (rule operation_worlds(6) [OF c])
  have "nextEffect w1 ?a wA"
    unfolding wA_def by (rule callGeminiWithRetry_next [OF g])
  then obtain r1 where r1: "events wA = events w1 @ ?a # r1"
    by (auto simp: nextEffect_iff)
  have "ai wA = Some h"
    unfolding wA_def callGeminiWithRetry_def g using getAiInstance_sets_ai [OF g]
    by (simp add: retryLoop_ai)
  then have "getAiInstance f x wA = (Inr h, wA)" by (rule getAiInstance_cached)
  then have "nextEffect wA ?c wC"
    unfolding wC_def categorizeContent_world using c by (simp add: callGeminiWithRetry_next)
  then obtain r2 where r2: "events wC = events wA @ ?c # r2"
    by (auto simp: nextEffect_iff)
  show "nextEffect w1 ?a (snd (analyzeTextContent f x content w))"
    unfolding w nextEffect_iff using r1 r2 by simp
  show "?c \<in> set (effectsSince w1 (snd (analyzeTextContent f x content w)))"
    unfolding w effectsSince_def using r1 r2 by simp
qed

text \<open>Three failed attempts from a fresh world, with the world they leave.\<close>

lemma callGeminiWithRetry_throwing_world:
  assumes "k \<noteq> []"
  shows "callGeminiWithRetry f (throwing e) prompt cfg (freshWorld (Some k)) =
     (Inl (exhausted f e),
      \<lparr>ai = Some (GoogleGenAI k), gemini_api_key = Some k,
       events = handleEvents f k @
         [GenerateContent (GoogleGenAI k) \<lparr>model = theModel, contents = prompt, config = Some cfg\<rparr>,
          SetTimeout 1000,
          GenerateContent (GoogleGenAI k) \<lparr>model = theModel, contents = prompt, config = Some cfg\<rparr>,
          SetTimeout 1000,
          GenerateContent (GoogleGenAI k) \<lparr>model = theModel, contents = prompt, config = Some cfg\<rparr>]\<rparr>)"
proof -
  have "getAiInstance f (throwing e) (freshWorld (Some k)) =
     (Inr (GoogleGenAI k),
      \<lparr>ai = Some (GoogleGenAI k), gemini_api_key = Some k, events = handleEvents f k\<rparr>)"
    using assms by (intro getAiInstance_fresh) (simp_all add: throwing_def)
  then show ?thesis
    by (simp add: callGeminiWithRetry_def
          retryLoop_three_failures [where ?e0.0 = e and ?e1.0 = e and ?e2.0 = e] tryBody_throwing)
qed

lemma longText_nonempty: "longText c \<noteq> []"
  by (simp add: longText_def)

lemma longText_prefixes:
  "take 8000 (longText c) = replicate 8000 97"
  "take 4000 (longText c) = replicate 4000 97"
  "take 100000 (longText c) = replicate 100000 97"
  by (simp_all add: longText_def)

text \<open>
  C10, as the claim states it, fails for the four operations that embed their input
  whole: both translations, the video description and the script. Two texts that
  agree on their first 100000 code units and differ in the next one make the
  translation into English send different requests.
\<close>

theorem whole_input_counterexample:
  "take 100000 (longText 98) = take 100000 (longText 99) \<and>
   requests (snd (translateToEnglish Services (throwing NonError) (longText 98)
                    (freshWorld (Some (asc ''k''))))) \<noteq>
   requests (snd (translateToEnglish Services (throwing NonError) (longText 99)
                    (freshWorld (Some (asc ''k'')))))"
proof -
  have k: "asc ''k'' \<noteq> []" by (simp add: asc_def)
  have d: "longText 98 \<noteq> longText 99" by (simp add: longText_def)
  show ?thesis
    using d
    by (simp add: translateToEnglish_def longText_nonempty longText_prefixes
          callGeminiWithRetry_throwing_world [OF k] requests_def isRequest_def handleEvents_def)
qed

text \<open>
  C10, amended. Eleven operations embed a prefix of their input and nothing else of it.
  Two inputs that agree on their first 8000 code units give the same outcome and the
  same effects, requests included, for categorization and content suggestions; on
  their first 4000 for book description and title extraction; on their first 100000
  for analysis, summarization, quiz, sentiment, keywords, article design and rating.
  The prefix is embedded in full: on a non-empty input, once the handle is obtained,
  the first effect of each of them is the request whose prompt is the template with
  the first 8000, 4000 or 100000 code units of the input in its hole, and analysis also
  sends its categorization request with the first 8000. The other four embed the whole
  input: the first effect of a translation or of the video description on a non-empty
  input, and of the script on any input, is the request whose prompt holds the input
  entire.
\<close>

theorem prompt_depends_on_prefix:
  "(take 8000 c1 = take 8000 c2 \<longrightarrow>
      categorizeContent f x c1 w = categorizeContent f x c2 w \<and>
      generateContentSuggestions f x c1 w = generateContentSuggestions f x c2 w) \<and>
   (take 4000 c1 = take 4000 c2 \<longrightarrow>
      generateBookDescription f x c1 w = generateBookDescription f x c2 w \<and>
      extractBookTitle f x c1 w = extractBookTitle f x c2 w) \<and>
   (take 100000 c1 = take 100000 c2 \<longrightarrow>
      analyzeTextContent f x c1 w = analyzeTextContent f x c2 w \<and>
      summarizeContent f x c1 w = summarizeContent f x c2 w \<and>
      createQuiz f x c1 questionCount w = createQuiz f x c2 questionCount w \<and>
      analyzeSentiment f x c1 w = analyzeSentiment f x c2 w \<and>
      extractKeywords f x c1 w = extractKeywords f x c2 w \<and>
      designArticleFromContent f x c1 w = designArticleFromContent f x c2 w \<and>
      rateContent f x c1 w = rateContent f x c2 w) \<and>
   (content \<noteq> [] \<and> getAiInstance f x w = (Inr h, w1) \<longrightarrow>
      nextEffect w1
        (GenerateContent h
           \<lparr>model = theModel,
            contents = tpl_categories_0 @ take 8000 content @ tpl_categories_1,
            config = Some (jsonConfig categoriesSchema)\<rparr>)
        (snd (categorizeContent f x content w)) \<and>
      nextEffect w1
        (GenerateContent h
           \<lparr>model = theModel,
            contents = tpl_suggestions_0 @ take 8000 content @ tpl_suggestions_1,
            config = Some (jsonConfig suggestionsSchema)\<rparr>)
        (snd (generateContentSuggestions f x content w)) \<and>
      nextEffect w1
        (GenerateContent h
           \<lparr>model = theModel,
            contents = tpl_bookDescription_0 @ take 4000 content @ tpl_bookDescription_1,
            config = Some noConfig\<rparr>)
        (snd (generateBookDescription f x content w)) \<and>
      nextEffect w1
        (GenerateContent h
           \<lparr>model = theModel,
            contents = tpl_bookTitle_0 @ take 4000 content @ tpl_bookTitle_1,
            config = Some noConfig\<rparr>)
        (snd (extractBookTitle f x content w)) \<and>
      nextEffect w1
        (GenerateContent h
           \<lparr>model = theModel,
            contents = tpl_analysis_0 @ take 100000 content @ tpl_analysis_1,
            config = Some noConfig\<rparr>)
        (snd (analyzeTextContent f x content w)) \<and>
      GenerateContent h
        \<lparr>model = theModel,
         contents = tpl_categories_0 @ take 8000 content @ tpl_categories_1,
         config = Some (jsonConfig categoriesSchema)\<rparr>
        \<in> set (effectsSince w1 (snd (analyzeTextContent f x content w))) \<and>
      nextEffect w1
        (GenerateContentStream h
           \<lparr>model = theModel,
            contents = tpl_summary_0 @ take 100000 content @ tpl_summary_1,
            config = None\<rparr>)
        (snd (summarizeContent f x content w)) \<and>
      nextEffect w1
        (GenerateContent h
           \<lparr>model = theModel,
            contents = tpl_quiz_0 @ Number_toString x questionCount @ tpl_quiz_1 @
                       take 100000 content @ tpl_quiz_2,
            config = Some (jsonConfig quizSchema)\<rparr>)
        (snd (createQuiz f x content questionCount w)) \<and>
      nextEffect w1
        (GenerateContent h
           \<lparr>model = theModel,
            contents = tpl_sentiment_0 @ take 100000 content @ tpl_sentiment_1,
            config = Some (jsonConfig sentimentSchema)\<rparr>)
        (snd (analyzeSentiment f x content w)) \<and>
      nextEffect w1
        (GenerateContent h
           \<lparr>model = theModel,
            contents = tpl_keywords_0 @ take 100000 content @ tpl_keywords_1,
            config = Some (jsonConfig keywordsSchema)\<rparr>)
        (snd (extractKeywords f x content w)) \<and>
      nextEffect w1
        (GenerateContent h
           \<lparr>model = theModel,
            contents = tpl_article_0 @ take 100000 content @ tpl_article_1,
            config = Some noConfig\<rparr>)
        (snd (designArticleFromContent f x content w)) \<and>
      nextEffect w1
        (GenerateContent h
           \<lparr>model = theModel,
            contents = tpl_rating_0 @ take 100000 content @ tpl_rating_1,
            config = Some (jsonConfig ratingSchema)\<rparr>)
        (snd (rateContent f x content w)) \<and>
      nextEffect w1
        (GenerateContent h
           \<lparr>model = theModel,
            contents = tpl_toEnglish_0 @ content @ tpl_toEnglish_1,
            config = Some noConfig\<rparr>)
        (snd (translateToEnglish f x content w)) \<and>
      nextEffect w1
        (GenerateContent h
           \<lparr>model = theModel,
            contents = tpl_toArabic_0 @ content @ tpl_toArabic_1,
            config = Some noConfig\<rparr>)
        (snd (translateToArabic f x content w)) \<and>
      nextEffect w1
        (GenerateContent h
           \<lparr>model = theModel,
            contents = tpl_videoDescription_0 @ content @ tpl_videoDescription_1,
            config = Some noConfig\<rparr>)
        (snd (generateVideoDescription f x content w))) \<and>
   (getAiInstance f x w = (Inr h, w1) \<longrightarrow>
      nextEffect w1
        (GenerateContent h
           \<lparr>model = theModel,
            contents = tpl_script_0 @ title @ tpl_script_1 @ description @ tpl_script_2,
            config = Some noConfig\<rparr>)
        (snd (generateScriptFromInfo f x title description w)))"
proof -
  have cat: "categorizeContent f x c1 w = categorizeContent f x c2 w"
    if "take 8000 c1 = take 8000 c2" for w
    using that take_eq_Nil_iff [OF that]
    by (simp add: categorizeContent_def categorizeTry_def substring0_def)
  have sug: "generateContentSuggestions f x c1 w = generateContentSuggestions f x c2 w"
    if "take 8000 c1 = take 8000 c2"
    using that take_eq_Nil_iff [OF that]
    by (simp add: generateContentSuggestions_def substring0_def)
  have four: "generateBookDescription f x c1 w = generateBookDescription f x c2 w \<and>
      extractBookTitle f x c1 w = extractBookTitle f x c2 w"
    if "take 4000 c1 = take 4000 c2"
    using that take_eq_Nil_iff [OF that]
    by (simp add: generateBookDescription_def extractBookTitle_def substring0_def)
  have big: "analyzeTextContent f x c1 w = analyzeTextContent f x c2 w \<and>
      summarizeContent f x c1 w = summarizeContent f x c2 w \<and>
      createQuiz f x c1 questionCount w = createQuiz f x c2 questionCount w \<and>
      analyzeSentiment f x c1 w = analyzeSentiment f x c2 w \<and>
      extractKeywords f x c1 w = extractKeywords f x c2 w \<and>
      designArticleFromContent f x c1 w = designArticleFromContent f x c2 w \<and>
      rateContent f x c1 w = rateContent f x c2 w"
    if "take 100000 c1 = take 100000 c2"
  proof -
    have e: "(c1 = []) = (c2 = [])" using take_eq_Nil_iff [OF that] by simp
    have s: "substring0 c1 100000 = substring0 c2 100000"
      using that by (simp add: substring0_def)
    have "take 8000 c1 = take 8000 c2" using take_shorter [OF that, of 8000] by simp
    then have k: "categorizeContent f x c1 = categorizeContent f x c2"
      using cat by blast
    show ?thesis
      unfolding analyzeTextContent_def summarizeContent_def createQuiz_def
        analyzeSentiment_def extractKeywords_def designArticleFromContent_def
        rateContent_def rateTry_def s e k
      by simp
  qed
  have req: "nextEffect w1
        (GenerateContent h \<lparr>model = theModel, contents = p, config = Some cfg\<rparr>)
        (snd (callGeminiWithRetry f x p cfg w))"
    if "getAiInstance f x w = (Inr h, w1)" for p cfg
    using that by (rule callGeminiWithRetry_next)
  have script: "nextEffect w1
        (GenerateContent h
           \<lparr>model = theModel,
            contents = tpl_script_0 @ title @ tpl_script_1 @ description @ tpl_script_2,
            config = Some noConfig\<rparr>)
        (snd (generateScriptFromInfo f x title description w))"
    if "getAiInstance f x w = (Inr h, w1)"
    unfolding generateScriptFromInfo_def using that by (rule req)
  have direct: "nextEffect w1
        (GenerateContent h
           \<lparr>model = theModel,
            contents = tpl_bookDescription_0 @ take 4000 content @ tpl_bookDescription_1,
            config = Some noConfig\<rparr>)
        (snd (generateBookDescription f x content w)) \<and>
      nextEffect w1
        (GenerateContent h
           \<lparr>model = theModel,
            contents = tpl_bookTitle_0 @ take 4000 content @ tpl_bookTitle_1,
            config = Some noConfig\<rparr>)
        (snd (extractBookTitle f x content w)) \<and>
      nextEffect w1
        (GenerateContent h
           \<lparr>model = theModel,
            contents = tpl_article_0 @ take 100000 content @ tpl_article_1,
            config = Some noConfig\<rparr>)
        (snd (designArticleFromContent f x content w)) \<and>
      nextEffect w1
        (GenerateContent h
           \<lparr>model = theModel,
            contents = tpl_toEnglish_0 @ content @ tpl_toEnglish_1,
            config = Some noConfig\<rparr>)
        (snd (translateToEnglish f x content w)) \<and>
      nextEffect w1
        (GenerateContent h
           \<lparr>model = theModel,
            contents = tpl_toArabic_0 @ content @ tpl_toArabic_1,
            config = Some noConfig\<rparr>)
        (snd (translateToArabic f x content w)) \<and>
      nextEffect w1
        (GenerateContent h
           \<lparr>model = theModel,
            contents = tpl_videoDescription_0 @ content @ tpl_videoDescription_1,
            config = Some noConfig\<rparr>)
        (snd (generateVideoDescription f x content w))"
    if "content \<noteq> []" and "getAiInstance f x w = (Inr h, w1)"
    using that(1) req [OF that(2)]
    by (simp add: generateBookDescription_def extractBookTitle_def designArticleFromContent_def
          translateToEnglish_def translateToArabic_def generateVideoDescription_def substring0_def)
  have decoded: "nextEffect w1
        (GenerateContent h
           \<lparr>model = theModel,
            contents = tpl_categories_0 @ take 8000 content @ tpl_categories_1,
            config = Some (jsonConfig categoriesSchema)\<rparr>)
        (snd (categorizeContent f x content w)) \<and>
      nextEffect w1
        (GenerateContent h
           \<lparr>model = theModel,
            contents = tpl_suggestions_0 @ take 8000 content @ tpl_suggestions_1,
            config = Some (jsonConfig suggestionsSchema)\<rparr>)
        (snd (generateContentSuggestions f x content w)) \<and>
      nextEffect w1
        (GenerateContent h
           \<lparr>model = theModel,
            contents = tpl_quiz_0 @ Number_toString x questionCount @ tpl_quiz_1 @
                       take 100000 content @ tpl_quiz_2,
            config = Some (jsonConfig quizSchema)\<rparr>)
        (snd (createQuiz f x content questionCount w)) \<and>
      nextEffect w1
        (GenerateContent h
           \<lparr>model = theModel,
            contents = tpl_sentiment_0 @ take 100000 content @ tpl_sentiment_1,
            config = Some (jsonConfig sentimentSchema)\<rparr>)
        (snd (analyzeSentiment f x content w)) \<and>
      nextEffect w1
        (GenerateContent h
           \<lparr>model = theModel,
            contents = tpl_keywords_0 @ take 100000 content @ tpl_keywords_1,
            config = Some (jsonConfig keywordsSchema)\<rparr>)
        (snd (extractKeywords f x content w)) \<and>
      nextEffect w1
        (GenerateContent h
           \<lparr>model = theModel,
            contents = tpl_rating_0 @ take 100000 content @ tpl_rating_1,
            config = Some (jsonConfig ratingSchema)\<rparr>)
        (snd (rateContent f x content w))"
    if "content \<noteq> []" and "getAiInstance f x w = (Inr h, w1)"
    unfolding categorizeContent_world operation_worlds(1-5) [OF that(1)]
    using that(1) req [OF that(2)] by (simp add: substring0_def)
  have rest: "nextEffect w1
        (GenerateContent h
           \<lparr>model = theModel,
            contents = tpl_analysis_0 @ take 100000 content @ tpl_analysis_1,
            config = Some noConfig\<rparr>)
        (snd (analyzeTextContent f x content w)) \<and>
      GenerateContent h
        \<lparr>model = theModel,
         contents = tpl_categories_0 @ take 8000 content @ tpl_categories_1,
         config = Some (jsonConfig categoriesSchema)\<rparr>
        \<in> set (effectsSince w1 (snd (analyzeTextContent f x content w))) \<and>
      nextEffect w1
        (GenerateContentStream h
           \<lparr>model = theModel,
            contents = tpl_summary_0 @ take 100000 content @ tpl_summary_1,
            config = None\<rparr>)
        (snd (summarizeContent f x content w))"
    if "content \<noteq> []" and "getAiInstance f x w = (Inr h, w1)"
    using analyzeTextContent_next [OF that] summarizeContent_next [OF that]
    by (simp add: substring0_def)
  show ?thesis using cat sug four big script direct decoded rest by blast
qed

theorem prompt_depends_on_prefix_witness:
  "longText 98 \<noteq> longText 99 \<and>
   categorizeContent Services (throwing NonError) (longText 98) (freshWorld (Some (asc ''k''))) =
   categorizeContent Services (throwing NonError) (longText 99) (freshWorld (Some (asc ''k''))) \<and>
   extractBookTitle Services (throwing NonError) (longText 98) (freshWorld (Some (asc ''k''))) =
   extractBookTitle Services (throwing NonError) (longText 99) (freshWorld (Some (asc ''k''))) \<and>
   rateContent Services (throwing NonError) (longText 98) (freshWorld (Some (asc ''k''))) =
   rateContent Services (throwing NonError) (longText 99) (freshWorld (Some (asc ''k''))) \<and>
   take 4 (events (snd (extractBookTitle Services (throwing NonError) (longText 98)
                          (freshWorld (Some (asc ''k'')))))) =
     [ReadEnv, GetItem, Construct (asc ''k''),
      GenerateContent (GoogleGenAI (asc ''k''))
        \<lparr>model = theModel,
         contents = tpl_bookTitle_0 @ replicate 4000 97 @ tpl_bookTitle_1,
         config = Some noConfig\<rparr>] \<and>
   take 4 (events (snd (generateScriptFromInfo Services (throwing NonError) (longText 98) (longText 99)
                          (freshWorld (Some (asc ''k'')))))) =
     [ReadEnv, GetItem, Construct (asc ''k''),
      GenerateContent (GoogleGenAI (asc ''k''))
        \<lparr>model = theModel,
         contents = tpl_script_0 @ longText 98 @ tpl_script_1 @ longText 99 @ tpl_script_2,
         config = Some noConfig\<rparr>]"
proof -
  let ?w1 = "\<lparr>ai = Some (GoogleGenAI (asc ''k'')), gemini_api_key = Some (asc ''k''),
              events = handleEvents Services (asc ''k'')\<rparr>"
  have t: "take 8000 (longText 98) = take 8000 (longText 99)"
    "take 4000 (longText 98) = take 4000 (longText 99)"
    "take 100000 (longText 98) = take 100000 (longText 99)"
    by (simp_all add: longText_prefixes)
  have d: "longText 98 \<noteq> longText 99" by (simp add: longText_def)
  have l: "Suc (length (events ?w1)) = 4" by (simp add: handleEvents_def)
  have ev: "events ?w1 @ [e] = [ReadEnv, GetItem, Construct (asc ''k''), e]" for e
    by (simp add: handleEvents_def)
  have g: "getAiInstance Services (throwing NonError) (freshWorld (Some (asc ''k''))) =
           (Inr (GoogleGenAI (asc ''k'')), ?w1)"
    by (intro getAiInstance_fresh) (simp_all add: throwing_def asc_def)
  note p = prompt_depends_on_prefix [of "longText 98" "longText 99" Services "throwing NonError"
      "freshWorld (Some (asc ''k''))" _ "longText 98" "GoogleGenAI (asc ''k'')" ?w1
      "longText 98" "longText 99"]
  have e: "categorizeContent Services (throwing NonError) (longText 98) (freshWorld (Some (asc ''k''))) =
      categorizeContent Services (throwing NonError) (longText 99) (freshWorld (Some (asc ''k''))) \<and>
      extractBookTitle Services (throwing NonError) (longText 98) (freshWorld (Some (asc ''k''))) =
      extractBookTitle Services (throwing NonError) (longText 99) (freshWorld (Some (asc ''k''))) \<and>
      rateContent Services (throwing NonError) (longText 98) (freshWorld (Some (asc ''k''))) =
      rateContent Services (throwing NonError) (longText 99) (freshWorld (Some (asc ''k'')))"
    using p t by blast
  have "nextEffect ?w1
        (GenerateContent (GoogleGenAI (asc ''k''))
           \<lparr>model = theModel,
            contents = tpl_bookTitle_0 @ take 4000 (longText 98) @ tpl_bookTitle_1,
            config = Some noConfig\<rparr>)
        (snd (extractBookTitle Services (throwing NonError) (longText 98)
                (freshWorld (Some (asc ''k'')))))"
    using p g longText_nonempty [of 98] by blast
  then have n1: "take 4 (events (snd (extractBookTitle Services (throwing NonError) (longText 98)
                          (freshWorld (Some (asc ''k'')))))) =
     [ReadEnv, GetItem, Construct (asc ''k''),
      GenerateContent (GoogleGenAI (asc ''k''))
        \<lparr>model = theModel,
         contents = tpl_bookTitle_0 @ replicate 4000 97 @ tpl_bookTitle_1,
         config = Some noConfig\<rparr>]"
    unfolding nextEffect_def l ev longText_prefixes .
  have "nextEffect ?w1
        (GenerateContent (GoogleGenAI (asc ''k''))
           \<lparr>model = theModel,
            contents = tpl_script_0 @ longText 98 @ tpl_script_1 @ longText 99 @ tpl_script_2,
            config = Some noConfig\<rparr>)
        (snd (generateScriptFromInfo Services (throwing NonError) (longText 98) (longText 99)
                (freshWorld (Some (asc ''k'')))))"
    using p g by blast
  then have n2: "take 4 (events (snd (generateScriptFromInfo Services (throwing NonError)
                          (longText 98) (longText 99) (freshWorld (Some (asc ''k'')))))) =
     [ReadEnv, GetItem, Construct (asc ''k''),
      GenerateContent (GoogleGenAI (asc ''k''))
        \<lparr>model = theModel,
         contents = tpl_script_0 @ longText 98 @ tpl_script_1 @ longText 99 @ tpl_script_2,
         config = Some noConfig\<rparr>]"
    unfolding nextEffect_def l ev .
  show ?thesis using d e n1 n2 by blast
qed

end
